theory Spec2Isabelle
  imports Complex_Main "HOL-Library.Word" "HOL-Library.Signed_Division" "HOL-Library.State_Monad"
begin

unbundle bit_operations_syntax

section \<open>The guest CPU state and the micro-op language\<close>

text \<open>
  The translator of \<^verbatim>\<open>arch/riscv/translate.c\<close> does not execute guest instructions: it
  appends micro-ops to a buffer, and the micro-ops run later against the guest CPU state.
  The model keeps the two levels apart. The translator functions are state-monad programs
  over the translation state (the \<^verbatim>\<open>DisasContext\<close> and the micro-op buffer), written
  statement by statement as in the C source; the micro-ops are data, and \<open>exec\<close> below
  gives them their meaning. The build modelled is \<^verbatim>\<open>TARGET_RISCV64\<close>: a guest word
  (\<^verbatim>\<open>target_ulong\<close>, \<^verbatim>\<open>TCGv\<close>) has 64 bits.
\<close>

type_synonym target_ulong = "64 word"

definition TARGET_LONG_BITS :: nat where
  "TARGET_LONG_BITS = 64"

record CPUState =
  gpr :: "nat \<Rightarrow> target_ulong"
  fpr :: "nat \<Rightarrow> 64 word"
  env_pc :: target_ulong
  env_load_res :: target_ulong
  mstatus :: target_ulong
  badaddr :: target_ulong
  exception_index :: "32 word"
  misa :: target_ulong
  priv :: target_ulong
  env_singlestep_enabled :: bool
  breakpoints :: "target_ulong list"
  vl :: target_ulong
  vtype :: target_ulong
  vsew :: target_ulong
  vlmul :: target_ulong
  vflmul :: rat
  vlmax :: target_ulong
  vstart :: target_ulong
  vill :: bool
  vta :: target_ulong
  vma :: target_ulong
  vlenb :: target_ulong
  elen :: target_ulong
  vr :: "nat \<Rightarrow> 8 word"

text \<open>
  A \<^verbatim>\<open>TCGv\<close> handle: one of the global registers declared at the top of
  \<^verbatim>\<open>translate.c\<close> (\<^verbatim>\<open>cpu_gpr[i]\<close>, \<^verbatim>\<open>cpu_fpr[i]\<close>, \<^verbatim>\<open>cpu_pc\<close>,
  \<^verbatim>\<open>load_res\<close>), each an alias of a field of the CPU state, or a temporary.
\<close>

datatype TCGv = cpu_gpr nat | cpu_fpr nat | cpu_pc | load_res | tcg_temp nat

datatype TCGCond =
  TCG_COND_EQ | TCG_COND_NE | TCG_COND_LT | TCG_COND_GE
  | TCG_COND_LTU | TCG_COND_GEU | TCG_COND_GT | TCG_COND_GTU

datatype TCGArg = Reg TCGv | Imm target_ulong

datatype binop =
  op_add | op_sub | op_and | op_or | op_xor | op_shl | op_shr | op_sar
  | op_mul | op_div | op_divu | op_rem | op_remu

datatype unop = op_ext32s | op_ext32u | op_not

datatype helper =
  helper_raise_exception | helper_raise_exception_mbadaddr | helper_raise_exception_debug
  | helper_named string

datatype tcg_op =
  INDEX_op_mov TCGv TCGArg
  | INDEX_op_arith binop TCGv TCGv TCGArg
  | INDEX_op_unary unop TCGv TCGv
  | INDEX_op_setcond TCGCond TCGv TCGv TCGArg
  | INDEX_op_movcond TCGCond TCGv TCGv TCGv TCGv TCGv
  | INDEX_op_mul2 bool TCGv TCGv TCGv TCGv
  | INDEX_op_ld_mstatus TCGv
  | INDEX_op_qemu_ld nat bool TCGv TCGv nat
  | INDEX_op_qemu_st nat TCGv TCGv nat
  | INDEX_op_brcond TCGCond TCGv TCGArg nat
  | INDEX_op_br nat
  | INDEX_op_set_label nat
  | INDEX_op_goto_tb nat
  | INDEX_op_exit_tb "nat option"
  | INDEX_op_call helper "TCGv option" "TCGv list"

subsection \<open>Meaning of the micro-ops\<close>

text \<open>
  Modelled from the spec: the micro-op interpreter (\<^verbatim>\<open>tcg-op.h\<close> and the host back
  end) is not among the sources. Section 4.2 of the specification names the capabilities;
  their meaning here is the one of TCG: two's complement arithmetic on guest words, a shift
  whose count is not below the word size and a division by zero or with overflow are
  unspecified (\<open>None\<close>), \<^verbatim>\<open>movcond\<close> selects its first value when the condition holds,
  a taken branch resumes at its label, and a runtime helper that raises a guest exception
  leaves the generated code at once.
\<close>

record machine =
  cpu :: CPUState
  temps :: "nat \<Rightarrow> target_ulong"
  ram :: "target_ulong \<Rightarrow> 8 word"

fun get_v :: "machine \<Rightarrow> TCGv \<Rightarrow> target_ulong" where
  "get_v m (cpu_gpr i) = gpr (cpu m) i"
| "get_v m (cpu_fpr i) = fpr (cpu m) i"
| "get_v m cpu_pc = env_pc (cpu m)"
| "get_v m load_res = env_load_res (cpu m)"
| "get_v m (tcg_temp n) = temps m n"

fun set_v :: "TCGv \<Rightarrow> target_ulong \<Rightarrow> machine \<Rightarrow> machine" where
  "set_v (cpu_gpr i) v m = m\<lparr>cpu := (cpu m)\<lparr>gpr := (gpr (cpu m))(i := v)\<rparr>\<rparr>"
| "set_v (cpu_fpr i) v m = m\<lparr>cpu := (cpu m)\<lparr>fpr := (fpr (cpu m))(i := v)\<rparr>\<rparr>"
| "set_v cpu_pc v m = m\<lparr>cpu := (cpu m)\<lparr>env_pc := v\<rparr>\<rparr>"
| "set_v load_res v m = m\<lparr>cpu := (cpu m)\<lparr>env_load_res := v\<rparr>\<rparr>"
| "set_v (tcg_temp n) v m = m\<lparr>temps := (temps m)(n := v)\<rparr>"

fun get_arg :: "machine \<Rightarrow> TCGArg \<Rightarrow> target_ulong" where
  "get_arg m (Reg v) = get_v m v"
| "get_arg m (Imm c) = c"

fun tcg_cond :: "TCGCond \<Rightarrow> target_ulong \<Rightarrow> target_ulong \<Rightarrow> bool" where
  "tcg_cond TCG_COND_EQ a b = (a = b)"
| "tcg_cond TCG_COND_NE a b = (a \<noteq> b)"
| "tcg_cond TCG_COND_LT a b = (a <s b)"
| "tcg_cond TCG_COND_GE a b = (b \<le>s a)"
| "tcg_cond TCG_COND_LTU a b = (a < b)"
| "tcg_cond TCG_COND_GEU a b = (b \<le> a)"
| "tcg_cond TCG_COND_GT a b = (b <s a)"
| "tcg_cond TCG_COND_GTU a b = (b < a)"

definition INT_MIN_tl :: target_ulong where
  "INT_MIN_tl = push_bit (TARGET_LONG_BITS - 1) 1"

fun tcg_binop :: "binop \<Rightarrow> target_ulong \<Rightarrow> target_ulong \<Rightarrow> target_ulong option" where
  "tcg_binop op_add a b = Some (a + b)"
| "tcg_binop op_sub a b = Some (a - b)"
| "tcg_binop op_and a b = Some (a AND b)"
| "tcg_binop op_or a b = Some (a OR b)"
| "tcg_binop op_xor a b = Some (a XOR b)"
| "tcg_binop op_mul a b = Some (a * b)"
| "tcg_binop op_shl a b =
     (if unat b < TARGET_LONG_BITS then Some (push_bit (unat b) a) else None)"
| "tcg_binop op_shr a b =
     (if unat b < TARGET_LONG_BITS then Some (drop_bit (unat b) a) else None)"
| "tcg_binop op_sar a b =
     (if unat b < TARGET_LONG_BITS then Some (signed_drop_bit (unat b) a) else None)"
| "tcg_binop op_div a b =
     (if b = 0 \<or> (a = INT_MIN_tl \<and> b = - 1) then None
      else Some (word_of_int (sint a sdiv sint b)))"
| "tcg_binop op_rem a b =
     (if b = 0 \<or> (a = INT_MIN_tl \<and> b = - 1) then None
      else Some (word_of_int (sint a smod sint b)))"
| "tcg_binop op_divu a b = (if b = 0 then None else Some (a div b))"
| "tcg_binop op_remu a b = (if b = 0 then None else Some (a mod b))"

fun tcg_unop :: "unop \<Rightarrow> target_ulong \<Rightarrow> target_ulong" where
  "tcg_unop op_ext32s a = scast (ucast a :: 32 word)"
| "tcg_unop op_ext32u a = ucast (ucast a :: 32 word)"
| "tcg_unop op_not a = NOT a"

text \<open>Guest memory is little-endian and byte addressed; \<open>n\<close> counts bytes.\<close>

fun ld_bytes :: "(target_ulong \<Rightarrow> 8 word) \<Rightarrow> target_ulong \<Rightarrow> nat \<Rightarrow> 8 word list" where
  "ld_bytes mem a 0 = []"
| "ld_bytes mem a (Suc n) = mem a # ld_bytes mem (a + 1) n"

fun st_bytes :: "target_ulong \<Rightarrow> 8 word list \<Rightarrow> (target_ulong \<Rightarrow> 8 word) \<Rightarrow> (target_ulong \<Rightarrow> 8 word)" where
  "st_bytes a [] mem = mem"
| "st_bytes a (b # bs) mem = st_bytes (a + 1) bs (mem(a := b))"

fun le_val :: "8 word list \<Rightarrow> 'a::len word" where
  "le_val [] = 0"
| "le_val (b # bs) = ucast b OR push_bit 8 (le_val bs)"

fun le_bytes :: "nat \<Rightarrow> 'a::len word \<Rightarrow> 8 word list" where
  "le_bytes 0 v = []"
| "le_bytes (Suc n) v = ucast v # le_bytes n (drop_bit 8 v)"

definition sign_extend :: "nat \<Rightarrow> target_ulong \<Rightarrow> target_ulong" where
  "sign_extend n v = signed_take_bit (n - 1) v"

definition qemu_ld :: "nat \<Rightarrow> bool \<Rightarrow> (target_ulong \<Rightarrow> 8 word) \<Rightarrow> target_ulong \<Rightarrow> target_ulong" where
  "qemu_ld n sg mem a =
     (let v = le_val (ld_bytes mem a n) in if sg then sign_extend (8 * n) v else v)"

definition qemu_st :: "nat \<Rightarrow> target_ulong \<Rightarrow> target_ulong \<Rightarrow> (target_ulong \<Rightarrow> 8 word) \<Rightarrow> (target_ulong \<Rightarrow> 8 word)" where
  "qemu_st n v a mem = st_bytes a (le_bytes n v) mem"

text \<open>
  What running a piece of generated code ends in: it runs off its end, it leaves the
  block through \<^verbatim>\<open>exit_tb\<close>, a helper raises a guest exception (the exception number
  is then in \<open>exception_index\<close>), or a micro-op was used outside its specified range.
\<close>

datatype outcome =
  Fallthrough machine | Exited "nat option" machine | Raised machine | Unspecified

text \<open>
  A helper either returns a value and a new CPU state, or raises. The meaning of the
  helpers other than the three exception helpers is a parameter of \<open>exec\<close>.
\<close>

datatype helper_result = Returns target_ulong CPUState | Raises CPUState

type_synonym helpers = "string \<Rightarrow> CPUState \<Rightarrow> target_ulong list \<Rightarrow> helper_result"

text \<open>
  Modelled from the spec: the exception helpers of \<^verbatim>\<open>op_helper.c\<close> are not among the
  sources. Section 6 lists \<^verbatim>\<open>raise_exception(n)\<close> and
  \<^verbatim>\<open>raise_exception_mbadaddr(n, addr)\<close>: they record the exception number, the second
  one also the bad address (the \<^verbatim>\<open>mtval\<close> of the trap), and do not return.
\<close>

definition EXCP_DEBUG :: "32 word" where
  "EXCP_DEBUG = 0x10002"

fun call_helper :: "helpers \<Rightarrow> helper \<Rightarrow> CPUState \<Rightarrow> target_ulong list \<Rightarrow> helper_result" where
  "call_helper H helper_raise_exception e args = Raises (e\<lparr>exception_index := ucast (hd args)\<rparr>)"
| "call_helper H helper_raise_exception_mbadaddr e args =
     Raises (e\<lparr>badaddr := hd (tl args), exception_index := ucast (hd args)\<rparr>)"
| "call_helper H helper_raise_exception_debug e args = Raises (e\<lparr>exception_index := EXCP_DEBUG\<rparr>)"
| "call_helper H (helper_named f) e args = H f e args"

datatype step_result = Continue machine | Goto nat machine | Stop outcome

fun step :: "helpers \<Rightarrow> tcg_op \<Rightarrow> machine \<Rightarrow> step_result" where
  "step H (INDEX_op_mov d a) m = Continue (set_v d (get_arg m a) m)"
| "step H (INDEX_op_arith f d a b) m =
     (case tcg_binop f (get_v m a) (get_arg m b) of
        None \<Rightarrow> Stop Unspecified
      | Some v \<Rightarrow> Continue (set_v d v m))"
| "step H (INDEX_op_unary f d a) m = Continue (set_v d (tcg_unop f (get_v m a)) m)"
| "step H (INDEX_op_setcond c d a b) m =
     Continue (set_v d (if tcg_cond c (get_v m a) (get_arg m b) then 1 else 0) m)"
| "step H (INDEX_op_movcond c d c1 c2 v1 v2) m =
     Continue (set_v d (if tcg_cond c (get_v m c1) (get_v m c2) then get_v m v1 else get_v m v2) m)"
| "step H (INDEX_op_mul2 sg lo hi a b) m =
     (let x = get_v m a; y = get_v m b;
          p = (if sg then sint x * sint y else uint x * uint y)
      in Continue (set_v hi (word_of_int (p div 2 ^ TARGET_LONG_BITS)) (set_v lo (word_of_int p) m)))"
| "step H (INDEX_op_ld_mstatus d) m = Continue (set_v d (mstatus (cpu m)) m)"
| "step H (INDEX_op_qemu_ld n sg d a idx) m =
     Continue (set_v d (qemu_ld n sg (ram m) (get_v m a)) m)"
| "step H (INDEX_op_qemu_st n v a idx) m =
     Continue (m\<lparr>ram := qemu_st n (get_v m v) (get_v m a) (ram m)\<rparr>)"
| "step H (INDEX_op_brcond c a b l) m =
     (if tcg_cond c (get_v m a) (get_arg m b) then Goto l m else Continue m)"
| "step H (INDEX_op_br l) m = Goto l m"
| "step H (INDEX_op_set_label l) m = Continue m"
| "step H (INDEX_op_goto_tb n) m = Continue m"
| "step H (INDEX_op_exit_tb n) m = Stop (Exited n m)"
| "step H (INDEX_op_call h ret args) m =
     (case call_helper H h (cpu m) (map (get_v m) args) of
        Raises e \<Rightarrow> Stop (Raised (m\<lparr>cpu := e\<rparr>))
      | Returns v e \<Rightarrow>
          Continue (case ret of None \<Rightarrow> m\<lparr>cpu := e\<rparr> | Some d \<Rightarrow> set_v d v (m\<lparr>cpu := e\<rparr>)))"

text \<open>
  \<open>exec H None ops\<close> runs \<open>ops\<close>; \<open>exec H (Some l) ops\<close> is looking for label
  \<open>l\<close> after a taken branch (the translator only branches forward).
\<close>

fun exec :: "helpers \<Rightarrow> nat option \<Rightarrow> tcg_op list \<Rightarrow> machine \<Rightarrow> outcome" where
  "exec H None [] m = Fallthrough m"
| "exec H (Some l) [] m = Unspecified"
| "exec H (Some l) (x # xs) m =
     (if x = INDEX_op_set_label l then exec H None xs m else exec H (Some l) xs m)"
| "exec H None (x # xs) m =
     (case step H x m of
        Continue m' \<Rightarrow> exec H None xs m'
      | Goto l m' \<Rightarrow> exec H (Some l) xs m'
      | Stop out \<Rightarrow> out)"


section \<open>The translator\<close>

subsection \<open>Translation state and the emitter interface\<close>

datatype BS = BS_NONE | BS_STOP | BS_BRANCH

record DisasContext =
  pc :: target_ulong
  next_pc :: target_ulong
  opcode :: "32 word"
  singlestep_enabled :: bool
  mem_idx :: nat
  bstate :: BS

record TranslationBlock =
  tb_pc :: target_ulong
  tb_size :: nat
  tb_icount :: nat
  tb_prev_size :: nat
  tb_original_size :: nat
  tb_search_pc :: bool
  tb_disas_flags :: "32 word"

text \<open>
  The state a translator function works on: the \<^verbatim>\<open>DisasContext\<close> it gets by pointer,
  the block \<^verbatim>\<open>ctx->tb\<close> points to, and the global emitter state (the micro-op buffer,
  the counters that name fresh temporaries and labels, and the number of live temporaries
  that \<^verbatim>\<open>tcg_check_temp_count\<close> looks at).
\<close>

record tstate =
  ctx :: DisasContext
  tb :: TranslationBlock
  gen_opc_buf :: "tcg_op list"
  nb_temps :: nat
  nb_labels :: nat
  temps_in_use :: nat

type_synonym 'a gen = "(tstate, 'a) state"

definition read_ctx :: "(DisasContext \<Rightarrow> 'a) \<Rightarrow> 'a gen" where
  "read_ctx f = State (\<lambda>s. (f (ctx s), s))"

definition set_bstate :: "BS \<Rightarrow> unit gen" where
  "set_bstate b = State (\<lambda>s. ((), s\<lparr>ctx := (ctx s)\<lparr>bstate := b\<rparr>\<rparr>))"

text \<open>
  Modelled from the spec: the emitter functions of \<^verbatim>\<open>tcg-op.h\<close> and
  \<^verbatim>\<open>tb-helper.h\<close> are not among the sources. Each appends the micro-op it is named
  after (section 4.2); an immediate form appends the same micro-op with a constant
  operand. Temporaries and labels are named by counters; freeing a temporary only
  lowers the count of live ones. The \<^verbatim>\<open>generate_log\<close> calls of the source (logging,
  out of scope by section 1) are left out.
\<close>

definition emit :: "tcg_op \<Rightarrow> unit gen" where
  "emit x = State (\<lambda>s. ((), s\<lparr>gen_opc_buf := gen_opc_buf s @ [x]\<rparr>))"

definition tcg_temp_new :: "TCGv gen" where
  "tcg_temp_new = State (\<lambda>s. (tcg_temp (nb_temps s),
     s\<lparr>nb_temps := Suc (nb_temps s), temps_in_use := Suc (temps_in_use s)\<rparr>))"

definition tcg_temp_local_new :: "TCGv gen" where
  "tcg_temp_local_new = tcg_temp_new"

definition tcg_temp_free :: "TCGv \<Rightarrow> unit gen" where
  "tcg_temp_free t = State (\<lambda>s. ((), s\<lparr>temps_in_use := temps_in_use s - 1\<rparr>))"

definition gen_new_label :: "nat gen" where
  "gen_new_label = State (\<lambda>s. (nb_labels s, s\<lparr>nb_labels := Suc (nb_labels s)\<rparr>))"

definition tcg_gen_movi_tl :: "TCGv \<Rightarrow> target_ulong \<Rightarrow> unit gen" where
  "tcg_gen_movi_tl d c = emit (INDEX_op_mov d (Imm c))"

definition tcg_gen_mov_tl :: "TCGv \<Rightarrow> TCGv \<Rightarrow> unit gen" where
  "tcg_gen_mov_tl d a = emit (INDEX_op_mov d (Reg a))"

definition tcg_const_tl :: "target_ulong \<Rightarrow> TCGv gen" where
  "tcg_const_tl c = do { t \<leftarrow> tcg_temp_new; tcg_gen_movi_tl t c; State_Monad.return t }"

definition tcg_const_i32 :: "32 word \<Rightarrow> TCGv gen" where
  "tcg_const_i32 c = tcg_const_tl (ucast c)"

definition tcg_gen_add_tl :: "TCGv \<Rightarrow> TCGv \<Rightarrow> TCGv \<Rightarrow> unit gen" where
  "tcg_gen_add_tl d a b = emit (INDEX_op_arith op_add d a (Reg b))"

definition tcg_gen_addi_tl :: "TCGv \<Rightarrow> TCGv \<Rightarrow> target_ulong \<Rightarrow> unit gen" where
  "tcg_gen_addi_tl d a c = emit (INDEX_op_arith op_add d a (Imm c))"

definition tcg_gen_sub_tl :: "TCGv \<Rightarrow> TCGv \<Rightarrow> TCGv \<Rightarrow> unit gen" where
  "tcg_gen_sub_tl d a b = emit (INDEX_op_arith op_sub d a (Reg b))"

definition tcg_gen_and_tl :: "TCGv \<Rightarrow> TCGv \<Rightarrow> TCGv \<Rightarrow> unit gen" where
  "tcg_gen_and_tl d a b = emit (INDEX_op_arith op_and d a (Reg b))"

definition tcg_gen_andi_tl :: "TCGv \<Rightarrow> TCGv \<Rightarrow> target_ulong \<Rightarrow> unit gen" where
  "tcg_gen_andi_tl d a c = emit (INDEX_op_arith op_and d a (Imm c))"

definition tcg_gen_or_tl :: "TCGv \<Rightarrow> TCGv \<Rightarrow> TCGv \<Rightarrow> unit gen" where
  "tcg_gen_or_tl d a b = emit (INDEX_op_arith op_or d a (Reg b))"

definition tcg_gen_ori_tl :: "TCGv \<Rightarrow> TCGv \<Rightarrow> target_ulong \<Rightarrow> unit gen" where
  "tcg_gen_ori_tl d a c = emit (INDEX_op_arith op_or d a (Imm c))"

definition tcg_gen_xor_tl :: "TCGv \<Rightarrow> TCGv \<Rightarrow> TCGv \<Rightarrow> unit gen" where
  "tcg_gen_xor_tl d a b = emit (INDEX_op_arith op_xor d a (Reg b))"

definition tcg_gen_xori_tl :: "TCGv \<Rightarrow> TCGv \<Rightarrow> target_ulong \<Rightarrow> unit gen" where
  "tcg_gen_xori_tl d a c = emit (INDEX_op_arith op_xor d a (Imm c))"

definition tcg_gen_not_tl :: "TCGv \<Rightarrow> TCGv \<Rightarrow> unit gen" where
  "tcg_gen_not_tl d a = emit (INDEX_op_unary op_not d a)"

definition tcg_gen_shl_tl :: "TCGv \<Rightarrow> TCGv \<Rightarrow> TCGv \<Rightarrow> unit gen" where
  "tcg_gen_shl_tl d a b = emit (INDEX_op_arith op_shl d a (Reg b))"

definition tcg_gen_shli_tl :: "TCGv \<Rightarrow> TCGv \<Rightarrow> target_ulong \<Rightarrow> unit gen" where
  "tcg_gen_shli_tl d a c = emit (INDEX_op_arith op_shl d a (Imm c))"

definition tcg_gen_shr_tl :: "TCGv \<Rightarrow> TCGv \<Rightarrow> TCGv \<Rightarrow> unit gen" where
  "tcg_gen_shr_tl d a b = emit (INDEX_op_arith op_shr d a (Reg b))"

definition tcg_gen_shri_tl :: "TCGv \<Rightarrow> TCGv \<Rightarrow> target_ulong \<Rightarrow> unit gen" where
  "tcg_gen_shri_tl d a c = emit (INDEX_op_arith op_shr d a (Imm c))"

definition tcg_gen_sar_tl :: "TCGv \<Rightarrow> TCGv \<Rightarrow> TCGv \<Rightarrow> unit gen" where
  "tcg_gen_sar_tl d a b = emit (INDEX_op_arith op_sar d a (Reg b))"

definition tcg_gen_sari_tl :: "TCGv \<Rightarrow> TCGv \<Rightarrow> target_ulong \<Rightarrow> unit gen" where
  "tcg_gen_sari_tl d a c = emit (INDEX_op_arith op_sar d a (Imm c))"

definition tcg_gen_mul_tl :: "TCGv \<Rightarrow> TCGv \<Rightarrow> TCGv \<Rightarrow> unit gen" where
  "tcg_gen_mul_tl d a b = emit (INDEX_op_arith op_mul d a (Reg b))"

definition tcg_gen_div_tl :: "TCGv \<Rightarrow> TCGv \<Rightarrow> TCGv \<Rightarrow> unit gen" where
  "tcg_gen_div_tl d a b = emit (INDEX_op_arith op_div d a (Reg b))"

definition tcg_gen_divu_tl :: "TCGv \<Rightarrow> TCGv \<Rightarrow> TCGv \<Rightarrow> unit gen" where
  "tcg_gen_divu_tl d a b = emit (INDEX_op_arith op_divu d a (Reg b))"

definition tcg_gen_rem_tl :: "TCGv \<Rightarrow> TCGv \<Rightarrow> TCGv \<Rightarrow> unit gen" where
  "tcg_gen_rem_tl d a b = emit (INDEX_op_arith op_rem d a (Reg b))"

definition tcg_gen_remu_tl :: "TCGv \<Rightarrow> TCGv \<Rightarrow> TCGv \<Rightarrow> unit gen" where
  "tcg_gen_remu_tl d a b = emit (INDEX_op_arith op_remu d a (Reg b))"

definition tcg_gen_muls2_tl :: "TCGv \<Rightarrow> TCGv \<Rightarrow> TCGv \<Rightarrow> TCGv \<Rightarrow> unit gen" where
  "tcg_gen_muls2_tl rl rh a b = emit (INDEX_op_mul2 True rl rh a b)"

definition tcg_gen_mulu2_tl :: "TCGv \<Rightarrow> TCGv \<Rightarrow> TCGv \<Rightarrow> TCGv \<Rightarrow> unit gen" where
  "tcg_gen_mulu2_tl rl rh a b = emit (INDEX_op_mul2 False rl rh a b)"

definition tcg_gen_ext32s_tl :: "TCGv \<Rightarrow> TCGv \<Rightarrow> unit gen" where
  "tcg_gen_ext32s_tl d a = emit (INDEX_op_unary op_ext32s d a)"

definition tcg_gen_ext32u_tl :: "TCGv \<Rightarrow> TCGv \<Rightarrow> unit gen" where
  "tcg_gen_ext32u_tl d a = emit (INDEX_op_unary op_ext32u d a)"

definition tcg_gen_setcond_tl :: "TCGCond \<Rightarrow> TCGv \<Rightarrow> TCGv \<Rightarrow> TCGv \<Rightarrow> unit gen" where
  "tcg_gen_setcond_tl c d a b = emit (INDEX_op_setcond c d a (Reg b))"

definition tcg_gen_setcondi_tl :: "TCGCond \<Rightarrow> TCGv \<Rightarrow> TCGv \<Rightarrow> target_ulong \<Rightarrow> unit gen" where
  "tcg_gen_setcondi_tl c d a k = emit (INDEX_op_setcond c d a (Imm k))"

definition tcg_gen_movcond_tl ::
  "TCGCond \<Rightarrow> TCGv \<Rightarrow> TCGv \<Rightarrow> TCGv \<Rightarrow> TCGv \<Rightarrow> TCGv \<Rightarrow> unit gen" where
  "tcg_gen_movcond_tl c d c1 c2 v1 v2 = emit (INDEX_op_movcond c d c1 c2 v1 v2)"

definition tcg_gen_brcond_tl :: "TCGCond \<Rightarrow> TCGv \<Rightarrow> TCGv \<Rightarrow> nat \<Rightarrow> unit gen" where
  "tcg_gen_brcond_tl c a b l = emit (INDEX_op_brcond c a (Reg b) l)"

definition tcg_gen_brcondi_tl :: "TCGCond \<Rightarrow> TCGv \<Rightarrow> target_ulong \<Rightarrow> nat \<Rightarrow> unit gen" where
  "tcg_gen_brcondi_tl c a k l = emit (INDEX_op_brcond c a (Imm k) l)"

definition tcg_gen_br :: "nat \<Rightarrow> unit gen" where
  "tcg_gen_br l = emit (INDEX_op_br l)"

definition gen_set_label :: "nat \<Rightarrow> unit gen" where
  "gen_set_label l = emit (INDEX_op_set_label l)"

definition tcg_gen_goto_tb :: "nat \<Rightarrow> unit gen" where
  "tcg_gen_goto_tb n = emit (INDEX_op_goto_tb n)"

definition gen_exit_tb :: "nat option \<Rightarrow> unit gen" where
  "gen_exit_tb v = emit (INDEX_op_exit_tb v)"

definition tcg_gen_ld_mstatus :: "TCGv \<Rightarrow> unit gen" where
  "tcg_gen_ld_mstatus d = emit (INDEX_op_ld_mstatus d)"

definition tcg_gen_qemu_ld :: "nat \<Rightarrow> bool \<Rightarrow> TCGv \<Rightarrow> TCGv \<Rightarrow> nat \<Rightarrow> unit gen" where
  "tcg_gen_qemu_ld n sg d a idx = emit (INDEX_op_qemu_ld n sg d a idx)"

definition tcg_gen_qemu_st :: "nat \<Rightarrow> TCGv \<Rightarrow> TCGv \<Rightarrow> nat \<Rightarrow> unit gen" where
  "tcg_gen_qemu_st n v a idx = emit (INDEX_op_qemu_st n v a idx)"

definition gen_helper :: "helper \<Rightarrow> TCGv option \<Rightarrow> TCGv list \<Rightarrow> unit gen" where
  "gen_helper h ret args = emit (INDEX_op_call h ret args)"


subsection \<open>Opcode map\<close>

text \<open>
  Modelled from the spec: \<^verbatim>\<open>instmap.h\<close> and \<^verbatim>\<open>cpu.h\<close> are not among the sources.
  The names the translator uses are given the values of the RISC-V instruction encoding:
  the major opcode in bits 6..0, \<^verbatim>\<open>funct3\<close> at bit 12, \<^verbatim>\<open>funct7\<close> at bit 25 (for
  atomics \<^verbatim>\<open>funct5\<close> at bit 27). The W forms are those of the major opcodes
  \<^verbatim>\<open>0x1B\<close> and \<^verbatim>\<open>0x3B\<close>, whose bit 3 is set (section 4.3). The exception numbers
  are the RISC-V trap causes.
\<close>

definition RISCV_EXCP_INST_ADDR_MIS :: "32 word" where "RISCV_EXCP_INST_ADDR_MIS = 0x0"
definition RISCV_EXCP_ILLEGAL_INST :: "32 word" where "RISCV_EXCP_ILLEGAL_INST = 0x2"
definition RISCV_EXCP_BREAKPOINT :: "32 word" where "RISCV_EXCP_BREAKPOINT = 0x3"
definition RISCV_EXCP_U_ECALL :: "32 word" where "RISCV_EXCP_U_ECALL = 0x8"

definition MSTATUS_FS :: target_ulong where "MSTATUS_FS = 0x6000"

definition OPC_RISC_ARITH_IMM :: "32 word" where "OPC_RISC_ARITH_IMM = 0x13"
definition OPC_RISC_ARITH :: "32 word" where "OPC_RISC_ARITH = 0x33"
definition OPC_RISC_ARITH_IMM_W :: "32 word" where "OPC_RISC_ARITH_IMM_W = 0x1B"
definition OPC_RISC_ARITH_W :: "32 word" where "OPC_RISC_ARITH_W = 0x3B"

definition OPC_RISC_ADD :: "32 word" where "OPC_RISC_ADD = OPC_RISC_ARITH OR push_bit 12 0x0 OR push_bit 25 0x00"
definition OPC_RISC_SUB :: "32 word" where "OPC_RISC_SUB = OPC_RISC_ARITH OR push_bit 12 0x0 OR push_bit 25 0x20"
definition OPC_RISC_SLL :: "32 word" where "OPC_RISC_SLL = OPC_RISC_ARITH OR push_bit 12 0x1 OR push_bit 25 0x00"
definition OPC_RISC_SLT :: "32 word" where "OPC_RISC_SLT = OPC_RISC_ARITH OR push_bit 12 0x2 OR push_bit 25 0x00"
definition OPC_RISC_SLTU :: "32 word" where "OPC_RISC_SLTU = OPC_RISC_ARITH OR push_bit 12 0x3 OR push_bit 25 0x00"
definition OPC_RISC_XOR :: "32 word" where "OPC_RISC_XOR = OPC_RISC_ARITH OR push_bit 12 0x4 OR push_bit 25 0x00"
definition OPC_RISC_SRL :: "32 word" where "OPC_RISC_SRL = OPC_RISC_ARITH OR push_bit 12 0x5 OR push_bit 25 0x00"
definition OPC_RISC_SRA :: "32 word" where "OPC_RISC_SRA = OPC_RISC_ARITH OR push_bit 12 0x5 OR push_bit 25 0x20"
definition OPC_RISC_OR :: "32 word" where "OPC_RISC_OR = OPC_RISC_ARITH OR push_bit 12 0x6 OR push_bit 25 0x00"
definition OPC_RISC_AND :: "32 word" where "OPC_RISC_AND = OPC_RISC_ARITH OR push_bit 12 0x7 OR push_bit 25 0x00"
definition OPC_RISC_MUL :: "32 word" where "OPC_RISC_MUL = OPC_RISC_ARITH OR push_bit 12 0x0 OR push_bit 25 0x01"
definition OPC_RISC_MULH :: "32 word" where "OPC_RISC_MULH = OPC_RISC_ARITH OR push_bit 12 0x1 OR push_bit 25 0x01"
definition OPC_RISC_MULHSU :: "32 word" where "OPC_RISC_MULHSU = OPC_RISC_ARITH OR push_bit 12 0x2 OR push_bit 25 0x01"
definition OPC_RISC_MULHU :: "32 word" where "OPC_RISC_MULHU = OPC_RISC_ARITH OR push_bit 12 0x3 OR push_bit 25 0x01"
definition OPC_RISC_DIV :: "32 word" where "OPC_RISC_DIV = OPC_RISC_ARITH OR push_bit 12 0x4 OR push_bit 25 0x01"
definition OPC_RISC_DIVU :: "32 word" where "OPC_RISC_DIVU = OPC_RISC_ARITH OR push_bit 12 0x5 OR push_bit 25 0x01"
definition OPC_RISC_REM :: "32 word" where "OPC_RISC_REM = OPC_RISC_ARITH OR push_bit 12 0x6 OR push_bit 25 0x01"
definition OPC_RISC_REMU :: "32 word" where "OPC_RISC_REMU = OPC_RISC_ARITH OR push_bit 12 0x7 OR push_bit 25 0x01"

definition OPC_RISC_ADDW :: "32 word" where "OPC_RISC_ADDW = OPC_RISC_ARITH_W OR push_bit 12 0x0 OR push_bit 25 0x00"
definition OPC_RISC_SUBW :: "32 word" where "OPC_RISC_SUBW = OPC_RISC_ARITH_W OR push_bit 12 0x0 OR push_bit 25 0x20"
definition OPC_RISC_SLLW :: "32 word" where "OPC_RISC_SLLW = OPC_RISC_ARITH_W OR push_bit 12 0x1 OR push_bit 25 0x00"
definition OPC_RISC_SRLW :: "32 word" where "OPC_RISC_SRLW = OPC_RISC_ARITH_W OR push_bit 12 0x5 OR push_bit 25 0x00"
definition OPC_RISC_SRAW :: "32 word" where "OPC_RISC_SRAW = OPC_RISC_ARITH_W OR push_bit 12 0x5 OR push_bit 25 0x20"
definition OPC_RISC_MULW :: "32 word" where "OPC_RISC_MULW = OPC_RISC_ARITH_W OR push_bit 12 0x0 OR push_bit 25 0x01"
definition OPC_RISC_DIVW :: "32 word" where "OPC_RISC_DIVW = OPC_RISC_ARITH_W OR push_bit 12 0x4 OR push_bit 25 0x01"
definition OPC_RISC_DIVUW :: "32 word" where "OPC_RISC_DIVUW = OPC_RISC_ARITH_W OR push_bit 12 0x5 OR push_bit 25 0x01"
definition OPC_RISC_REMW :: "32 word" where "OPC_RISC_REMW = OPC_RISC_ARITH_W OR push_bit 12 0x6 OR push_bit 25 0x01"
definition OPC_RISC_REMUW :: "32 word" where "OPC_RISC_REMUW = OPC_RISC_ARITH_W OR push_bit 12 0x7 OR push_bit 25 0x01"

definition OPC_RISC_ADDI :: "32 word" where "OPC_RISC_ADDI = OPC_RISC_ARITH_IMM OR push_bit 12 0x0"
definition OPC_RISC_SLTI :: "32 word" where "OPC_RISC_SLTI = OPC_RISC_ARITH_IMM OR push_bit 12 0x2"
definition OPC_RISC_SLTIU :: "32 word" where "OPC_RISC_SLTIU = OPC_RISC_ARITH_IMM OR push_bit 12 0x3"
definition OPC_RISC_XORI :: "32 word" where "OPC_RISC_XORI = OPC_RISC_ARITH_IMM OR push_bit 12 0x4"
definition OPC_RISC_ORI :: "32 word" where "OPC_RISC_ORI = OPC_RISC_ARITH_IMM OR push_bit 12 0x6"
definition OPC_RISC_ANDI :: "32 word" where "OPC_RISC_ANDI = OPC_RISC_ARITH_IMM OR push_bit 12 0x7"
definition OPC_RISC_SLLI :: "32 word" where "OPC_RISC_SLLI = OPC_RISC_ARITH_IMM OR push_bit 12 0x1"
definition OPC_RISC_SHIFT_RIGHT_I :: "32 word" where "OPC_RISC_SHIFT_RIGHT_I = OPC_RISC_ARITH_IMM OR push_bit 12 0x5"
definition OPC_RISC_ADDIW :: "32 word" where "OPC_RISC_ADDIW = OPC_RISC_ARITH_IMM_W OR push_bit 12 0x0"
definition OPC_RISC_SLLIW :: "32 word" where "OPC_RISC_SLLIW = OPC_RISC_ARITH_IMM_W OR push_bit 12 0x1"
definition OPC_RISC_SHIFT_RIGHT_IW :: "32 word" where "OPC_RISC_SHIFT_RIGHT_IW = OPC_RISC_ARITH_IMM_W OR push_bit 12 0x5"

subsection \<open>Exceptions and register access\<close>

definition generate_exception :: "32 word \<Rightarrow> unit gen" where
  "generate_exception excp = do {
     p \<leftarrow> read_ctx pc;
     tcg_gen_movi_tl cpu_pc p;
     helper_tmp \<leftarrow> tcg_const_i32 excp;
     gen_helper helper_raise_exception None [helper_tmp];
     tcg_temp_free helper_tmp
   }"

definition generate_exception_mbadaddr :: "32 word \<Rightarrow> unit gen" where
  "generate_exception_mbadaddr excp = do {
     p \<leftarrow> read_ctx pc;
     tcg_gen_movi_tl cpu_pc p;
     helper_tmp \<leftarrow> tcg_const_i32 excp;
     gen_helper helper_raise_exception_mbadaddr None [helper_tmp, cpu_pc];
     tcg_temp_free helper_tmp
   }"

definition kill_unknown :: "32 word \<Rightarrow> unit gen" where
  "kill_unknown excp = do {
     generate_exception excp;
     set_bstate BS_STOP
   }"

definition gen_get_gpr :: "TCGv \<Rightarrow> nat \<Rightarrow> unit gen" where
  "gen_get_gpr t reg_num =
     (if reg_num = 0 then tcg_gen_movi_tl t 0 else tcg_gen_mov_tl t (cpu_gpr reg_num))"

definition gen_set_gpr :: "nat \<Rightarrow> TCGv \<Rightarrow> unit gen" where
  "gen_set_gpr reg_num_dst t =
     (if reg_num_dst \<noteq> 0 then tcg_gen_mov_tl (cpu_gpr reg_num_dst) t
      else State_Monad.return ())"

subsection \<open>Integer arithmetic\<close>

definition gen_mulhsu :: "TCGv \<Rightarrow> TCGv \<Rightarrow> TCGv \<Rightarrow> unit gen" where
  "gen_mulhsu ret arg1 arg2 = do {
     rl \<leftarrow> tcg_temp_new;
     rh \<leftarrow> tcg_temp_new;
     tcg_gen_mulu2_tl rl rh arg1 arg2;
     tcg_gen_sari_tl rl arg1 (of_nat (TARGET_LONG_BITS - 1));
     tcg_gen_and_tl rl rl arg2;
     tcg_gen_sub_tl ret rh rl;
     tcg_temp_free rl;
     tcg_temp_free rh
   }"

text \<open>
  The \<^verbatim>\<open>switch\<close> of \<^verbatim>\<open>gen_arith\<close>, arm by arm. A W arm that falls through into
  the arm of the full-width instruction is written as the extension of the operands
  followed by the shared arm.
\<close>

definition gen_arith :: "32 word \<Rightarrow> nat \<Rightarrow> nat \<Rightarrow> nat \<Rightarrow> unit gen" where
  "gen_arith opc rd rs1 rs2 = do {
     source1 \<leftarrow> tcg_temp_new;
     source2 \<leftarrow> tcg_temp_new;
     gen_get_gpr source1 rs1;
     gen_get_gpr source2 rs2;
     (if opc = OPC_RISC_ADD \<or> opc = OPC_RISC_ADDW then
        tcg_gen_add_tl source1 source1 source2
      else if opc = OPC_RISC_SUB \<or> opc = OPC_RISC_SUBW then
        tcg_gen_sub_tl source1 source1 source2
      else if opc = OPC_RISC_SLLW then do {
        tcg_gen_andi_tl source2 source2 0x1F;
        tcg_gen_shl_tl source1 source1 source2
      }
      else if opc = OPC_RISC_SLL then do {
        tcg_gen_andi_tl source2 source2 (of_nat (TARGET_LONG_BITS - 1));
        tcg_gen_shl_tl source1 source1 source2
      }
      else if opc = OPC_RISC_SLT then
        tcg_gen_setcond_tl TCG_COND_LT source1 source1 source2
      else if opc = OPC_RISC_SLTU then
        tcg_gen_setcond_tl TCG_COND_LTU source1 source1 source2
      else if opc = OPC_RISC_XOR then
        tcg_gen_xor_tl source1 source1 source2
      else if opc = OPC_RISC_SRLW then do {
        tcg_gen_ext32u_tl source1 source1;
        tcg_gen_andi_tl source2 source2 0x1F;
        tcg_gen_shr_tl source1 source1 source2
      }
      else if opc = OPC_RISC_SRL then do {
        tcg_gen_andi_tl source2 source2 (of_nat (TARGET_LONG_BITS - 1));
        tcg_gen_shr_tl source1 source1 source2
      }
      else if opc = OPC_RISC_SRAW then do {
        tcg_gen_ext32s_tl source1 source1;
        tcg_gen_andi_tl source2 source2 0x1F;
        tcg_gen_sar_tl source1 source1 source2
      }
      else if opc = OPC_RISC_SRA then do {
        tcg_gen_andi_tl source2 source2 (of_nat (TARGET_LONG_BITS - 1));
        tcg_gen_sar_tl source1 source1 source2
      }
      else if opc = OPC_RISC_OR then
        tcg_gen_or_tl source1 source1 source2
      else if opc = OPC_RISC_AND then
        tcg_gen_and_tl source1 source1 source2
      else if opc = OPC_RISC_MUL \<or> opc = OPC_RISC_MULW then
        tcg_gen_mul_tl source1 source1 source2
      else if opc = OPC_RISC_MULH then
        tcg_gen_muls2_tl source2 source1 source1 source2
      else if opc = OPC_RISC_MULHSU then
        gen_mulhsu source1 source1 source2
      else if opc = OPC_RISC_MULHU then
        tcg_gen_mulu2_tl source2 source1 source1 source2
      else if opc = OPC_RISC_DIVW \<or> opc = OPC_RISC_DIV then do {
        (if opc = OPC_RISC_DIVW then do {
           tcg_gen_ext32s_tl source1 source1;
           tcg_gen_ext32s_tl source2 source2
         } else State_Monad.return ());
        cond1 \<leftarrow> tcg_temp_new;
        cond2 \<leftarrow> tcg_temp_new;
        zeroreg \<leftarrow> tcg_const_tl 0;
        resultopt1 \<leftarrow> tcg_temp_new;
        tcg_gen_movi_tl resultopt1 (- 1);
        tcg_gen_setcondi_tl TCG_COND_EQ cond2 source2 (NOT 0);
        tcg_gen_setcondi_tl TCG_COND_EQ cond1 source1 (push_bit (TARGET_LONG_BITS - 1) 1);
        tcg_gen_and_tl cond1 cond1 cond2;
        tcg_gen_setcondi_tl TCG_COND_EQ cond2 source2 0;
        tcg_gen_movcond_tl TCG_COND_EQ source1 cond2 zeroreg source1 resultopt1;
        tcg_gen_or_tl cond1 cond1 cond2;
        tcg_gen_movi_tl resultopt1 1;
        tcg_gen_movcond_tl TCG_COND_EQ source2 cond1 zeroreg source2 resultopt1;
        tcg_gen_div_tl source1 source1 source2;
        tcg_temp_free cond1;
        tcg_temp_free cond2;
        tcg_temp_free zeroreg;
        tcg_temp_free resultopt1
      }
      else if opc = OPC_RISC_DIVUW \<or> opc = OPC_RISC_DIVU then do {
        (if opc = OPC_RISC_DIVUW then do {
           tcg_gen_ext32u_tl source1 source1;
           tcg_gen_ext32u_tl source2 source2
         } else State_Monad.return ());
        cond1 \<leftarrow> tcg_temp_new;
        zeroreg \<leftarrow> tcg_const_tl 0;
        resultopt1 \<leftarrow> tcg_temp_new;
        tcg_gen_setcondi_tl TCG_COND_EQ cond1 source2 0;
        tcg_gen_movi_tl resultopt1 (- 1);
        tcg_gen_movcond_tl TCG_COND_EQ source1 cond1 zeroreg source1 resultopt1;
        tcg_gen_movi_tl resultopt1 1;
        tcg_gen_movcond_tl TCG_COND_EQ source2 cond1 zeroreg source2 resultopt1;
        tcg_gen_divu_tl source1 source1 source2;
        tcg_temp_free cond1;
        tcg_temp_free zeroreg;
        tcg_temp_free resultopt1
      }
      else if opc = OPC_RISC_REMW \<or> opc = OPC_RISC_REM then do {
        (if opc = OPC_RISC_REMW then do {
           tcg_gen_ext32s_tl source1 source1;
           tcg_gen_ext32s_tl source2 source2
         } else State_Monad.return ());
        cond1 \<leftarrow> tcg_temp_new;
        cond2 \<leftarrow> tcg_temp_new;
        zeroreg \<leftarrow> tcg_const_tl 0;
        resultopt1 \<leftarrow> tcg_temp_new;
        tcg_gen_movi_tl resultopt1 1;
        tcg_gen_setcondi_tl TCG_COND_EQ cond2 source2 (- 1);
        tcg_gen_setcondi_tl TCG_COND_EQ cond1 source1 (push_bit (TARGET_LONG_BITS - 1) 1);
        tcg_gen_and_tl cond2 cond1 cond2;
        tcg_gen_setcondi_tl TCG_COND_EQ cond1 source2 0;
        tcg_gen_or_tl cond2 cond1 cond2;
        tcg_gen_movcond_tl TCG_COND_EQ source2 cond2 zeroreg source2 resultopt1;
        tcg_gen_rem_tl resultopt1 source1 source2;
        tcg_gen_movcond_tl TCG_COND_EQ source1 cond1 zeroreg resultopt1 source1;
        tcg_temp_free cond1;
        tcg_temp_free cond2;
        tcg_temp_free zeroreg;
        tcg_temp_free resultopt1
      }
      else if opc = OPC_RISC_REMUW \<or> opc = OPC_RISC_REMU then do {
        (if opc = OPC_RISC_REMUW then do {
           tcg_gen_ext32u_tl source1 source1;
           tcg_gen_ext32u_tl source2 source2
         } else State_Monad.return ());
        cond1 \<leftarrow> tcg_temp_new;
        zeroreg \<leftarrow> tcg_const_tl 0;
        resultopt1 \<leftarrow> tcg_temp_new;
        tcg_gen_movi_tl resultopt1 1;
        tcg_gen_setcondi_tl TCG_COND_EQ cond1 source2 0;
        tcg_gen_movcond_tl TCG_COND_EQ source2 cond1 zeroreg source2 resultopt1;
        tcg_gen_remu_tl resultopt1 source1 source2;
        tcg_gen_movcond_tl TCG_COND_EQ source1 cond1 zeroreg resultopt1 source1;
        tcg_temp_free cond1;
        tcg_temp_free zeroreg;
        tcg_temp_free resultopt1
      }
      else kill_unknown RISCV_EXCP_ILLEGAL_INST);
     (if opc AND 0x8 \<noteq> 0 then tcg_gen_ext32s_tl source1 source1 else State_Monad.return ());
     gen_set_gpr rd source1;
     tcg_temp_free source1;
     tcg_temp_free source2
   }"

subsection \<open>Running the code a translator emits\<close>

text \<open>
  \<open>emitted g s\<close> is what the translator step \<open>g\<close> appends to the micro-op buffer
  of \<open>s\<close>, and \<open>guest\<close> forgets the temporaries of an outcome: what is left is what
  the guest can observe.
\<close>

definition emitted :: "'a gen \<Rightarrow> tstate \<Rightarrow> tcg_op list" where
  "emitted g s = drop (length (gen_opc_buf s)) (gen_opc_buf (snd (run_state g s)))"

datatype guest_outcome =
  G_next CPUState "target_ulong \<Rightarrow> 8 word"
  | G_exit "nat option" CPUState "target_ulong \<Rightarrow> 8 word"
  | G_raised CPUState "target_ulong \<Rightarrow> 8 word"
  | G_unspecified

fun guest :: "outcome \<Rightarrow> guest_outcome" where
  "guest (Fallthrough m) = G_next (cpu m) (ram m)"
| "guest (Exited n m) = G_exit n (cpu m) (ram m)"
| "guest (Raised m) = G_raised (cpu m) (ram m)"
| "guest Unspecified = G_unspecified"

definition run :: "helpers \<Rightarrow> 'a gen \<Rightarrow> tstate \<Rightarrow> machine \<Rightarrow> guest_outcome" where
  "run H g s m = guest (exec H None (emitted g s) m)"

definition reg :: "CPUState \<Rightarrow> nat \<Rightarrow> target_ulong" where
  "reg e n = (if n = 0 then 0 else gpr e n)"

definition write_reg :: "nat \<Rightarrow> target_ulong \<Rightarrow> CPUState \<Rightarrow> CPUState" where
  "write_reg n v e = (if n = 0 then e else e\<lparr>gpr := (gpr e)(n := v)\<rparr>)"


subsection \<open>Opcode map of the other instruction families\<close>

text \<open>
  Modelled from the spec: further names of \<^verbatim>\<open>instmap.h\<close>, \<^verbatim>\<open>cpu.h\<close> and
  \<^verbatim>\<open>cpu-defs.h\<close>, with the values of the RISC-V encoding (see the opcode map above).
  A guest page has 4096 bytes; \<^verbatim>\<open>riscv_has_ext\<close> tests a bit of \<^verbatim>\<open>misa\<close>, and
  the compressed extension is letter C, bit 2.
\<close>

definition TARGET_PAGE_BITS :: nat where "TARGET_PAGE_BITS = 12"
definition TARGET_PAGE_SIZE :: target_ulong where "TARGET_PAGE_SIZE = push_bit TARGET_PAGE_BITS 1"
definition TARGET_PAGE_MASK :: target_ulong where "TARGET_PAGE_MASK = NOT (TARGET_PAGE_SIZE - 1)"

definition RISCV_FEATURE_RVC :: target_ulong where "RISCV_FEATURE_RVC = push_bit 2 1"

definition riscv_has_ext :: "CPUState \<Rightarrow> target_ulong \<Rightarrow> bool" where
  "riscv_has_ext e ext = (misa e AND ext \<noteq> 0)"

definition OPC_RISC_LUI :: "32 word" where "OPC_RISC_LUI = 0x37"
definition OPC_RISC_AUIPC :: "32 word" where "OPC_RISC_AUIPC = 0x17"
definition OPC_RISC_JAL :: "32 word" where "OPC_RISC_JAL = 0x6F"
definition OPC_RISC_JALR :: "32 word" where "OPC_RISC_JALR = 0x67"
definition OPC_RISC_BRANCH :: "32 word" where "OPC_RISC_BRANCH = 0x63"
definition OPC_RISC_LOAD :: "32 word" where "OPC_RISC_LOAD = 0x03"
definition OPC_RISC_STORE :: "32 word" where "OPC_RISC_STORE = 0x23"
definition OPC_RISC_FENCE :: "32 word" where "OPC_RISC_FENCE = 0x0F"
definition OPC_RISC_SYSTEM :: "32 word" where "OPC_RISC_SYSTEM = 0x73"
definition OPC_RISC_ATOMIC :: "32 word" where "OPC_RISC_ATOMIC = 0x2F"
definition OPC_RISC_FP_LOAD :: "32 word" where "OPC_RISC_FP_LOAD = 0x07"
definition OPC_RISC_FP_STORE :: "32 word" where "OPC_RISC_FP_STORE = 0x27"
definition OPC_RISC_FMADD :: "32 word" where "OPC_RISC_FMADD = 0x43"
definition OPC_RISC_FMSUB :: "32 word" where "OPC_RISC_FMSUB = 0x47"
definition OPC_RISC_FNMSUB :: "32 word" where "OPC_RISC_FNMSUB = 0x4B"
definition OPC_RISC_FNMADD :: "32 word" where "OPC_RISC_FNMADD = 0x4F"
definition OPC_RISC_FP_ARITH :: "32 word" where "OPC_RISC_FP_ARITH = 0x53"

definition OPC_RISC_BEQ :: "32 word" where "OPC_RISC_BEQ = OPC_RISC_BRANCH OR push_bit 12 0x0"
definition OPC_RISC_BNE :: "32 word" where "OPC_RISC_BNE = OPC_RISC_BRANCH OR push_bit 12 0x1"
definition OPC_RISC_BLT :: "32 word" where "OPC_RISC_BLT = OPC_RISC_BRANCH OR push_bit 12 0x4"
definition OPC_RISC_BGE :: "32 word" where "OPC_RISC_BGE = OPC_RISC_BRANCH OR push_bit 12 0x5"
definition OPC_RISC_BLTU :: "32 word" where "OPC_RISC_BLTU = OPC_RISC_BRANCH OR push_bit 12 0x6"
definition OPC_RISC_BGEU :: "32 word" where "OPC_RISC_BGEU = OPC_RISC_BRANCH OR push_bit 12 0x7"

definition OPC_RISC_LB :: "32 word" where "OPC_RISC_LB = OPC_RISC_LOAD OR push_bit 12 0x0"
definition OPC_RISC_LH :: "32 word" where "OPC_RISC_LH = OPC_RISC_LOAD OR push_bit 12 0x1"
definition OPC_RISC_LW :: "32 word" where "OPC_RISC_LW = OPC_RISC_LOAD OR push_bit 12 0x2"
definition OPC_RISC_LD :: "32 word" where "OPC_RISC_LD = OPC_RISC_LOAD OR push_bit 12 0x3"
definition OPC_RISC_LBU :: "32 word" where "OPC_RISC_LBU = OPC_RISC_LOAD OR push_bit 12 0x4"
definition OPC_RISC_LHU :: "32 word" where "OPC_RISC_LHU = OPC_RISC_LOAD OR push_bit 12 0x5"
definition OPC_RISC_LWU :: "32 word" where "OPC_RISC_LWU = OPC_RISC_LOAD OR push_bit 12 0x6"

definition OPC_RISC_SB :: "32 word" where "OPC_RISC_SB = OPC_RISC_STORE OR push_bit 12 0x0"
definition OPC_RISC_SH :: "32 word" where "OPC_RISC_SH = OPC_RISC_STORE OR push_bit 12 0x1"
definition OPC_RISC_SW :: "32 word" where "OPC_RISC_SW = OPC_RISC_STORE OR push_bit 12 0x2"
definition OPC_RISC_SD :: "32 word" where "OPC_RISC_SD = OPC_RISC_STORE OR push_bit 12 0x3"

definition OPC_RISC_FLW :: "32 word" where "OPC_RISC_FLW = OPC_RISC_FP_LOAD OR push_bit 12 0x2"
definition OPC_RISC_FLD :: "32 word" where "OPC_RISC_FLD = OPC_RISC_FP_LOAD OR push_bit 12 0x3"
definition OPC_RISC_FSW :: "32 word" where "OPC_RISC_FSW = OPC_RISC_FP_STORE OR push_bit 12 0x2"
definition OPC_RISC_FSD :: "32 word" where "OPC_RISC_FSD = OPC_RISC_FP_STORE OR push_bit 12 0x3"

definition MASK_OP_ATOMIC_NO_AQ_RL :: "32 word \<Rightarrow> 32 word" where
  "MASK_OP_ATOMIC_NO_AQ_RL op = (op AND 0x7F) OR (op AND (push_bit 12 0x7 OR push_bit 27 0x1F))"

definition OPC_RISC_LR_W :: "32 word" where "OPC_RISC_LR_W = OPC_RISC_ATOMIC OR push_bit 12 0x2 OR push_bit 27 0x02"
definition OPC_RISC_SC_W :: "32 word" where "OPC_RISC_SC_W = OPC_RISC_ATOMIC OR push_bit 12 0x2 OR push_bit 27 0x03"
definition OPC_RISC_AMOSWAP_W :: "32 word" where "OPC_RISC_AMOSWAP_W = OPC_RISC_ATOMIC OR push_bit 12 0x2 OR push_bit 27 0x01"
definition OPC_RISC_AMOADD_W :: "32 word" where "OPC_RISC_AMOADD_W = OPC_RISC_ATOMIC OR push_bit 12 0x2 OR push_bit 27 0x00"
definition OPC_RISC_AMOXOR_W :: "32 word" where "OPC_RISC_AMOXOR_W = OPC_RISC_ATOMIC OR push_bit 12 0x2 OR push_bit 27 0x04"
definition OPC_RISC_AMOAND_W :: "32 word" where "OPC_RISC_AMOAND_W = OPC_RISC_ATOMIC OR push_bit 12 0x2 OR push_bit 27 0x0C"
definition OPC_RISC_AMOOR_W :: "32 word" where "OPC_RISC_AMOOR_W = OPC_RISC_ATOMIC OR push_bit 12 0x2 OR push_bit 27 0x08"
definition OPC_RISC_AMOMIN_W :: "32 word" where "OPC_RISC_AMOMIN_W = OPC_RISC_ATOMIC OR push_bit 12 0x2 OR push_bit 27 0x10"
definition OPC_RISC_AMOMAX_W :: "32 word" where "OPC_RISC_AMOMAX_W = OPC_RISC_ATOMIC OR push_bit 12 0x2 OR push_bit 27 0x14"
definition OPC_RISC_AMOMINU_W :: "32 word" where "OPC_RISC_AMOMINU_W = OPC_RISC_ATOMIC OR push_bit 12 0x2 OR push_bit 27 0x18"
definition OPC_RISC_AMOMAXU_W :: "32 word" where "OPC_RISC_AMOMAXU_W = OPC_RISC_ATOMIC OR push_bit 12 0x2 OR push_bit 27 0x1C"
definition OPC_RISC_LR_D :: "32 word" where "OPC_RISC_LR_D = OPC_RISC_ATOMIC OR push_bit 12 0x3 OR push_bit 27 0x02"
definition OPC_RISC_SC_D :: "32 word" where "OPC_RISC_SC_D = OPC_RISC_ATOMIC OR push_bit 12 0x3 OR push_bit 27 0x03"
definition OPC_RISC_AMOSWAP_D :: "32 word" where "OPC_RISC_AMOSWAP_D = OPC_RISC_ATOMIC OR push_bit 12 0x3 OR push_bit 27 0x01"
definition OPC_RISC_AMOADD_D :: "32 word" where "OPC_RISC_AMOADD_D = OPC_RISC_ATOMIC OR push_bit 12 0x3 OR push_bit 27 0x00"
definition OPC_RISC_AMOXOR_D :: "32 word" where "OPC_RISC_AMOXOR_D = OPC_RISC_ATOMIC OR push_bit 12 0x3 OR push_bit 27 0x04"
definition OPC_RISC_AMOAND_D :: "32 word" where "OPC_RISC_AMOAND_D = OPC_RISC_ATOMIC OR push_bit 12 0x3 OR push_bit 27 0x0C"
definition OPC_RISC_AMOOR_D :: "32 word" where "OPC_RISC_AMOOR_D = OPC_RISC_ATOMIC OR push_bit 12 0x3 OR push_bit 27 0x08"
definition OPC_RISC_AMOMIN_D :: "32 word" where "OPC_RISC_AMOMIN_D = OPC_RISC_ATOMIC OR push_bit 12 0x3 OR push_bit 27 0x10"
definition OPC_RISC_AMOMAX_D :: "32 word" where "OPC_RISC_AMOMAX_D = OPC_RISC_ATOMIC OR push_bit 12 0x3 OR push_bit 27 0x14"
definition OPC_RISC_AMOMINU_D :: "32 word" where "OPC_RISC_AMOMINU_D = OPC_RISC_ATOMIC OR push_bit 12 0x3 OR push_bit 27 0x18"
definition OPC_RISC_AMOMAXU_D :: "32 word" where "OPC_RISC_AMOMAXU_D = OPC_RISC_ATOMIC OR push_bit 12 0x3 OR push_bit 27 0x1C"

subsection \<open>Immediate arithmetic\<close>

text \<open>
  \<^verbatim>\<open>imm\<close> is a \<^verbatim>\<open>target_long\<close>: its comparisons are signed. In the arm of
  \<^verbatim>\<open>OPC_RISC_SHIFT_RIGHT_IW\<close> the source has no \<^verbatim>\<open>break\<close> after
  \<^verbatim>\<open>kill_unknown\<close>: emission goes on with the shift and falls through.
\<close>

definition gen_arith_imm :: "32 word \<Rightarrow> nat \<Rightarrow> nat \<Rightarrow> target_ulong \<Rightarrow> unit gen" where
  "gen_arith_imm opc rd rs1 imm = do {
     source1 \<leftarrow> tcg_temp_new;
     gen_get_gpr source1 rs1;
     (if opc = OPC_RISC_ADDI \<or> opc = OPC_RISC_ADDIW then
        tcg_gen_addi_tl source1 source1 imm
      else if opc = OPC_RISC_SLTI then
        tcg_gen_setcondi_tl TCG_COND_LT source1 source1 imm
      else if opc = OPC_RISC_SLTIU then
        tcg_gen_setcondi_tl TCG_COND_LTU source1 source1 imm
      else if opc = OPC_RISC_XORI then
        tcg_gen_xori_tl source1 source1 imm
      else if opc = OPC_RISC_ORI then
        tcg_gen_ori_tl source1 source1 imm
      else if opc = OPC_RISC_ANDI then
        tcg_gen_andi_tl source1 source1 imm
      else if opc = OPC_RISC_SLLIW \<or> opc = OPC_RISC_SLLI then
        (if opc = OPC_RISC_SLLIW \<and> 32 \<le>s imm then
           kill_unknown RISCV_EXCP_ILLEGAL_INST
         else if imm <s of_nat TARGET_LONG_BITS then
           tcg_gen_shli_tl source1 source1 imm
         else
           kill_unknown RISCV_EXCP_ILLEGAL_INST)
      else if opc = OPC_RISC_SHIFT_RIGHT_IW \<or> opc = OPC_RISC_SHIFT_RIGHT_I then do {
        extra_shamt \<leftarrow>
          (if opc = OPC_RISC_SHIFT_RIGHT_IW then do {
             (if 32 \<le>s (imm AND 0x3ff) then kill_unknown RISCV_EXCP_ILLEGAL_INST
              else State_Monad.return ());
             tcg_gen_shli_tl source1 source1 32;
             State_Monad.return (32 :: target_ulong)
           } else State_Monad.return 0);
        (if (imm AND 0x3ff) <s of_nat TARGET_LONG_BITS then
           (if imm AND 0x400 \<noteq> 0 then
              tcg_gen_sari_tl source1 source1 ((imm XOR 0x400) + extra_shamt)
            else
              tcg_gen_shri_tl source1 source1 (imm + extra_shamt))
         else
           kill_unknown RISCV_EXCP_ILLEGAL_INST)
      }
      else kill_unknown RISCV_EXCP_ILLEGAL_INST);
     (if opc AND 0x8 \<noteq> 0 then tcg_gen_ext32s_tl source1 source1 else State_Monad.return ());
     gen_set_gpr rd source1;
     tcg_temp_free source1
   }"

subsection \<open>Jumps and branches\<close>

definition use_goto_tb :: "target_ulong \<Rightarrow> bool gen" where
  "use_goto_tb dest = State (\<lambda>s.
     (if singlestep_enabled (ctx s) then False
      else (tb_pc (tb s) AND TARGET_PAGE_MASK) = (dest AND TARGET_PAGE_MASK), s))"

definition gen_goto_tb :: "nat \<Rightarrow> target_ulong \<Rightarrow> unit gen" where
  "gen_goto_tb n dest = do {
     chain \<leftarrow> use_goto_tb dest;
     (if chain then do {
        tcg_gen_goto_tb n;
        tcg_gen_movi_tl cpu_pc dest;
        gen_exit_tb (Some n)
      } else do {
        tcg_gen_movi_tl cpu_pc dest;
        ss \<leftarrow> read_ctx singlestep_enabled;
        (if ss then gen_helper helper_raise_exception_debug None [] else State_Monad.return ());
        gen_exit_tb None
      })
   }"

definition gen_jal :: "CPUState \<Rightarrow> nat \<Rightarrow> target_ulong \<Rightarrow> unit gen" where
  "gen_jal e rd imm = do {
     p \<leftarrow> read_ctx pc;
     (if \<not> riscv_has_ext e RISCV_FEATURE_RVC then
        (if (p + imm) AND 0x3 \<noteq> 0 then generate_exception_mbadaddr RISCV_EXCP_INST_ADDR_MIS
         else State_Monad.return ())
      else State_Monad.return ());
     (if rd \<noteq> 0 then do {
        np \<leftarrow> read_ctx next_pc;
        tcg_gen_movi_tl (cpu_gpr rd) np
      } else State_Monad.return ());
     gen_goto_tb 0 (p + imm);
     set_bstate BS_BRANCH
   }"

definition gen_jalr :: "CPUState \<Rightarrow> 32 word \<Rightarrow> nat \<Rightarrow> nat \<Rightarrow> target_ulong \<Rightarrow> unit gen" where
  "gen_jalr e opc rd rs1 imm = do {
     misaligned \<leftarrow> gen_new_label;
     t0 \<leftarrow> tcg_temp_new;
     (if opc = OPC_RISC_JALR then do {
        gen_get_gpr cpu_pc rs1;
        tcg_gen_addi_tl cpu_pc cpu_pc imm;
        tcg_gen_andi_tl cpu_pc cpu_pc (- 2);
        (if \<not> riscv_has_ext e RISCV_FEATURE_RVC then do {
           tcg_gen_andi_tl t0 cpu_pc 0x2;
           tcg_gen_brcondi_tl TCG_COND_NE t0 0x0 misaligned
         } else State_Monad.return ());
        (if rd \<noteq> 0 then do {
           np \<leftarrow> read_ctx next_pc;
           tcg_gen_movi_tl (cpu_gpr rd) np
         } else State_Monad.return ());
        gen_exit_tb None;
        gen_set_label misaligned;
        generate_exception_mbadaddr RISCV_EXCP_INST_ADDR_MIS;
        gen_exit_tb None;
        set_bstate BS_BRANCH
      } else kill_unknown RISCV_EXCP_ILLEGAL_INST);
     tcg_temp_free t0
   }"

definition gen_branch :: "CPUState \<Rightarrow> 32 word \<Rightarrow> nat \<Rightarrow> nat \<Rightarrow> target_ulong \<Rightarrow> unit gen" where
  "gen_branch e opc rs1 rs2 bimm = do {
     l \<leftarrow> gen_new_label;
     source1 \<leftarrow> tcg_temp_new;
     source2 \<leftarrow> tcg_temp_new;
     gen_get_gpr source1 rs1;
     gen_get_gpr source2 rs2;
     (if opc = OPC_RISC_BEQ then tcg_gen_brcond_tl TCG_COND_EQ source1 source2 l
      else if opc = OPC_RISC_BNE then tcg_gen_brcond_tl TCG_COND_NE source1 source2 l
      else if opc = OPC_RISC_BLT then tcg_gen_brcond_tl TCG_COND_LT source1 source2 l
      else if opc = OPC_RISC_BGE then tcg_gen_brcond_tl TCG_COND_GE source1 source2 l
      else if opc = OPC_RISC_BLTU then tcg_gen_brcond_tl TCG_COND_LTU source1 source2 l
      else if opc = OPC_RISC_BGEU then tcg_gen_brcond_tl TCG_COND_GEU source1 source2 l
      else kill_unknown RISCV_EXCP_ILLEGAL_INST);
     np \<leftarrow> read_ctx next_pc;
     gen_goto_tb 1 np;
     gen_set_label l;
     p \<leftarrow> read_ctx pc;
     (if \<not> riscv_has_ext e RISCV_FEATURE_RVC \<and> (p + bimm) AND 0x3 \<noteq> 0 then do {
        generate_exception_mbadaddr RISCV_EXCP_INST_ADDR_MIS;
        gen_exit_tb None
      } else gen_goto_tb 0 (p + bimm));
     tcg_temp_free source1;
     tcg_temp_free source2;
     set_bstate BS_BRANCH
   }"

subsection \<open>Loads, stores and atomics\<close>

definition gen_load :: "32 word \<Rightarrow> nat \<Rightarrow> nat \<Rightarrow> target_ulong \<Rightarrow> unit gen" where
  "gen_load opc rd rs1 imm = do {
     t0 \<leftarrow> tcg_temp_new;
     t1 \<leftarrow> tcg_temp_new;
     gen_get_gpr t0 rs1;
     tcg_gen_addi_tl t0 t0 imm;
     p \<leftarrow> read_ctx pc;
     tcg_gen_movi_tl cpu_pc p;
     idx \<leftarrow> read_ctx mem_idx;
     (if opc = OPC_RISC_LB then tcg_gen_qemu_ld 1 True t1 t0 idx
      else if opc = OPC_RISC_LH then tcg_gen_qemu_ld 2 True t1 t0 idx
      else if opc = OPC_RISC_LW then tcg_gen_qemu_ld 4 True t1 t0 idx
      else if opc = OPC_RISC_LD then tcg_gen_qemu_ld 8 False t1 t0 idx
      else if opc = OPC_RISC_LBU then tcg_gen_qemu_ld 1 False t1 t0 idx
      else if opc = OPC_RISC_LHU then tcg_gen_qemu_ld 2 False t1 t0 idx
      else if opc = OPC_RISC_LWU then tcg_gen_qemu_ld 4 False t1 t0 idx
      else kill_unknown RISCV_EXCP_ILLEGAL_INST);
     gen_set_gpr rd t1;
     tcg_temp_free t0;
     tcg_temp_free t1
   }"

definition gen_store :: "32 word \<Rightarrow> nat \<Rightarrow> nat \<Rightarrow> target_ulong \<Rightarrow> unit gen" where
  "gen_store opc rs1 rs2 imm = do {
     p \<leftarrow> read_ctx pc;
     tcg_gen_movi_tl cpu_pc p;
     t0 \<leftarrow> tcg_temp_new;
     dat \<leftarrow> tcg_temp_new;
     gen_get_gpr t0 rs1;
     tcg_gen_addi_tl t0 t0 imm;
     gen_get_gpr dat rs2;
     idx \<leftarrow> read_ctx mem_idx;
     (if opc = OPC_RISC_SB then tcg_gen_qemu_st 1 dat t0 idx
      else if opc = OPC_RISC_SH then tcg_gen_qemu_st 2 dat t0 idx
      else if opc = OPC_RISC_SW then tcg_gen_qemu_st 4 dat t0 idx
      else if opc = OPC_RISC_SD then tcg_gen_qemu_st 8 dat t0 idx
      else kill_unknown RISCV_EXCP_ILLEGAL_INST);
     tcg_temp_free t0;
     tcg_temp_free dat
   }"

definition gen_fp_load :: "32 word \<Rightarrow> nat \<Rightarrow> nat \<Rightarrow> target_ulong \<Rightarrow> unit gen" where
  "gen_fp_load opc rd rs1 imm = do {
     t0 \<leftarrow> tcg_temp_new;
     fp_ok \<leftarrow> gen_new_label;
     done \<leftarrow> gen_new_label;
     tcg_gen_ld_mstatus t0;
     tcg_gen_andi_tl t0 t0 MSTATUS_FS;
     tcg_gen_brcondi_tl TCG_COND_NE t0 0x0 fp_ok;
     kill_unknown RISCV_EXCP_ILLEGAL_INST;
     tcg_gen_br done;
     gen_set_label fp_ok;
     gen_get_gpr t0 rs1;
     tcg_gen_addi_tl t0 t0 imm;
     idx \<leftarrow> read_ctx mem_idx;
     (if opc = OPC_RISC_FLW then tcg_gen_qemu_ld 4 False (cpu_fpr rd) t0 idx
      else if opc = OPC_RISC_FLD then tcg_gen_qemu_ld 8 False (cpu_fpr rd) t0 idx
      else kill_unknown RISCV_EXCP_ILLEGAL_INST);
     gen_set_label done;
     tcg_temp_free t0
   }"

definition gen_fp_store :: "32 word \<Rightarrow> nat \<Rightarrow> nat \<Rightarrow> target_ulong \<Rightarrow> unit gen" where
  "gen_fp_store opc rs1 rs2 imm = do {
     t0 \<leftarrow> tcg_temp_new;
     t1 \<leftarrow> tcg_temp_new;
     fp_ok \<leftarrow> gen_new_label;
     done \<leftarrow> gen_new_label;
     tcg_gen_ld_mstatus t0;
     tcg_gen_andi_tl t0 t0 MSTATUS_FS;
     tcg_gen_brcondi_tl TCG_COND_NE t0 0x0 fp_ok;
     kill_unknown RISCV_EXCP_ILLEGAL_INST;
     tcg_gen_br done;
     gen_set_label fp_ok;
     gen_get_gpr t0 rs1;
     tcg_gen_addi_tl t0 t0 imm;
     idx \<leftarrow> read_ctx mem_idx;
     (if opc = OPC_RISC_FSW then tcg_gen_qemu_st 4 (cpu_fpr rs2) t0 idx
      else if opc = OPC_RISC_FSD then tcg_gen_qemu_st 8 (cpu_fpr rs2) t0 idx
      else kill_unknown RISCV_EXCP_ILLEGAL_INST);
     gen_set_label done;
     tcg_temp_free t0;
     tcg_temp_free t1
   }"

text \<open>
  The arms of \<^verbatim>\<open>gen_atomic\<close> come in three shapes, shared by the W (\<open>n = 4\<close>,
  the load sign-extends) and D (\<open>n = 8\<close>) forms: an AMO that combines with a micro-op,
  and a min/max AMO that branches over the store.
\<close>

definition gen_amo_op ::
  "nat \<Rightarrow> (TCGv \<Rightarrow> TCGv \<Rightarrow> TCGv \<Rightarrow> unit gen) \<Rightarrow> TCGv \<Rightarrow> TCGv \<Rightarrow> TCGv \<Rightarrow> nat \<Rightarrow> unit gen" where
  "gen_amo_op n f dat source1 source2 idx = do {
     tcg_gen_qemu_ld n (n = 4) dat source1 idx;
     f source2 dat source2;
     tcg_gen_qemu_st n source2 source1 idx;
     tcg_gen_mov_tl source1 dat
   }"

definition gen_amo_minmax ::
  "nat \<Rightarrow> TCGCond \<Rightarrow> TCGv \<Rightarrow> TCGv \<Rightarrow> TCGv \<Rightarrow> nat \<Rightarrow> nat \<Rightarrow> unit gen" where
  "gen_amo_minmax n c dat source1 source2 idx done = do {
     tcg_gen_qemu_ld n (n = 4) dat source1 idx;
     tcg_gen_brcond_tl c dat source2 done;
     tcg_gen_qemu_st n source2 source1 idx
   }"

definition gen_atomic :: "32 word \<Rightarrow> nat \<Rightarrow> nat \<Rightarrow> nat \<Rightarrow> unit gen" where
  "gen_atomic opc0 rd rs1 rs2 = do {
     let opc = MASK_OP_ATOMIC_NO_AQ_RL opc0;
     source1 \<leftarrow> tcg_temp_local_new;
     source2 \<leftarrow> tcg_temp_local_new;
     done \<leftarrow> gen_new_label;
     dat \<leftarrow> tcg_temp_local_new;
     gen_get_gpr source1 rs1;
     gen_get_gpr source2 rs2;
     idx \<leftarrow> read_ctx mem_idx;
     (if opc = OPC_RISC_LR_W then tcg_gen_qemu_ld 4 True dat source1 idx
      else if opc = OPC_RISC_SC_W then do {
        tcg_gen_qemu_st 4 source2 source1 idx;
        tcg_gen_movi_tl dat 0
      }
      else if opc = OPC_RISC_AMOSWAP_W then do {
        tcg_gen_qemu_ld 4 True dat source1 idx;
        tcg_gen_qemu_st 4 source2 source1 idx;
        tcg_gen_mov_tl source1 dat
      }
      else if opc = OPC_RISC_AMOADD_W then gen_amo_op 4 tcg_gen_add_tl dat source1 source2 idx
      else if opc = OPC_RISC_AMOXOR_W then gen_amo_op 4 tcg_gen_xor_tl dat source1 source2 idx
      else if opc = OPC_RISC_AMOAND_W then gen_amo_op 4 tcg_gen_and_tl dat source1 source2 idx
      else if opc = OPC_RISC_AMOOR_W then gen_amo_op 4 tcg_gen_or_tl dat source1 source2 idx
      else if opc = OPC_RISC_AMOMIN_W then gen_amo_minmax 4 TCG_COND_LT dat source1 source2 idx done
      else if opc = OPC_RISC_AMOMAX_W then gen_amo_minmax 4 TCG_COND_GT dat source1 source2 idx done
      else if opc = OPC_RISC_AMOMINU_W then gen_amo_minmax 4 TCG_COND_LTU dat source1 source2 idx done
      else if opc = OPC_RISC_AMOMAXU_W then gen_amo_minmax 4 TCG_COND_GTU dat source1 source2 idx done
      else if opc = OPC_RISC_LR_D then tcg_gen_qemu_ld 8 False dat source1 idx
      else if opc = OPC_RISC_SC_D then do {
        tcg_gen_qemu_st 8 source2 source1 idx;
        tcg_gen_movi_tl dat 0
      }
      else if opc = OPC_RISC_AMOSWAP_D then do {
        tcg_gen_qemu_ld 8 False dat source1 idx;
        tcg_gen_qemu_st 8 source2 source1 idx;
        tcg_gen_mov_tl source1 dat
      }
      else if opc = OPC_RISC_AMOADD_D then gen_amo_op 8 tcg_gen_add_tl dat source1 source2 idx
      else if opc = OPC_RISC_AMOXOR_D then gen_amo_op 8 tcg_gen_xor_tl dat source1 source2 idx
      else if opc = OPC_RISC_AMOAND_D then gen_amo_op 8 tcg_gen_and_tl dat source1 source2 idx
      else if opc = OPC_RISC_AMOOR_D then gen_amo_op 8 tcg_gen_or_tl dat source1 source2 idx
      else if opc = OPC_RISC_AMOMIN_D then gen_amo_minmax 8 TCG_COND_LT dat source1 source2 idx done
      else if opc = OPC_RISC_AMOMAX_D then gen_amo_minmax 8 TCG_COND_GT dat source1 source2 idx done
      else if opc = OPC_RISC_AMOMINU_D then gen_amo_minmax 8 TCG_COND_LTU dat source1 source2 idx done
      else if opc = OPC_RISC_AMOMAXU_D then gen_amo_minmax 8 TCG_COND_GTU dat source1 source2 idx done
      else kill_unknown RISCV_EXCP_ILLEGAL_INST);
     gen_set_label done;
     gen_set_gpr rd dat;
     tcg_temp_free source1;
     tcg_temp_free source2;
     tcg_temp_free dat
   }"


subsection \<open>Floating point\<close>

text \<open>
  Modelled from the spec: names of \<^verbatim>\<open>instmap.h\<close> for the floating-point and system
  instructions, with the values of the RISC-V encoding (\<^verbatim>\<open>funct7\<close> at bit 25, for the
  fused forms the format at bit 25, for system instructions \<^verbatim>\<open>funct3\<close> at bit 12).
\<close>

definition OPC_RISC_FADD_S :: "32 word" where "OPC_RISC_FADD_S = OPC_RISC_FP_ARITH OR push_bit 25 0x0"
definition OPC_RISC_FSUB_S :: "32 word" where "OPC_RISC_FSUB_S = OPC_RISC_FP_ARITH OR push_bit 25 0x4"
definition OPC_RISC_FMUL_S :: "32 word" where "OPC_RISC_FMUL_S = OPC_RISC_FP_ARITH OR push_bit 25 0x8"
definition OPC_RISC_FDIV_S :: "32 word" where "OPC_RISC_FDIV_S = OPC_RISC_FP_ARITH OR push_bit 25 0xC"
definition OPC_RISC_FSGNJ_S :: "32 word" where "OPC_RISC_FSGNJ_S = OPC_RISC_FP_ARITH OR push_bit 25 0x10"
definition OPC_RISC_FMIN_S :: "32 word" where "OPC_RISC_FMIN_S = OPC_RISC_FP_ARITH OR push_bit 25 0x14"
definition OPC_RISC_FSQRT_S :: "32 word" where "OPC_RISC_FSQRT_S = OPC_RISC_FP_ARITH OR push_bit 25 0x2C"
definition OPC_RISC_FEQ_S :: "32 word" where "OPC_RISC_FEQ_S = OPC_RISC_FP_ARITH OR push_bit 25 0x50"
definition OPC_RISC_FCVT_W_S :: "32 word" where "OPC_RISC_FCVT_W_S = OPC_RISC_FP_ARITH OR push_bit 25 0x60"
definition OPC_RISC_FCVT_S_W :: "32 word" where "OPC_RISC_FCVT_S_W = OPC_RISC_FP_ARITH OR push_bit 25 0x68"
definition OPC_RISC_FMV_X_S :: "32 word" where "OPC_RISC_FMV_X_S = OPC_RISC_FP_ARITH OR push_bit 25 0x70"
definition OPC_RISC_FMV_S_X :: "32 word" where "OPC_RISC_FMV_S_X = OPC_RISC_FP_ARITH OR push_bit 25 0x78"
definition OPC_RISC_FADD_D :: "32 word" where "OPC_RISC_FADD_D = OPC_RISC_FP_ARITH OR push_bit 25 0x1"
definition OPC_RISC_FSUB_D :: "32 word" where "OPC_RISC_FSUB_D = OPC_RISC_FP_ARITH OR push_bit 25 0x5"
definition OPC_RISC_FMUL_D :: "32 word" where "OPC_RISC_FMUL_D = OPC_RISC_FP_ARITH OR push_bit 25 0x9"
definition OPC_RISC_FDIV_D :: "32 word" where "OPC_RISC_FDIV_D = OPC_RISC_FP_ARITH OR push_bit 25 0xD"
definition OPC_RISC_FSGNJ_D :: "32 word" where "OPC_RISC_FSGNJ_D = OPC_RISC_FP_ARITH OR push_bit 25 0x11"
definition OPC_RISC_FMIN_D :: "32 word" where "OPC_RISC_FMIN_D = OPC_RISC_FP_ARITH OR push_bit 25 0x15"
definition OPC_RISC_FCVT_S_D :: "32 word" where "OPC_RISC_FCVT_S_D = OPC_RISC_FP_ARITH OR push_bit 25 0x20"
definition OPC_RISC_FCVT_D_S :: "32 word" where "OPC_RISC_FCVT_D_S = OPC_RISC_FP_ARITH OR push_bit 25 0x21"
definition OPC_RISC_FSQRT_D :: "32 word" where "OPC_RISC_FSQRT_D = OPC_RISC_FP_ARITH OR push_bit 25 0x2D"
definition OPC_RISC_FEQ_D :: "32 word" where "OPC_RISC_FEQ_D = OPC_RISC_FP_ARITH OR push_bit 25 0x51"
definition OPC_RISC_FCVT_W_D :: "32 word" where "OPC_RISC_FCVT_W_D = OPC_RISC_FP_ARITH OR push_bit 25 0x61"
definition OPC_RISC_FCVT_D_W :: "32 word" where "OPC_RISC_FCVT_D_W = OPC_RISC_FP_ARITH OR push_bit 25 0x69"
definition OPC_RISC_FMV_X_D :: "32 word" where "OPC_RISC_FMV_X_D = OPC_RISC_FP_ARITH OR push_bit 25 0x71"
definition OPC_RISC_FMV_D_X :: "32 word" where "OPC_RISC_FMV_D_X = OPC_RISC_FP_ARITH OR push_bit 25 0x79"

definition OPC_RISC_FMADD_S :: "32 word" where "OPC_RISC_FMADD_S = OPC_RISC_FMADD OR push_bit 25 0x0"
definition OPC_RISC_FMADD_D :: "32 word" where "OPC_RISC_FMADD_D = OPC_RISC_FMADD OR push_bit 25 0x1"
definition OPC_RISC_FMSUB_S :: "32 word" where "OPC_RISC_FMSUB_S = OPC_RISC_FMSUB OR push_bit 25 0x0"
definition OPC_RISC_FMSUB_D :: "32 word" where "OPC_RISC_FMSUB_D = OPC_RISC_FMSUB OR push_bit 25 0x1"
definition OPC_RISC_FNMSUB_S :: "32 word" where "OPC_RISC_FNMSUB_S = OPC_RISC_FNMSUB OR push_bit 25 0x0"
definition OPC_RISC_FNMSUB_D :: "32 word" where "OPC_RISC_FNMSUB_D = OPC_RISC_FNMSUB OR push_bit 25 0x1"
definition OPC_RISC_FNMADD_S :: "32 word" where "OPC_RISC_FNMADD_S = OPC_RISC_FNMADD OR push_bit 25 0x0"
definition OPC_RISC_FNMADD_D :: "32 word" where "OPC_RISC_FNMADD_D = OPC_RISC_FNMADD OR push_bit 25 0x1"

definition OPC_RISC_ECALL :: "32 word" where "OPC_RISC_ECALL = OPC_RISC_SYSTEM OR push_bit 12 0x0"
definition OPC_RISC_CSRRW :: "32 word" where "OPC_RISC_CSRRW = OPC_RISC_SYSTEM OR push_bit 12 0x1"
definition OPC_RISC_CSRRS :: "32 word" where "OPC_RISC_CSRRS = OPC_RISC_SYSTEM OR push_bit 12 0x2"
definition OPC_RISC_CSRRC :: "32 word" where "OPC_RISC_CSRRC = OPC_RISC_SYSTEM OR push_bit 12 0x3"
definition OPC_RISC_CSRRWI :: "32 word" where "OPC_RISC_CSRRWI = OPC_RISC_SYSTEM OR push_bit 12 0x5"
definition OPC_RISC_CSRRSI :: "32 word" where "OPC_RISC_CSRRSI = OPC_RISC_SYSTEM OR push_bit 12 0x6"
definition OPC_RISC_CSRRCI :: "32 word" where "OPC_RISC_CSRRCI = OPC_RISC_SYSTEM OR push_bit 12 0x7"

definition gen_fp_fmadd :: "32 word \<Rightarrow> nat \<Rightarrow> nat \<Rightarrow> nat \<Rightarrow> nat \<Rightarrow> target_ulong \<Rightarrow> unit gen" where
  "gen_fp_fmadd opc rd rs1 rs2 rs3 rm = do {
     rm_reg \<leftarrow> tcg_temp_new;
     tcg_gen_movi_tl rm_reg rm;
     (if opc = OPC_RISC_FMADD_S then
        gen_helper (helper_named ''fmadd_s'') (Some (cpu_fpr rd)) [cpu_fpr rs1, cpu_fpr rs2, cpu_fpr rs3, rm_reg]
      else if opc = OPC_RISC_FMADD_D then
        gen_helper (helper_named ''fmadd_d'') (Some (cpu_fpr rd)) [cpu_fpr rs1, cpu_fpr rs2, cpu_fpr rs3, rm_reg]
      else kill_unknown RISCV_EXCP_ILLEGAL_INST);
     tcg_temp_free rm_reg
   }"


definition gen_fp_fmsub :: "32 word \<Rightarrow> nat \<Rightarrow> nat \<Rightarrow> nat \<Rightarrow> nat \<Rightarrow> target_ulong \<Rightarrow> unit gen" where
  "gen_fp_fmsub opc rd rs1 rs2 rs3 rm = do {
     rm_reg \<leftarrow> tcg_temp_new;
     tcg_gen_movi_tl rm_reg rm;
     (if opc = OPC_RISC_FMSUB_S then
        gen_helper (helper_named ''fmsub_s'') (Some (cpu_fpr rd)) [cpu_fpr rs1, cpu_fpr rs2, cpu_fpr rs3, rm_reg]
      else if opc = OPC_RISC_FMSUB_D then
        gen_helper (helper_named ''fmsub_d'') (Some (cpu_fpr rd)) [cpu_fpr rs1, cpu_fpr rs2, cpu_fpr rs3, rm_reg]
      else kill_unknown RISCV_EXCP_ILLEGAL_INST);
     tcg_temp_free rm_reg
   }"


definition gen_fp_fnmsub :: "32 word \<Rightarrow> nat \<Rightarrow> nat \<Rightarrow> nat \<Rightarrow> nat \<Rightarrow> target_ulong \<Rightarrow> unit gen" where
  "gen_fp_fnmsub opc rd rs1 rs2 rs3 rm = do {
     rm_reg \<leftarrow> tcg_temp_new;
     tcg_gen_movi_tl rm_reg rm;
     (if opc = OPC_RISC_FNMSUB_S then
        gen_helper (helper_named ''fnmsub_s'') (Some (cpu_fpr rd)) [cpu_fpr rs1, cpu_fpr rs2, cpu_fpr rs3, rm_reg]
      else if opc = OPC_RISC_FNMSUB_D then
        gen_helper (helper_named ''fnmsub_d'') (Some (cpu_fpr rd)) [cpu_fpr rs1, cpu_fpr rs2, cpu_fpr rs3, rm_reg]
      else kill_unknown RISCV_EXCP_ILLEGAL_INST);
     tcg_temp_free rm_reg
   }"


definition gen_fp_fnmadd :: "32 word \<Rightarrow> nat \<Rightarrow> nat \<Rightarrow> nat \<Rightarrow> nat \<Rightarrow> target_ulong \<Rightarrow> unit gen" where
  "gen_fp_fnmadd opc rd rs1 rs2 rs3 rm = do {
     rm_reg \<leftarrow> tcg_temp_new;
     tcg_gen_movi_tl rm_reg rm;
     (if opc = OPC_RISC_FNMADD_S then
        gen_helper (helper_named ''fnmadd_s'') (Some (cpu_fpr rd)) [cpu_fpr rs1, cpu_fpr rs2, cpu_fpr rs3, rm_reg]
      else if opc = OPC_RISC_FNMADD_D then
        gen_helper (helper_named ''fnmadd_d'') (Some (cpu_fpr rd)) [cpu_fpr rs1, cpu_fpr rs2, cpu_fpr rs3, rm_reg]
      else kill_unknown RISCV_EXCP_ILLEGAL_INST);
     tcg_temp_free rm_reg
   }"

text \<open>
  \<^verbatim>\<open>gen_fp_arith\<close>. The arms that lower to a helper call emit that call and nothing
  before it; the arms that move bits between the register banks, and \<^verbatim>\<open>gen_fsgnj\<close>,
  emit the test of \<^verbatim>\<open>mstatus.FS\<close> themselves.
\<close>

definition gen_fsgnj :: "nat \<Rightarrow> nat \<Rightarrow> nat \<Rightarrow> target_ulong \<Rightarrow> 64 word \<Rightarrow> unit gen" where
  "gen_fsgnj rd rs1 rs2 rm minv = do {
     t0 \<leftarrow> tcg_temp_new;
     fp_ok \<leftarrow> gen_new_label;
     done \<leftarrow> gen_new_label;
     tcg_gen_ld_mstatus t0;
     tcg_gen_andi_tl t0 t0 MSTATUS_FS;
     tcg_gen_brcondi_tl TCG_COND_NE t0 0x0 fp_ok;
     kill_unknown RISCV_EXCP_ILLEGAL_INST;
     tcg_gen_br done;
     gen_set_label fp_ok;
     src1 \<leftarrow> tcg_temp_new;
     src2 \<leftarrow> tcg_temp_new;
     tcg_gen_mov_tl src1 (cpu_fpr rs1);
     tcg_gen_mov_tl src2 (cpu_fpr rs2);
     (if rm = 0 then do {
        (if rs1 = rs2 then tcg_gen_mov_tl (cpu_fpr rd) src1 else State_Monad.return ());
        tcg_gen_andi_tl src1 src1 (NOT minv);
        tcg_gen_andi_tl src2 src2 minv;
        tcg_gen_or_tl (cpu_fpr rd) src1 src2
      }
      else if rm = 1 then do {
        tcg_gen_andi_tl src1 src1 (NOT minv);
        tcg_gen_not_tl src2 src2;
        tcg_gen_andi_tl src2 src2 minv;
        tcg_gen_or_tl (cpu_fpr rd) src1 src2
      }
      else if rm = 2 then do {
        tcg_gen_andi_tl src2 src2 minv;
        tcg_gen_xor_tl (cpu_fpr rd) src1 src2
      }
      else kill_unknown RISCV_EXCP_ILLEGAL_INST);
     tcg_temp_free src1;
     tcg_temp_free src2;
     gen_set_label done;
     tcg_temp_free t0
   }"

definition gen_fp_arith :: "32 word \<Rightarrow> nat \<Rightarrow> nat \<Rightarrow> nat \<Rightarrow> target_ulong \<Rightarrow> unit gen" where
  "gen_fp_arith opc rd rs1 rs2 rm = do {
     rm_reg \<leftarrow> tcg_temp_new;
     write_int_rd \<leftarrow> tcg_temp_new;
     tcg_gen_movi_tl rm_reg rm;
     (if opc = OPC_RISC_FADD_S then
        gen_helper (helper_named ''fadd_s'') (Some (cpu_fpr rd)) [cpu_fpr rs1, cpu_fpr rs2, rm_reg]
      else if opc = OPC_RISC_FSUB_S then
        gen_helper (helper_named ''fsub_s'') (Some (cpu_fpr rd)) [cpu_fpr rs1, cpu_fpr rs2, rm_reg]
      else if opc = OPC_RISC_FMUL_S then
        gen_helper (helper_named ''fmul_s'') (Some (cpu_fpr rd)) [cpu_fpr rs1, cpu_fpr rs2, rm_reg]
      else if opc = OPC_RISC_FDIV_S then
        gen_helper (helper_named ''fdiv_s'') (Some (cpu_fpr rd)) [cpu_fpr rs1, cpu_fpr rs2, rm_reg]
      else if opc = OPC_RISC_FSGNJ_S then
        gen_fsgnj rd rs1 rs2 rm (scast (0x80000000 :: 32 word))
      else if opc = OPC_RISC_FMIN_S then
        (if rm = 0x0 then gen_helper (helper_named ''fmin_s'') (Some (cpu_fpr rd)) [cpu_fpr rs1, cpu_fpr rs2]
         else if rm = 0x1 then gen_helper (helper_named ''fmax_s'') (Some (cpu_fpr rd)) [cpu_fpr rs1, cpu_fpr rs2]
         else kill_unknown RISCV_EXCP_ILLEGAL_INST)
      else if opc = OPC_RISC_FSQRT_S then
        gen_helper (helper_named ''fsqrt_s'') (Some (cpu_fpr rd)) [cpu_fpr rs1, rm_reg]
      else if opc = OPC_RISC_FEQ_S then
        do {
        (if rm = 0x0 then gen_helper (helper_named ''fle_s'') (Some write_int_rd) [cpu_fpr rs1, cpu_fpr rs2]
         else if rm = 0x1 then gen_helper (helper_named ''flt_s'') (Some write_int_rd) [cpu_fpr rs1, cpu_fpr rs2]
         else if rm = 0x2 then gen_helper (helper_named ''feq_s'') (Some write_int_rd) [cpu_fpr rs1, cpu_fpr rs2]
         else kill_unknown RISCV_EXCP_ILLEGAL_INST);
        gen_set_gpr rd write_int_rd
      }
      else if opc = OPC_RISC_FCVT_W_S then
        do {
        (if rs2 = 0x0 then gen_helper (helper_named ''fcvt_w_s'') (Some write_int_rd) [cpu_fpr rs1, rm_reg]
         else if rs2 = 0x1 then gen_helper (helper_named ''fcvt_wu_s'') (Some write_int_rd) [cpu_fpr rs1, rm_reg]
         else if rs2 = 0x2 then gen_helper (helper_named ''fcvt_l_s'') (Some write_int_rd) [cpu_fpr rs1, rm_reg]
         else if rs2 = 0x3 then gen_helper (helper_named ''fcvt_lu_s'') (Some write_int_rd) [cpu_fpr rs1, rm_reg]
         else kill_unknown RISCV_EXCP_ILLEGAL_INST);
        gen_set_gpr rd write_int_rd
      }
      else if opc = OPC_RISC_FCVT_S_W then
        do {
        gen_get_gpr write_int_rd rs1;
        (if rs2 = 0x0 then gen_helper (helper_named ''fcvt_s_w'') (Some (cpu_fpr rd)) [write_int_rd, rm_reg]
         else if rs2 = 0x1 then gen_helper (helper_named ''fcvt_s_wu'') (Some (cpu_fpr rd)) [write_int_rd, rm_reg]
         else if rs2 = 0x2 then gen_helper (helper_named ''fcvt_s_l'') (Some (cpu_fpr rd)) [write_int_rd, rm_reg]
         else if rs2 = 0x3 then gen_helper (helper_named ''fcvt_s_lu'') (Some (cpu_fpr rd)) [write_int_rd, rm_reg]
         else kill_unknown RISCV_EXCP_ILLEGAL_INST)
      }
      else if opc = OPC_RISC_FMV_X_S then
        do {
        fp_ok \<leftarrow> gen_new_label;
        done \<leftarrow> gen_new_label;
        tcg_gen_ld_mstatus write_int_rd;
        tcg_gen_andi_tl write_int_rd write_int_rd MSTATUS_FS;
        tcg_gen_brcondi_tl TCG_COND_NE write_int_rd 0x0 fp_ok;
        kill_unknown RISCV_EXCP_ILLEGAL_INST;
        tcg_gen_br done;
        gen_set_label fp_ok;
        (if rm = 0x0 then tcg_gen_ext32s_tl write_int_rd (cpu_fpr rs1)
         else if rm = 0x1 then gen_helper (helper_named ''fclass_s'') (Some write_int_rd) [cpu_fpr rs1]
         else kill_unknown RISCV_EXCP_ILLEGAL_INST);
        gen_set_gpr rd write_int_rd;
        gen_set_label done
      }
      else if opc = OPC_RISC_FMV_S_X then
        do {
        fp_ok \<leftarrow> gen_new_label;
        done \<leftarrow> gen_new_label;
        tcg_gen_ld_mstatus write_int_rd;
        tcg_gen_andi_tl write_int_rd write_int_rd MSTATUS_FS;
        tcg_gen_brcondi_tl TCG_COND_NE write_int_rd 0x0 fp_ok;
        kill_unknown RISCV_EXCP_ILLEGAL_INST;
        tcg_gen_br done;
        gen_set_label fp_ok;
        gen_get_gpr write_int_rd rs1;
        tcg_gen_mov_tl (cpu_fpr rd) write_int_rd;
        gen_set_label done
      }
      else if opc = OPC_RISC_FADD_D then
        gen_helper (helper_named ''fadd_d'') (Some (cpu_fpr rd)) [cpu_fpr rs1, cpu_fpr rs2, rm_reg]
      else if opc = OPC_RISC_FSUB_D then
        gen_helper (helper_named ''fsub_d'') (Some (cpu_fpr rd)) [cpu_fpr rs1, cpu_fpr rs2, rm_reg]
      else if opc = OPC_RISC_FMUL_D then
        gen_helper (helper_named ''fmul_d'') (Some (cpu_fpr rd)) [cpu_fpr rs1, cpu_fpr rs2, rm_reg]
      else if opc = OPC_RISC_FDIV_D then
        gen_helper (helper_named ''fdiv_d'') (Some (cpu_fpr rd)) [cpu_fpr rs1, cpu_fpr rs2, rm_reg]
      else if opc = OPC_RISC_FSGNJ_D then
        gen_fsgnj rd rs1 rs2 rm (push_bit 63 1)
      else if opc = OPC_RISC_FMIN_D then
        (if rm = 0x0 then gen_helper (helper_named ''fmin_d'') (Some (cpu_fpr rd)) [cpu_fpr rs1, cpu_fpr rs2]
         else if rm = 0x1 then gen_helper (helper_named ''fmax_d'') (Some (cpu_fpr rd)) [cpu_fpr rs1, cpu_fpr rs2]
         else kill_unknown RISCV_EXCP_ILLEGAL_INST)
      else if opc = OPC_RISC_FCVT_S_D then
        (if rs2 = 0x1 then gen_helper (helper_named ''fcvt_s_d'') (Some (cpu_fpr rd)) [cpu_fpr rs1, rm_reg]
         else kill_unknown RISCV_EXCP_ILLEGAL_INST)
      else if opc = OPC_RISC_FCVT_D_S then
        (if rs2 = 0x0 then gen_helper (helper_named ''fcvt_d_s'') (Some (cpu_fpr rd)) [cpu_fpr rs1, rm_reg]
         else kill_unknown RISCV_EXCP_ILLEGAL_INST)
      else if opc = OPC_RISC_FSQRT_D then
        gen_helper (helper_named ''fsqrt_d'') (Some (cpu_fpr rd)) [cpu_fpr rs1, rm_reg]
      else if opc = OPC_RISC_FEQ_D then
        do {
        (if rm = 0x0 then gen_helper (helper_named ''fle_d'') (Some write_int_rd) [cpu_fpr rs1, cpu_fpr rs2]
         else if rm = 0x1 then gen_helper (helper_named ''flt_d'') (Some write_int_rd) [cpu_fpr rs1, cpu_fpr rs2]
         else if rm = 0x2 then gen_helper (helper_named ''feq_d'') (Some write_int_rd) [cpu_fpr rs1, cpu_fpr rs2]
         else kill_unknown RISCV_EXCP_ILLEGAL_INST);
        gen_set_gpr rd write_int_rd
      }
      else if opc = OPC_RISC_FCVT_W_D then
        do {
        (if rs2 = 0x0 then gen_helper (helper_named ''fcvt_w_d'') (Some write_int_rd) [cpu_fpr rs1, rm_reg]
         else if rs2 = 0x1 then gen_helper (helper_named ''fcvt_wu_d'') (Some write_int_rd) [cpu_fpr rs1, rm_reg]
         else if rs2 = 0x2 then gen_helper (helper_named ''fcvt_l_d'') (Some write_int_rd) [cpu_fpr rs1, rm_reg]
         else if rs2 = 0x3 then gen_helper (helper_named ''fcvt_lu_d'') (Some write_int_rd) [cpu_fpr rs1, rm_reg]
         else kill_unknown RISCV_EXCP_ILLEGAL_INST);
        gen_set_gpr rd write_int_rd
      }
      else if opc = OPC_RISC_FCVT_D_W then
        do {
        gen_get_gpr write_int_rd rs1;
        (if rs2 = 0x0 then gen_helper (helper_named ''fcvt_d_w'') (Some (cpu_fpr rd)) [write_int_rd, rm_reg]
         else if rs2 = 0x1 then gen_helper (helper_named ''fcvt_d_wu'') (Some (cpu_fpr rd)) [write_int_rd, rm_reg]
         else if rs2 = 0x2 then gen_helper (helper_named ''fcvt_d_l'') (Some (cpu_fpr rd)) [write_int_rd, rm_reg]
         else if rs2 = 0x3 then gen_helper (helper_named ''fcvt_d_lu'') (Some (cpu_fpr rd)) [write_int_rd, rm_reg]
         else kill_unknown RISCV_EXCP_ILLEGAL_INST)
      }
      else if opc = OPC_RISC_FMV_X_D then
        do {
        fp_ok \<leftarrow> gen_new_label;
        done \<leftarrow> gen_new_label;
        tcg_gen_ld_mstatus write_int_rd;
        tcg_gen_andi_tl write_int_rd write_int_rd MSTATUS_FS;
        tcg_gen_brcondi_tl TCG_COND_NE write_int_rd 0x0 fp_ok;
        kill_unknown RISCV_EXCP_ILLEGAL_INST;
        tcg_gen_br done;
        gen_set_label fp_ok;
        (if rm = 0x0 then tcg_gen_mov_tl write_int_rd (cpu_fpr rs1)
         else if rm = 0x1 then gen_helper (helper_named ''fclass_d'') (Some write_int_rd) [cpu_fpr rs1]
         else kill_unknown RISCV_EXCP_ILLEGAL_INST);
        gen_set_gpr rd write_int_rd;
        gen_set_label done
      }
      else if opc = OPC_RISC_FMV_D_X then
        do {
        fp_ok \<leftarrow> gen_new_label;
        done \<leftarrow> gen_new_label;
        tcg_gen_ld_mstatus write_int_rd;
        tcg_gen_andi_tl write_int_rd write_int_rd MSTATUS_FS;
        tcg_gen_brcondi_tl TCG_COND_NE write_int_rd 0x0 fp_ok;
        kill_unknown RISCV_EXCP_ILLEGAL_INST;
        tcg_gen_br done;
        gen_set_label fp_ok;
        gen_get_gpr write_int_rd rs1;
        tcg_gen_mov_tl (cpu_fpr rd) write_int_rd;
        gen_set_label done
      }
      else kill_unknown RISCV_EXCP_ILLEGAL_INST);
     tcg_temp_free rm_reg;
     tcg_temp_free write_int_rd
   }"

subsection \<open>CSR and system instructions\<close>

definition gen_system :: "32 word \<Rightarrow> nat \<Rightarrow> nat \<Rightarrow> 32 word \<Rightarrow> unit gen" where
  "gen_system opc rd rs1 csr = do {
     source1 \<leftarrow> tcg_temp_new;
     csr_store \<leftarrow> tcg_temp_new;
     dest \<leftarrow> tcg_temp_new;
     rs1_pass \<leftarrow> tcg_temp_new;
     imm_rs1 \<leftarrow> tcg_temp_new;
     gen_get_gpr source1 rs1;
     p \<leftarrow> read_ctx pc;
     tcg_gen_movi_tl cpu_pc p;
     tcg_gen_movi_tl rs1_pass (of_nat rs1);
     tcg_gen_movi_tl csr_store (ucast csr);
     (if opc = OPC_RISC_ECALL then
        (if csr = 0x0 then do {
           generate_exception RISCV_EXCP_U_ECALL;
           gen_exit_tb None;
           set_bstate BS_BRANCH
         }
         else if csr = 0x1 then do {
           generate_exception RISCV_EXCP_BREAKPOINT;
           gen_exit_tb None;
           set_bstate BS_BRANCH
         }
         else if csr = 0x002 then kill_unknown RISCV_EXCP_ILLEGAL_INST
         else if csr = 0x102 then do {
           gen_helper (helper_named ''sret'') (Some cpu_pc) [cpu_pc];
           gen_exit_tb None;
           set_bstate BS_BRANCH
         }
         else if csr = 0x202 then kill_unknown RISCV_EXCP_ILLEGAL_INST
         else if csr = 0x302 then do {
           gen_helper (helper_named ''mret'') (Some cpu_pc) [cpu_pc];
           gen_exit_tb None;
           set_bstate BS_BRANCH
         }
         else if csr = 0x7b2 then kill_unknown RISCV_EXCP_ILLEGAL_INST
         else if csr = 0x105 then do {
           np \<leftarrow> read_ctx next_pc;
           tcg_gen_movi_tl cpu_pc np;
           gen_helper (helper_named ''wfi'') None []
         }
         else if csr = 0x104 then gen_helper (helper_named ''tlb_flush'') None []
         else if csr = 0x120 then gen_helper (helper_named ''tlb_flush'') None []
         else kill_unknown RISCV_EXCP_ILLEGAL_INST)
      else do {
        tcg_gen_movi_tl imm_rs1 (of_nat rs1);
        (if opc = OPC_RISC_CSRRW then
           gen_helper (helper_named ''csrrw'') (Some dest) [source1, csr_store]
         else if opc = OPC_RISC_CSRRS then
           gen_helper (helper_named ''csrrs'') (Some dest) [source1, csr_store, rs1_pass]
         else if opc = OPC_RISC_CSRRC then
           gen_helper (helper_named ''csrrc'') (Some dest) [source1, csr_store, rs1_pass]
         else if opc = OPC_RISC_CSRRWI then
           gen_helper (helper_named ''csrrw'') (Some dest) [imm_rs1, csr_store]
         else if opc = OPC_RISC_CSRRSI then
           gen_helper (helper_named ''csrrs'') (Some dest) [imm_rs1, csr_store, rs1_pass]
         else if opc = OPC_RISC_CSRRCI then
           gen_helper (helper_named ''csrrc'') (Some dest) [imm_rs1, csr_store, rs1_pass]
         else kill_unknown RISCV_EXCP_ILLEGAL_INST);
        gen_set_gpr rd dest;
        np \<leftarrow> read_ctx next_pc;
        tcg_gen_movi_tl cpu_pc np;
        gen_exit_tb None;
        set_bstate BS_BRANCH
      });
     tcg_temp_free source1;
     tcg_temp_free csr_store;
     tcg_temp_free dest;
     tcg_temp_free rs1_pass;
     tcg_temp_free imm_rs1
   }"


subsection \<open>Field extraction\<close>

definition extract32 :: "32 word \<Rightarrow> nat \<Rightarrow> nat \<Rightarrow> 32 word" where
  "extract32 v start len = drop_bit start v AND (push_bit len 1 - 1)"

definition sextract64 :: "64 word \<Rightarrow> nat \<Rightarrow> nat \<Rightarrow> 64 word" where
  "sextract64 v start len =
     (let result = drop_bit start v AND (push_bit len 1 - 1)
      in if drop_bit (len - 1) result \<noteq> 0 then result OR NOT (push_bit len 1 - 1) else result)"

text \<open>
  Modelled from the spec: the field accessors of \<^verbatim>\<open>instmap.h\<close> (section 2, item 2)
  are not among the sources. They are the fields of the RISC-V base and compressed
  encodings, written with the two extractors above.
\<close>

definition MASK_OP_MAJOR :: "32 word \<Rightarrow> 32 word" where "MASK_OP_MAJOR op = op AND 0x7F"
definition MASK_OP_ARITH :: "32 word \<Rightarrow> 32 word" where
  "MASK_OP_ARITH op = MASK_OP_MAJOR op OR (op AND (push_bit 12 0x7 OR push_bit 25 0x7F))"
definition MASK_OP_ARITH_IMM :: "32 word \<Rightarrow> 32 word" where
  "MASK_OP_ARITH_IMM op = MASK_OP_MAJOR op OR (op AND push_bit 12 0x7)"
definition MASK_OP_JALR :: "32 word \<Rightarrow> 32 word" where
  "MASK_OP_JALR op = MASK_OP_MAJOR op OR (op AND push_bit 12 0x7)"
definition MASK_OP_BRANCH :: "32 word \<Rightarrow> 32 word" where
  "MASK_OP_BRANCH op = MASK_OP_MAJOR op OR (op AND push_bit 12 0x7)"
definition MASK_OP_LOAD :: "32 word \<Rightarrow> 32 word" where
  "MASK_OP_LOAD op = MASK_OP_MAJOR op OR (op AND push_bit 12 0x7)"
definition MASK_OP_STORE :: "32 word \<Rightarrow> 32 word" where
  "MASK_OP_STORE op = MASK_OP_MAJOR op OR (op AND push_bit 12 0x7)"
definition MASK_OP_FP_LOAD :: "32 word \<Rightarrow> 32 word" where
  "MASK_OP_FP_LOAD op = MASK_OP_MAJOR op OR (op AND push_bit 12 0x7)"
definition MASK_OP_FP_STORE :: "32 word \<Rightarrow> 32 word" where
  "MASK_OP_FP_STORE op = MASK_OP_MAJOR op OR (op AND push_bit 12 0x7)"
definition MASK_OP_SYSTEM :: "32 word \<Rightarrow> 32 word" where
  "MASK_OP_SYSTEM op = MASK_OP_MAJOR op OR (op AND push_bit 12 0x7)"
definition MASK_OP_ATOMIC :: "32 word \<Rightarrow> 32 word" where
  "MASK_OP_ATOMIC op = MASK_OP_MAJOR op OR (op AND (push_bit 12 0x7 OR push_bit 25 0x7F))"
definition MASK_OP_FP_FMADD :: "32 word \<Rightarrow> 32 word" where
  "MASK_OP_FP_FMADD op = MASK_OP_MAJOR op OR (op AND push_bit 25 0x3)"
definition MASK_OP_FP_ARITH :: "32 word \<Rightarrow> 32 word" where
  "MASK_OP_FP_ARITH op = MASK_OP_MAJOR op OR (op AND push_bit 25 0x7F)"

definition GET_RM :: "32 word \<Rightarrow> target_ulong" where "GET_RM op = ucast (extract32 op 12 3)"
definition GET_RS3 :: "32 word \<Rightarrow> nat" where "GET_RS3 op = unat (extract32 op 27 5)"
definition GET_RS1 :: "32 word \<Rightarrow> nat" where "GET_RS1 op = unat (extract32 op 15 5)"
definition GET_RS2 :: "32 word \<Rightarrow> nat" where "GET_RS2 op = unat (extract32 op 20 5)"
definition GET_RD :: "32 word \<Rightarrow> nat" where "GET_RD op = unat (extract32 op 7 5)"
definition GET_IMM :: "32 word \<Rightarrow> target_ulong" where "GET_IMM op = sextract64 (ucast op) 20 12"
definition GET_STORE_IMM :: "32 word \<Rightarrow> target_ulong" where
  "GET_STORE_IMM op = ucast (extract32 op 7 5) OR push_bit 5 (sextract64 (ucast op) 25 7)"
definition GET_JAL_IMM :: "32 word \<Rightarrow> target_ulong" where
  "GET_JAL_IMM op = ucast (push_bit 1 (extract32 op 21 10)) OR ucast (push_bit 11 (extract32 op 20 1))
     OR ucast (push_bit 12 (extract32 op 12 8)) OR push_bit 20 (sextract64 (ucast op) 31 1)"
definition GET_B_IMM :: "32 word \<Rightarrow> target_ulong" where
  "GET_B_IMM op = ucast (push_bit 1 (extract32 op 8 4)) OR ucast (push_bit 5 (extract32 op 25 6))
     OR ucast (push_bit 11 (extract32 op 7 1)) OR push_bit 12 (sextract64 (ucast op) 31 1)"

definition GET_C_IMM :: "32 word \<Rightarrow> target_ulong" where
  "GET_C_IMM op = ucast (extract32 op 2 5) OR push_bit 5 (sextract64 (ucast op) 12 1)"
definition GET_C_ZIMM :: "32 word \<Rightarrow> target_ulong" where
  "GET_C_ZIMM op = ucast (extract32 op 2 5 OR push_bit 5 (extract32 op 12 1))"
definition GET_C_ADDI4SPN_IMM :: "32 word \<Rightarrow> target_ulong" where
  "GET_C_ADDI4SPN_IMM op = ucast (push_bit 2 (extract32 op 6 1) OR push_bit 3 (extract32 op 5 1)
     OR push_bit 4 (extract32 op 11 2) OR push_bit 6 (extract32 op 7 4))"
definition GET_C_ADDI16SP_IMM :: "32 word \<Rightarrow> target_ulong" where
  "GET_C_ADDI16SP_IMM op = ucast (push_bit 4 (extract32 op 6 1) OR push_bit 5 (extract32 op 2 1)
     OR push_bit 6 (extract32 op 5 1) OR push_bit 7 (extract32 op 3 2))
     OR push_bit 9 (sextract64 (ucast op) 12 1)"
definition GET_C_LWSP_IMM :: "32 word \<Rightarrow> target_ulong" where
  "GET_C_LWSP_IMM op = ucast (push_bit 2 (extract32 op 4 3) OR push_bit 5 (extract32 op 12 1)
     OR push_bit 6 (extract32 op 2 2))"
definition GET_C_LDSP_IMM :: "32 word \<Rightarrow> target_ulong" where
  "GET_C_LDSP_IMM op = ucast (push_bit 3 (extract32 op 5 2) OR push_bit 5 (extract32 op 12 1)
     OR push_bit 6 (extract32 op 2 3))"
definition GET_C_SWSP_IMM :: "32 word \<Rightarrow> target_ulong" where
  "GET_C_SWSP_IMM op = ucast (push_bit 2 (extract32 op 9 4) OR push_bit 6 (extract32 op 7 2))"
definition GET_C_SDSP_IMM :: "32 word \<Rightarrow> target_ulong" where
  "GET_C_SDSP_IMM op = ucast (push_bit 3 (extract32 op 10 3) OR push_bit 6 (extract32 op 7 3))"
definition GET_C_LW_IMM :: "32 word \<Rightarrow> target_ulong" where
  "GET_C_LW_IMM op = ucast (push_bit 2 (extract32 op 6 1) OR push_bit 3 (extract32 op 10 3)
     OR push_bit 6 (extract32 op 5 1))"
definition GET_C_LD_IMM :: "32 word \<Rightarrow> target_ulong" where
  "GET_C_LD_IMM op = ucast (push_bit 3 (extract32 op 10 3) OR push_bit 6 (extract32 op 5 2))"
definition GET_C_J_IMM :: "32 word \<Rightarrow> target_ulong" where
  "GET_C_J_IMM op = ucast (push_bit 1 (extract32 op 3 3) OR push_bit 4 (extract32 op 11 1)
     OR push_bit 5 (extract32 op 2 1) OR push_bit 6 (extract32 op 7 1) OR push_bit 7 (extract32 op 6 1)
     OR push_bit 8 (extract32 op 9 2) OR push_bit 10 (extract32 op 8 1))
     OR push_bit 11 (sextract64 (ucast op) 12 1)"
definition GET_C_B_IMM :: "32 word \<Rightarrow> target_ulong" where
  "GET_C_B_IMM op = ucast (push_bit 1 (extract32 op 3 2) OR push_bit 3 (extract32 op 10 2)
     OR push_bit 5 (extract32 op 2 1) OR push_bit 6 (extract32 op 5 2))
     OR push_bit 8 (sextract64 (ucast op) 12 1)"
definition GET_C_RS1 :: "32 word \<Rightarrow> nat" where "GET_C_RS1 op = GET_RD op"
definition GET_C_RS2 :: "32 word \<Rightarrow> nat" where "GET_C_RS2 op = unat (extract32 op 2 5)"
definition GET_C_RS1S :: "32 word \<Rightarrow> nat" where "GET_C_RS1S op = 8 + unat (extract32 op 7 3)"
definition GET_C_RS2S :: "32 word \<Rightarrow> nat" where "GET_C_RS2S op = 8 + unat (extract32 op 2 3)"

subsection \<open>Decoding\<close>

definition decode_RV32_64C0 :: "unit gen" where
  "decode_RV32_64C0 = do {
     op \<leftarrow> read_ctx opcode;
     let funct3 = extract32 op 13 3;
     let rd_rs2 = GET_C_RS2S op;
     let rs1s = GET_C_RS1S op;
     (if funct3 = 0 then
        (if op = 0 then kill_unknown RISCV_EXCP_ILLEGAL_INST
         else gen_arith_imm OPC_RISC_ADDI rd_rs2 2 (GET_C_ADDI4SPN_IMM op))
      else if funct3 = 1 then gen_fp_load OPC_RISC_FLD rd_rs2 rs1s (GET_C_LD_IMM op)
      else if funct3 = 2 then gen_load OPC_RISC_LW rd_rs2 rs1s (GET_C_LW_IMM op)
      else if funct3 = 3 then gen_load OPC_RISC_LD rd_rs2 rs1s (GET_C_LD_IMM op)
      else if funct3 = 4 then kill_unknown RISCV_EXCP_ILLEGAL_INST
      else if funct3 = 5 then gen_fp_store OPC_RISC_FSD rs1s rd_rs2 (GET_C_LD_IMM op)
      else if funct3 = 6 then gen_store OPC_RISC_SW rs1s rd_rs2 (GET_C_LW_IMM op)
      else if funct3 = 7 then gen_store OPC_RISC_SD rs1s rd_rs2 (GET_C_LD_IMM op)
      else State_Monad.return ())
   }"

definition decode_RV32_64C1 :: "CPUState \<Rightarrow> unit gen" where
  "decode_RV32_64C1 e = do {
     op \<leftarrow> read_ctx opcode;
     let funct3 = extract32 op 13 3;
     let rd_rs1 = GET_C_RS1 op;
     (if funct3 = 0 then gen_arith_imm OPC_RISC_ADDI rd_rs1 rd_rs1 (GET_C_IMM op)
      else if funct3 = 1 then gen_arith_imm OPC_RISC_ADDIW rd_rs1 rd_rs1 (GET_C_IMM op)
      else if funct3 = 2 then gen_arith_imm OPC_RISC_ADDI rd_rs1 0 (GET_C_IMM op)
      else if funct3 = 3 then
        (if rd_rs1 = 2 then gen_arith_imm OPC_RISC_ADDI 2 2 (GET_C_ADDI16SP_IMM op)
         else if rd_rs1 \<noteq> 0 then tcg_gen_movi_tl (cpu_gpr rd_rs1) (push_bit 12 (GET_C_IMM op))
         else State_Monad.return ())
      else if funct3 = 4 then do {
        let funct2 = extract32 op 10 2;
        let rs1s = GET_C_RS1S op;
        (if funct2 = 0 then gen_arith_imm OPC_RISC_SHIFT_RIGHT_I rs1s rs1s (GET_C_ZIMM op)
         else if funct2 = 1 then gen_arith_imm OPC_RISC_SHIFT_RIGHT_I rs1s rs1s (GET_C_ZIMM op OR 0x400)
         else if funct2 = 2 then gen_arith_imm OPC_RISC_ANDI rs1s rs1s (GET_C_IMM op)
         else if funct2 = 3 then do {
           let funct2 = extract32 op 5 2;
           let rs2s = GET_C_RS2S op;
           (if funct2 = 0 then
              (if extract32 op 12 1 = 0 then gen_arith OPC_RISC_SUB rs1s rs1s rs2s
               else gen_arith OPC_RISC_SUBW rs1s rs1s rs2s)
            else if funct2 = 1 then
              (if extract32 op 12 1 = 0 then gen_arith OPC_RISC_XOR rs1s rs1s rs2s
               else gen_arith OPC_RISC_ADDW rs1s rs1s rs2s)
            else if funct2 = 2 then gen_arith OPC_RISC_OR rs1s rs1s rs2s
            else if funct2 = 3 then gen_arith OPC_RISC_AND rs1s rs1s rs2s
            else State_Monad.return ())
         }
         else State_Monad.return ())
      }
      else if funct3 = 5 then gen_jal e 0 (GET_C_J_IMM op)
      else if funct3 = 6 then gen_branch e OPC_RISC_BEQ (GET_C_RS1S op) 0 (GET_C_B_IMM op)
      else if funct3 = 7 then gen_branch e OPC_RISC_BNE (GET_C_RS1S op) 0 (GET_C_B_IMM op)
      else State_Monad.return ())
   }"

definition decode_RV32_64C2 :: "CPUState \<Rightarrow> unit gen" where
  "decode_RV32_64C2 e = do {
     op \<leftarrow> read_ctx opcode;
     let funct3 = extract32 op 13 3;
     let rd = GET_RD op;
     (if funct3 = 0 then gen_arith_imm OPC_RISC_SLLI rd rd (GET_C_ZIMM op)
      else if funct3 = 1 then gen_fp_load OPC_RISC_FLD rd 2 (GET_C_LDSP_IMM op)
      else if funct3 = 2 then gen_load OPC_RISC_LW rd 2 (GET_C_LWSP_IMM op)
      else if funct3 = 3 then gen_load OPC_RISC_LD rd 2 (GET_C_LDSP_IMM op)
      else if funct3 = 4 then do {
        let rs2 = GET_C_RS2 op;
        (if extract32 op 12 1 = 0 then
           (if rs2 = 0 then gen_jalr e OPC_RISC_JALR 0 rd 0
            else gen_arith OPC_RISC_ADD rd 0 rs2)
         else
           (if rd = 0 then gen_system OPC_RISC_ECALL 0 0 0x1
            else if rs2 = 0 then gen_jalr e OPC_RISC_JALR 1 rd 0
            else gen_arith OPC_RISC_ADD rd rd rs2))
      }
      else if funct3 = 5 then gen_fp_store OPC_RISC_FSD 2 (GET_C_RS2 op) (GET_C_SDSP_IMM op)
      else if funct3 = 6 then gen_store OPC_RISC_SW 2 (GET_C_RS2 op) (GET_C_SWSP_IMM op)
      else if funct3 = 7 then gen_store OPC_RISC_SD 2 (GET_C_RS2 op) (GET_C_SDSP_IMM op)
      else State_Monad.return ())
   }"

definition decode_RV32_64C :: "CPUState \<Rightarrow> unit gen" where
  "decode_RV32_64C e = do {
     opc \<leftarrow> read_ctx opcode;
     let op = extract32 opc 0 2;
     (if op = 0 then decode_RV32_64C0
      else if op = 1 then decode_RV32_64C1 e
      else if op = 2 then decode_RV32_64C2 e
      else State_Monad.return ())
   }"

definition decode_RV32_64G :: "CPUState \<Rightarrow> unit gen" where
  "decode_RV32_64G e = do {
     opc \<leftarrow> read_ctx opcode;
     let op = MASK_OP_MAJOR opc;
     let rs1 = GET_RS1 opc;
     let rs2 = GET_RS2 opc;
     let rd = GET_RD opc;
     let imm = GET_IMM opc;
     (if op = OPC_RISC_LUI then
        (if rd = 0 then State_Monad.return ()
         else tcg_gen_movi_tl (cpu_gpr rd) (push_bit 12 (sextract64 (ucast opc) 12 20)))
      else if op = OPC_RISC_AUIPC then
        (if rd = 0 then State_Monad.return ()
         else do {
           p \<leftarrow> read_ctx pc;
           tcg_gen_movi_tl (cpu_gpr rd) (push_bit 12 (sextract64 (ucast opc) 12 20) + p)
         })
      else if op = OPC_RISC_JAL then gen_jal e rd (GET_JAL_IMM opc)
      else if op = OPC_RISC_JALR then gen_jalr e (MASK_OP_JALR opc) rd rs1 imm
      else if op = OPC_RISC_BRANCH then gen_branch e (MASK_OP_BRANCH opc) rs1 rs2 (GET_B_IMM opc)
      else if op = OPC_RISC_LOAD then gen_load (MASK_OP_LOAD opc) rd rs1 imm
      else if op = OPC_RISC_STORE then gen_store (MASK_OP_STORE opc) rs1 rs2 (GET_STORE_IMM opc)
      else if op = OPC_RISC_ARITH_IMM \<or> op = OPC_RISC_ARITH_IMM_W then
        (if rd = 0 then State_Monad.return ()
         else gen_arith_imm (MASK_OP_ARITH_IMM opc) rd rs1 imm)
      else if op = OPC_RISC_ARITH \<or> op = OPC_RISC_ARITH_W then
        (if rd = 0 then State_Monad.return ()
         else gen_arith (MASK_OP_ARITH opc) rd rs1 rs2)
      else if op = OPC_RISC_FP_LOAD then gen_fp_load (MASK_OP_FP_LOAD opc) rd rs1 imm
      else if op = OPC_RISC_FP_STORE then gen_fp_store (MASK_OP_FP_STORE opc) rs1 rs2 (GET_STORE_IMM opc)
      else if op = OPC_RISC_ATOMIC then gen_atomic (MASK_OP_ATOMIC opc) rd rs1 rs2
      else if op = OPC_RISC_FMADD then gen_fp_fmadd (MASK_OP_FP_FMADD opc) rd rs1 rs2 (GET_RS3 opc) (GET_RM opc)
      else if op = OPC_RISC_FMSUB then gen_fp_fmsub (MASK_OP_FP_FMADD opc) rd rs1 rs2 (GET_RS3 opc) (GET_RM opc)
      else if op = OPC_RISC_FNMSUB then gen_fp_fnmsub (MASK_OP_FP_FMADD opc) rd rs1 rs2 (GET_RS3 opc) (GET_RM opc)
      else if op = OPC_RISC_FNMADD then gen_fp_fnmadd (MASK_OP_FP_FMADD opc) rd rs1 rs2 (GET_RS3 opc) (GET_RM opc)
      else if op = OPC_RISC_FP_ARITH then gen_fp_arith (MASK_OP_FP_ARITH opc) rd rs1 rs2 (GET_RM opc)
      else if op = OPC_RISC_FENCE then
        (if opc AND 0x1000 \<noteq> 0 then do {
           gen_helper (helper_named ''fence_i'') None [];
           np \<leftarrow> read_ctx next_pc;
           tcg_gen_movi_tl cpu_pc np;
           gen_exit_tb None;
           set_bstate BS_BRANCH
         } else State_Monad.return ())
      else if op = OPC_RISC_SYSTEM then
        gen_system (MASK_OP_SYSTEM opc) rd rs1 (drop_bit 20 (opc AND 0xFFF00000))
      else kill_unknown RISCV_EXCP_ILLEGAL_INST)
   }"

definition set_next_pc :: "target_ulong \<Rightarrow> unit gen" where
  "set_next_pc v = State (\<lambda>s. ((), s\<lparr>ctx := (ctx s)\<lparr>next_pc := v\<rparr>\<rparr>))"

definition set_pc :: "target_ulong \<Rightarrow> unit gen" where
  "set_pc v = State (\<lambda>s. ((), s\<lparr>ctx := (ctx s)\<lparr>pc := v\<rparr>\<rparr>))"

definition disas_insn :: "CPUState \<Rightarrow> nat gen" where
  "disas_insn e = do {
     opc \<leftarrow> read_ctx opcode;
     p \<leftarrow> read_ctx pc;
     (if extract32 opc 0 2 \<noteq> 3 then
        (if \<not> riscv_has_ext e RISCV_FEATURE_RVC then do {
           kill_unknown RISCV_EXCP_ILLEGAL_INST;
           State_Monad.return 0
         } else do {
           set_next_pc (p + 2);
           decode_RV32_64C e;
           np \<leftarrow> read_ctx next_pc;
           set_pc np;
           State_Monad.return 2
         })
      else do {
        set_next_pc (p + 4);
        decode_RV32_64G e;
        np \<leftarrow> read_ctx next_pc;
        set_pc np;
        State_Monad.return 4
      })
   }"


subsection \<open>The translation-block driver\<close>

text \<open>
  Modelled from the spec: \<^verbatim>\<open>cpu_mmu_index\<close>, \<^verbatim>\<open>process_breakpoints\<close>,
  \<^verbatim>\<open>ldl_code\<close> and \<^verbatim>\<open>OPC_MAX_SIZE\<close> are not among the sources. The MMU index is
  taken to be the privilege level; a breakpoint is hit when the list of breakpoints of
  the CPU holds the current PC; the code fetch and the capacity of the micro-op buffer
  are parameters of the driver. The table that maps micro-ops back to guest PCs
  (written when \<^verbatim>\<open>search_pc\<close> is set) is left out.
\<close>

definition cpu_mmu_index :: "CPUState \<Rightarrow> nat" where
  "cpu_mmu_index e = unat (priv e)"

definition create_disas_context :: "CPUState \<Rightarrow> tstate \<Rightarrow> tstate" where
  "create_disas_context e s =
     s\<lparr>ctx := (ctx s)\<lparr>pc := tb_pc (tb s),
                       singlestep_enabled := env_singlestep_enabled e,
                       bstate := BS_NONE,
                       mem_idx := cpu_mmu_index e\<rparr>\<rparr>"

definition gen_breakpoint :: "unit gen" where
  "gen_breakpoint = do {
     generate_exception EXCP_DEBUG;
     p \<leftarrow> read_ctx pc;
     set_pc (p + 4)
   }"

text \<open>
  One instruction of the \<^verbatim>\<open>while (1)\<close> loop of \<^verbatim>\<open>gen_intermediate_code\<close>, up to
  the check for leaked temporaries: fetch, decode and translate, and account for the
  instruction in the block. The block is the one the loop holds a pointer to; the
  translators only read its \<^verbatim>\<open>pc\<close>.
\<close>

definition translate_insn :: "(target_ulong \<Rightarrow> 32 word) \<Rightarrow> CPUState \<Rightarrow> tstate \<Rightarrow> tstate" where
  "translate_insn ldl_code e s =
     (let s1 = s\<lparr>ctx := (ctx s)\<lparr>opcode := ldl_code (pc (ctx s))\<rparr>\<rparr>;
          tb1 = (tb s)\<lparr>tb_prev_size := tb_size (tb s)\<rparr>;
          r = run_state (disas_insn e) s1;
          tb2 = tb1\<lparr>tb_size := tb_size tb1 + fst r, tb_icount := Suc (tb_icount tb1)\<rparr>;
          tb3 = (if \<not> tb_search_pc tb2 then tb2\<lparr>tb_original_size := tb_size tb2\<rparr> else tb2)
      in (snd r)\<lparr>tb := tb3\<rparr>)"

text \<open>
  The loop. \<open>None\<close> is the abort of the runtime on a leaked temporary.
\<close>

function translate_loop ::
  "(target_ulong \<Rightarrow> 32 word) \<Rightarrow> CPUState \<Rightarrow> nat \<Rightarrow> nat \<Rightarrow> tstate \<Rightarrow> tstate option" where
  "translate_loop ldl_code e max_insns opc_max_size s =
     (if breakpoints e \<noteq> [] \<and> pc (ctx s) \<in> set (breakpoints e) then
        Some (snd (run_state gen_breakpoint s))
      else
        let s' = translate_insn ldl_code e s
        in if temps_in_use s' \<noteq> 0 then None
           else if bstate (ctx s') \<noteq> BS_NONE then Some s'
           else if singlestep_enabled (ctx s') then Some s'
           else if TARGET_PAGE_SIZE \<le> pc (ctx s') - (tb_pc (tb s') AND TARGET_PAGE_MASK) then Some s'
           else if max_insns \<le> tb_icount (tb s') then Some (s'\<lparr>ctx := (ctx s')\<lparr>bstate := BS_STOP\<rparr>\<rparr>)
           else if opc_max_size \<le> length (gen_opc_buf s') then Some s'
           else if tb_search_pc (tb s') \<and> tb_size (tb s') = tb_original_size (tb s') then
             Some (s'\<lparr>ctx := (ctx s')\<lparr>bstate := BS_STOP\<rparr>\<rparr>)
           else translate_loop ldl_code e max_insns opc_max_size s')"
  by pat_completeness auto
termination
  by (relation "measure (\<lambda>(ldl_code, e, max_insns, opc_max_size, s). max_insns - tb_icount (tb s))")
    (auto simp add: translate_insn_def Let_def)

definition gen_intermediate_code ::
  "(target_ulong \<Rightarrow> 32 word) \<Rightarrow> CPUState \<Rightarrow> nat \<Rightarrow> nat \<Rightarrow> tstate \<Rightarrow> tstate option" where
  "gen_intermediate_code ldl_code e max_insns opc_max_size s0 =
     (let s1 = (create_disas_context e s0)\<lparr>temps_in_use := 0\<rparr>
      in case translate_loop ldl_code e max_insns opc_max_size s1 of
           None \<Rightarrow> None
         | Some s2 \<Rightarrow>
             let s3 = snd (run_state
               (if env_singlestep_enabled e \<and> bstate (ctx s2) \<noteq> BS_BRANCH then do {
                  (if bstate (ctx s2) = BS_NONE then tcg_gen_movi_tl cpu_pc (pc (ctx s2))
                   else State_Monad.return ());
                  gen_helper helper_raise_exception_debug None []
                }
                else (case bstate (ctx s2) of
                        BS_STOP \<Rightarrow> gen_goto_tb 0 (pc (ctx s2))
                      | BS_NONE \<Rightarrow> do {
                          tcg_gen_movi_tl cpu_pc (pc (ctx s2));
                          gen_exit_tb None
                        }
                      | BS_BRANCH \<Rightarrow> State_Monad.return ())) s2)
             in Some (s3\<lparr>tb := (tb s3)\<lparr>tb_disas_flags := 0\<rparr>\<rparr>))"


section \<open>The vector helpers\<close>

text \<open>
  The helpers of \<^verbatim>\<open>vector_helper.c\<close> run at guest-execution time on the CPU state.
  A helper that calls \<^verbatim>\<open>helper_raise_exception\<close> does not return: its result is
  \<open>Inl\<close> of the state at that moment (with the exception number recorded).

  Modelled from the spec: the macros of \<^verbatim>\<open>cpu.h\<close> are not among the sources.
  \<^verbatim>\<open>V(x)\<close> is the start of register \<open>x\<close> in the byte-addressed register file,
  \<open>vlenb\<close> bytes each (section 3); the fields of \<^verbatim>\<open>vtype\<close> are \<^verbatim>\<open>vlmul\<close> in bits
  2..0, \<^verbatim>\<open>vsew\<close> in bits 5..3, \<^verbatim>\<open>vta\<close> in bit 6 and \<^verbatim>\<open>vma\<close> in bit 7;
  \<^verbatim>\<open>V_IDX_INVALID\<close> is the alignment check of section 4.11 (a register index must be
  a multiple of the group size for a whole-number LMUL); \<^verbatim>\<open>MSTATUS_VS\<close> is the VS
  field of \<^verbatim>\<open>mstatus\<close>. The host is little-endian. The float \<^verbatim>\<open>vflmul\<close> is a
  rational number here: its values are powers of two between 1/16 and 8, and the products
  taken with it are exact in single precision as long as the other factor is below
  \<open>2 ^ 24\<close>.
\<close>

definition MSTATUS_VS :: target_ulong where "MSTATUS_VS = 0x600"

definition GET_VTYPE_VLMUL :: "target_ulong \<Rightarrow> target_ulong" where
  "GET_VTYPE_VLMUL v = ucast (extract32 (ucast v) 0 3)"
definition GET_VTYPE_VSEW :: "target_ulong \<Rightarrow> target_ulong" where
  "GET_VTYPE_VSEW v = ucast (extract32 (ucast v) 3 3)"
definition GET_VTYPE_VTA :: "target_ulong \<Rightarrow> target_ulong" where
  "GET_VTYPE_VTA v = ucast (extract32 (ucast v) 6 1)"
definition GET_VTYPE_VMA :: "target_ulong \<Rightarrow> target_ulong" where
  "GET_VTYPE_VMA v = ucast (extract32 (ucast v) 7 1)"

definition V :: "CPUState \<Rightarrow> nat \<Rightarrow> nat" where
  "V env x = x * unat (vlenb env)"

definition V_IDX_INVALID :: "CPUState \<Rightarrow> nat \<Rightarrow> bool" where
  "V_IDX_INVALID env n = (vlmul env < 0x4 \<and> n mod 2 ^ unat (vlmul env) \<noteq> 0)"

definition raise_exception :: "CPUState \<Rightarrow> 32 word \<Rightarrow> CPUState" where
  "raise_exception env excp = env\<lparr>exception_index := excp\<rparr>"

definition MIN_tl :: "target_ulong \<Rightarrow> target_ulong \<Rightarrow> target_ulong" where
  "MIN_tl X Y = (if X < Y then X else Y)"

text \<open>
  \<^verbatim>\<open>helper_vsetvl\<close> in two parts: the fields derived from the new \<^verbatim>\<open>vtype\<close>
  (the statements up to the handling of \<^verbatim>\<open>vill\<close>), then the choice of \<^verbatim>\<open>vl\<close>.
\<close>

definition vsetvl_vtype :: "CPUState \<Rightarrow> target_ulong \<Rightarrow> CPUState" where
  "vsetvl_vtype env0 rs2_pass =
     (let vlen = vlenb env0 * 8;
          env = env0\<lparr>vtype := rs2_pass\<rparr>;
          env = env\<lparr>vsew := push_bit (unat (GET_VTYPE_VSEW rs2_pass) + 3) 1\<rparr>;
          env = env\<lparr>vlmul := GET_VTYPE_VLMUL rs2_pass\<rparr>;
          vlmul8 = sint (signed_drop_bit 5 (push_bit 5 (ucast (vlmul env) :: 8 word)));
          env = env\<lparr>vflmul := (if 0 \<le> vlmul8 then 2 ^ nat vlmul8 else 1 / 2 ^ nat (- vlmul8))\<rparr>;
          env = env\<lparr>vlmax := word_of_int \<lfloor>of_nat (unat (vlen div vsew env)) * vflmul env\<rfloor>\<rparr>;
          env = env\<lparr>vta := GET_VTYPE_VTA rs2_pass\<rparr>;
          env = env\<lparr>vma := GET_VTYPE_VMA rs2_pass\<rparr>;
          ceil_vfmul = min (vflmul env) 1;
          env = env\<lparr>vill := (\<not> (1 / 8 \<le> vflmul env \<and> vflmul env \<le> 8)
                            \<or> ceil_vfmul * of_nat (unat (elen env)) < of_nat (unat (vsew env))
                            \<or> drop_bit 8 rs2_pass \<noteq> 0)\<rparr>
      in if vill env
         then env\<lparr>vtype := vtype env OR push_bit (TARGET_LONG_BITS - 1) 1, vlmax := 0\<rparr>
         else env)"

definition helper_vsetvl ::
  "CPUState \<Rightarrow> target_ulong \<Rightarrow> target_ulong \<Rightarrow> target_ulong \<Rightarrow> target_ulong \<Rightarrow> 32 word
     \<Rightarrow> CPUState + target_ulong \<times> CPUState" where
  "helper_vsetvl env0 rd rs1 rs1_pass rs2_pass is_rs1_imm =
     (if mstatus env0 AND MSTATUS_VS = 0 then Inl (raise_exception env0 RISCV_EXCP_ILLEGAL_INST)
      else
        let prev_csr_vl = vl env0;
            env = vsetvl_vtype env0 rs2_pass;
            env = (if is_rs1_imm = 1 then env\<lparr>vl := MIN_tl rs1_pass (vlmax env)\<rparr>
                   else if vlmax env = 0 then env\<lparr>vl := 0\<rparr>
                   else if rd = 0 \<and> rs1 = 0 then env\<lparr>vl := MIN_tl prev_csr_vl (vlmax env)\<rparr>
                   else if rs1 = 0 \<and> rd \<noteq> 0 then env\<lparr>vl := vlmax env\<rparr>
                   else env\<lparr>vl := MIN_tl rs1_pass (vlmax env)\<rparr>);
            env = env\<lparr>vstart := 0\<rparr>
        in Inr (vl env, env))"

subsection \<open>Element access\<close>

text \<open>
  \<^verbatim>\<open>((uintN_t *)V(x))[i]\<close>: element \<open>i\<close> of width \<open>N\<close> bits of the register
  (group) that starts at register \<open>x\<close>; \<^verbatim>\<open>V(x)[j]\<close>: its byte \<open>j\<close>; the mask bit
  of element \<open>i\<close> is bit \<open>i mod 8\<close> of byte \<open>i div 8\<close> of \<^verbatim>\<open>V(0)\<close>.
\<close>

definition v_get :: "CPUState \<Rightarrow> nat \<Rightarrow> nat \<Rightarrow> 'a::len word" where
  "v_get env x i =
     (let n = LENGTH('a) div 8
      in le_val (map (vr env) [V env x + n * i ..< V env x + n * i + n]))"

fun st_list :: "nat \<Rightarrow> 8 word list \<Rightarrow> (nat \<Rightarrow> 8 word) \<Rightarrow> (nat \<Rightarrow> 8 word)" where
  "st_list a [] f = f"
| "st_list a (b # bs) f = st_list (Suc a) bs (f(a := b))"

definition v_set :: "nat \<Rightarrow> nat \<Rightarrow> 'a::len word \<Rightarrow> CPUState \<Rightarrow> CPUState" where
  "v_set x i v env =
     (let n = LENGTH('a) div 8
      in env\<lparr>vr := st_list (V env x + n * i) (le_bytes n v) (vr env)\<rparr>)"

definition v_set_byte :: "nat \<Rightarrow> nat \<Rightarrow> 8 word \<Rightarrow> CPUState \<Rightarrow> CPUState" where
  "v_set_byte x j b env = env\<lparr>vr := (vr env)(V env x + j := b)\<rparr>"

definition v_mask_bit :: "CPUState \<Rightarrow> nat \<Rightarrow> bool" where
  "v_mask_bit env i = bit (vr env (V env 0 + i div 8)) (i mod 8)"

definition v_or_bit :: "nat \<Rightarrow> nat \<Rightarrow> bool \<Rightarrow> CPUState \<Rightarrow> CPUState" where
  "v_or_bit x i b env =
     v_set_byte x (i div 8) (vr env (V env x + i div 8) OR push_bit (i mod 8) (of_bool b)) env"

text \<open>
  The element loop \<^verbatim>\<open>for (int i = ...; i < env->vl; ++i)\<close> over the indices it
  visits, stopped by the first exception.
\<close>

fun vloop :: "(nat \<Rightarrow> CPUState \<Rightarrow> CPUState + CPUState) \<Rightarrow> nat list \<Rightarrow> CPUState \<Rightarrow> CPUState + CPUState" where
  "vloop f [] env = Inr env"
| "vloop f (i # is) env = (case f i env of Inl x \<Rightarrow> Inl x | Inr env' \<Rightarrow> vloop f is env')"

text \<open>
  The loop variable of the \<^verbatim>\<open>vmv\<close> and \<^verbatim>\<open>vmerge\<close> helpers is an \<^verbatim>\<open>int\<close>
  initialised from \<^verbatim>\<open>env->vstart\<close>: it holds the low 32 bits of \<^verbatim>\<open>vstart\<close>, read as
  a signed number, and the test \<^verbatim>\<open>ei < env->vl\<close> converts it to the unsigned 64-bit
  type of \<^verbatim>\<open>vl\<close>. \<open>vstart_range\<close> is the list of indices the loop visits; it is
  \<open>None\<close> where the loop would run with a negative index or count past
  \<^verbatim>\<open>INT_MAX\<close>, which C leaves undefined.
\<close>

definition vstart_range :: "CPUState \<Rightarrow> nat list option" where
  "vstart_range env =
     (let ei = (ucast (vstart env) :: 32 word)
      in if (scast ei :: 64 word) < vl env then
           (if ei <s 0 \<or> 2 ^ 31 \<le> unat (vl env) then None else Some [unat ei ..< unat (vl env)])
         else Some [])"

subsection \<open>Element-wise helpers\<close>

text \<open>
  In each helper the four arms of the \<^verbatim>\<open>switch\<close> on the element width differ in the
  C type of the element. Where the source computes in \<^verbatim>\<open>int\<close> (operands of type
  \<^verbatim>\<open>uint8_t\<close> and \<^verbatim>\<open>uint16_t\<close> are promoted) the model computes in 32 bits, and
  where an operand is a \<^verbatim>\<open>target_ulong\<close> in 64 bits.
\<close>

definition helper_vmv_ivi :: "CPUState \<Rightarrow> nat \<Rightarrow> 64 word \<Rightarrow> (CPUState + CPUState) option" where
  "helper_vmv_ivi env0 vd imm =
     (if V_IDX_INVALID env0 vd then Some (Inl (raise_exception env0 RISCV_EXCP_ILLEGAL_INST))
      else let eew = vsew env0 in
        map_option (\<lambda>ixs. vloop (\<lambda>i env.
        (if eew = 8 then
            Inr (v_set vd i (ucast imm :: 8 word) env)
         else if eew = 16 then
            Inr (v_set vd i (ucast imm :: 16 word) env)
         else if eew = 32 then
            Inr (v_set vd i (ucast imm :: 32 word) env)
         else if eew = 64 then
            Inr (v_set vd i (ucast imm :: 64 word) env)
         else Inl (raise_exception env RISCV_EXCP_ILLEGAL_INST)))
          ixs env0) (vstart_range env0))"

definition helper_vmv_ivv :: "CPUState \<Rightarrow> nat \<Rightarrow> nat \<Rightarrow> (CPUState + CPUState) option" where
  "helper_vmv_ivv env0 vd vs1 =
     (if V_IDX_INVALID env0 vd \<or> V_IDX_INVALID env0 vs1 then Some (Inl (raise_exception env0 RISCV_EXCP_ILLEGAL_INST))
      else let eew = vsew env0 in
        map_option (\<lambda>ixs. vloop (\<lambda>i env.
        (if eew = 8 then
            Inr (v_set vd i (v_get env vs1 i :: 8 word) env)
         else if eew = 16 then
            Inr (v_set vd i (v_get env vs1 i :: 16 word) env)
         else if eew = 32 then
            Inr (v_set vd i (v_get env vs1 i :: 32 word) env)
         else if eew = 64 then
            Inr (v_set vd i (v_get env vs1 i :: 64 word) env)
         else Inl (raise_exception env RISCV_EXCP_ILLEGAL_INST)))
          ixs env0) (vstart_range env0))"

definition helper_vmerge_ivv :: "CPUState \<Rightarrow> nat \<Rightarrow> nat \<Rightarrow> nat \<Rightarrow> (CPUState + CPUState) option" where
  "helper_vmerge_ivv env0 vd vs2 vs1 =
     (if V_IDX_INVALID env0 vd \<or> V_IDX_INVALID env0 vs2 \<or> V_IDX_INVALID env0 vs1 then Some (Inl (raise_exception env0 RISCV_EXCP_ILLEGAL_INST))
      else let eew = vsew env0 in
        map_option (\<lambda>ixs. vloop (\<lambda>i env.
          let mask = \<not> v_mask_bit env i in
        (if eew = 8 then
            Inr (v_set vd i (if mask then v_get env vs2 i else v_get env vs1 i :: 8 word) env)
         else if eew = 16 then
            Inr (v_set vd i (if mask then v_get env vs2 i else v_get env vs1 i :: 16 word) env)
         else if eew = 32 then
            Inr (v_set vd i (if mask then v_get env vs2 i else v_get env vs1 i :: 32 word) env)
         else if eew = 64 then
            Inr (v_set vd i (if mask then v_get env vs2 i else v_get env vs1 i :: 64 word) env)
         else Inl (raise_exception env RISCV_EXCP_ILLEGAL_INST)))
          ixs env0) (vstart_range env0))"

definition helper_vmerge_ivi :: "CPUState \<Rightarrow> nat \<Rightarrow> nat \<Rightarrow> target_ulong \<Rightarrow> (CPUState + CPUState) option" where
  "helper_vmerge_ivi env0 vd vs2 rs1 =
     (if V_IDX_INVALID env0 vd \<or> V_IDX_INVALID env0 vs2 then Some (Inl (raise_exception env0 RISCV_EXCP_ILLEGAL_INST))
      else let eew = vsew env0 in
        map_option (\<lambda>ixs. vloop (\<lambda>i env.
          let mask = \<not> v_mask_bit env i in
        (if eew = 8 then
            Inr (v_set vd i (if mask then v_get env vs2 i else ucast rs1 :: 8 word) env)
         else if eew = 16 then
            Inr (v_set vd i (if mask then v_get env vs2 i else ucast rs1 :: 16 word) env)
         else if eew = 32 then
            Inr (v_set vd i (if mask then v_get env vs2 i else ucast rs1 :: 32 word) env)
         else if eew = 64 then
            Inr (v_set vd i (if mask then v_get env vs2 i else ucast rs1 :: 64 word) env)
         else Inl (raise_exception env RISCV_EXCP_ILLEGAL_INST)))
          ixs env0) (vstart_range env0))"

definition helper_vadc_vvm :: "CPUState \<Rightarrow> nat \<Rightarrow> nat \<Rightarrow> nat \<Rightarrow> CPUState + CPUState" where
  "helper_vadc_vvm env0 vd vs2 vs1 =
     (if V_IDX_INVALID env0 vd \<or> V_IDX_INVALID env0 vs2 \<or> V_IDX_INVALID env0 vs1 then Inl (raise_exception env0 RISCV_EXCP_ILLEGAL_INST)
      else let eew = vsew env0 in
        vloop (\<lambda>i env.
          let carry = v_mask_bit env i in
        (if eew = 8 then
            Inr (v_set vd i (v_get env vs2 i + v_get env vs1 i + of_bool carry :: 8 word) env)
         else if eew = 16 then
            Inr (v_set vd i (v_get env vs2 i + v_get env vs1 i + of_bool carry :: 16 word) env)
         else if eew = 32 then
            Inr (v_set vd i (v_get env vs2 i + v_get env vs1 i + of_bool carry :: 32 word) env)
         else if eew = 64 then
            Inr (v_set vd i (v_get env vs2 i + v_get env vs1 i + of_bool carry :: 64 word) env)
         else Inl (raise_exception env RISCV_EXCP_ILLEGAL_INST)))
          [0 ..< unat (vl env0)] env0)"

definition helper_vsbc_vvm :: "CPUState \<Rightarrow> nat \<Rightarrow> nat \<Rightarrow> nat \<Rightarrow> CPUState + CPUState" where
  "helper_vsbc_vvm env0 vd vs2 vs1 =
     (if V_IDX_INVALID env0 vd \<or> V_IDX_INVALID env0 vs2 \<or> V_IDX_INVALID env0 vs1 then Inl (raise_exception env0 RISCV_EXCP_ILLEGAL_INST)
      else let eew = vsew env0 in
        vloop (\<lambda>i env.
          let borrow = v_mask_bit env i in
        (if eew = 8 then
            Inr (v_set vd i (v_get env vs2 i - v_get env vs1 i - of_bool borrow :: 8 word) env)
         else if eew = 16 then
            Inr (v_set vd i (v_get env vs2 i - v_get env vs1 i - of_bool borrow :: 16 word) env)
         else if eew = 32 then
            Inr (v_set vd i (v_get env vs2 i - v_get env vs1 i - of_bool borrow :: 32 word) env)
         else if eew = 64 then
            Inr (v_set vd i (v_get env vs2 i - v_get env vs1 i - of_bool borrow :: 64 word) env)
         else Inl (raise_exception env RISCV_EXCP_ILLEGAL_INST)))
          [0 ..< unat (vl env0)] env0)"

definition helper_vadc_vi :: "CPUState \<Rightarrow> nat \<Rightarrow> nat \<Rightarrow> target_ulong \<Rightarrow> CPUState + CPUState" where
  "helper_vadc_vi env0 vd vs2 rs1 =
     (if V_IDX_INVALID env0 vd \<or> V_IDX_INVALID env0 vs2 then Inl (raise_exception env0 RISCV_EXCP_ILLEGAL_INST)
      else let eew = vsew env0 in
        vloop (\<lambda>i env.
          let carry = v_mask_bit env i in
        (if eew = 8 then
            Inr (v_set vd i (ucast (ucast (v_get env vs2 i :: 8 word) + rs1 + of_bool carry :: 64 word) :: 8 word) env)
         else if eew = 16 then
            Inr (v_set vd i (ucast (ucast (v_get env vs2 i :: 16 word) + rs1 + of_bool carry :: 64 word) :: 16 word) env)
         else if eew = 32 then
            Inr (v_set vd i (ucast (ucast (v_get env vs2 i :: 32 word) + rs1 + of_bool carry :: 64 word) :: 32 word) env)
         else if eew = 64 then
            Inr (v_set vd i (ucast (ucast (v_get env vs2 i :: 64 word) + rs1 + of_bool carry :: 64 word) :: 64 word) env)
         else Inl (raise_exception env RISCV_EXCP_ILLEGAL_INST)))
          [0 ..< unat (vl env0)] env0)"

definition helper_vsbc_vi :: "CPUState \<Rightarrow> nat \<Rightarrow> nat \<Rightarrow> target_ulong \<Rightarrow> CPUState + CPUState" where
  "helper_vsbc_vi env0 vd vs2 rs1 =
     (if V_IDX_INVALID env0 vd \<or> V_IDX_INVALID env0 vs2 then Inl (raise_exception env0 RISCV_EXCP_ILLEGAL_INST)
      else let eew = vsew env0 in
        vloop (\<lambda>i env.
          let borrow = v_mask_bit env i in
        (if eew = 8 then
            Inr (v_set vd i (ucast (ucast (v_get env vs2 i :: 8 word) - rs1 - of_bool borrow :: 64 word) :: 8 word) env)
         else if eew = 16 then
            Inr (v_set vd i (ucast (ucast (v_get env vs2 i :: 16 word) - rs1 - of_bool borrow :: 64 word) :: 16 word) env)
         else if eew = 32 then
            Inr (v_set vd i (ucast (ucast (v_get env vs2 i :: 32 word) - rs1 - of_bool borrow :: 64 word) :: 32 word) env)
         else if eew = 64 then
            Inr (v_set vd i (ucast (ucast (v_get env vs2 i :: 64 word) - rs1 - of_bool borrow :: 64 word) :: 64 word) env)
         else Inl (raise_exception env RISCV_EXCP_ILLEGAL_INST)))
          [0 ..< unat (vl env0)] env0)"

definition helper_vmadc_vv :: "CPUState \<Rightarrow> nat \<Rightarrow> nat \<Rightarrow> nat \<Rightarrow> CPUState + CPUState" where
  "helper_vmadc_vv env0 vd vs2 vs1 =
     (if V_IDX_INVALID env0 vs2 \<or> V_IDX_INVALID env0 vs1 then Inl (raise_exception env0 RISCV_EXCP_ILLEGAL_INST)
      else let eew = vsew env0 in
        vloop (\<lambda>i env1.
          let env = (if i mod 8 = 0 then v_set_byte vd (i div 8) 0 env1 else env1) in
        (if eew = 8 then
            Inr (v_or_bit vd i ((ucast (v_get env vs2 i :: 8 word) + ucast (v_get env vs1 i :: 8 word) :: 32 word) <s ucast (v_get env vs2 i :: 8 word)) env)
         else if eew = 16 then
            Inr (v_or_bit vd i ((ucast (v_get env vs2 i :: 16 word) + ucast (v_get env vs1 i :: 16 word) :: 32 word) <s ucast (v_get env vs2 i :: 16 word)) env)
         else if eew = 32 then
            Inr (v_or_bit vd i ((v_get env vs2 i :: 32 word) + (v_get env vs1 i :: 32 word) < (v_get env vs2 i :: 32 word)) env)
         else if eew = 64 then
            Inr (v_or_bit vd i ((v_get env vs2 i :: 64 word) + (v_get env vs1 i :: 64 word) < (v_get env vs2 i :: 64 word)) env)
         else Inl (raise_exception env RISCV_EXCP_ILLEGAL_INST)))
          [0 ..< unat (vl env0)] env0)"

definition helper_vmadc_vvm :: "CPUState \<Rightarrow> nat \<Rightarrow> nat \<Rightarrow> nat \<Rightarrow> CPUState + CPUState" where
  "helper_vmadc_vvm env0 vd vs2 vs1 =
     (if V_IDX_INVALID env0 vs2 \<or> V_IDX_INVALID env0 vs1 then Inl (raise_exception env0 RISCV_EXCP_ILLEGAL_INST)
      else let eew = vsew env0 in
        vloop (\<lambda>i env1.
          let env = (if i mod 8 = 0 then v_set_byte vd (i div 8) 0 env1 else env1);
              carry = v_mask_bit env i in
        (if eew = 8 then
            Inr (v_or_bit vd i (let a = (v_get env vs2 i :: 8 word); ab = a + (v_get env vs1 i :: 8 word) in ab < a \<or> (carry \<and> (ucast ab :: 32 word) + 1 = 0)) env)
         else if eew = 16 then
            Inr (v_or_bit vd i (let a = (v_get env vs2 i :: 16 word); ab = a + (v_get env vs1 i :: 16 word) in ab < a \<or> (carry \<and> (ucast ab :: 32 word) + 1 = 0)) env)
         else if eew = 32 then
            Inr (v_or_bit vd i (let a = (v_get env vs2 i :: 32 word); ab = a + (v_get env vs1 i :: 32 word) in ab < a \<or> (carry \<and> ab + 1 = 0)) env)
         else if eew = 64 then
            Inr (v_or_bit vd i (let a = (v_get env vs2 i :: 64 word); ab = a + (v_get env vs1 i :: 64 word) in ab < a \<or> (carry \<and> ab + 1 = 0)) env)
         else Inl (raise_exception env RISCV_EXCP_ILLEGAL_INST)))
          [0 ..< unat (vl env0)] env0)"

definition helper_vmsbc_vv :: "CPUState \<Rightarrow> nat \<Rightarrow> nat \<Rightarrow> nat \<Rightarrow> CPUState + CPUState" where
  "helper_vmsbc_vv env0 vd vs2 vs1 =
     (if V_IDX_INVALID env0 vs2 \<or> V_IDX_INVALID env0 vs1 then Inl (raise_exception env0 RISCV_EXCP_ILLEGAL_INST)
      else let eew = vsew env0 in
        vloop (\<lambda>i env1.
          let env = (if i mod 8 = 0 then v_set_byte vd (i div 8) 0 env1 else env1) in
        (if eew = 8 then
            Inr (v_or_bit vd i ((v_get env vs2 i :: 8 word) < (v_get env vs1 i :: 8 word)) env)
         else if eew = 16 then
            Inr (v_or_bit vd i ((v_get env vs2 i :: 16 word) < (v_get env vs1 i :: 16 word)) env)
         else if eew = 32 then
            Inr (v_or_bit vd i ((v_get env vs2 i :: 32 word) < (v_get env vs1 i :: 32 word)) env)
         else if eew = 64 then
            Inr (v_or_bit vd i ((v_get env vs2 i :: 64 word) < (v_get env vs1 i :: 64 word)) env)
         else Inl (raise_exception env RISCV_EXCP_ILLEGAL_INST)))
          [0 ..< unat (vl env0)] env0)"

definition helper_vmsbc_vvm :: "CPUState \<Rightarrow> nat \<Rightarrow> nat \<Rightarrow> nat \<Rightarrow> CPUState + CPUState" where
  "helper_vmsbc_vvm env0 vd vs2 vs1 =
     (if V_IDX_INVALID env0 vs2 \<or> V_IDX_INVALID env0 vs1 then Inl (raise_exception env0 RISCV_EXCP_ILLEGAL_INST)
      else let eew = vsew env0 in
        vloop (\<lambda>i env1.
          let env = (if i mod 8 = 0 then v_set_byte vd (i div 8) 0 env1 else env1);
              borrow = v_mask_bit env i in
        (if eew = 8 then
            Inr (v_or_bit vd i (let b = (v_get env vs1 i :: 8 word) in (v_get env vs2 i :: 8 word) < b \<or> (borrow \<and> (ucast b :: 32 word) + 1 = 0)) env)
         else if eew = 16 then
            Inr (v_or_bit vd i (let b = (v_get env vs1 i :: 16 word) in (v_get env vs2 i :: 16 word) < b \<or> (borrow \<and> (ucast b :: 32 word) + 1 = 0)) env)
         else if eew = 32 then
            Inr (v_or_bit vd i (let b = (v_get env vs1 i :: 32 word) in (v_get env vs2 i :: 32 word) < b \<or> (borrow \<and> b + 1 = 0)) env)
         else if eew = 64 then
            Inr (v_or_bit vd i (let b = (v_get env vs1 i :: 64 word) in (v_get env vs2 i :: 64 word) < b \<or> (borrow \<and> b + 1 = 0)) env)
         else Inl (raise_exception env RISCV_EXCP_ILLEGAL_INST)))
          [0 ..< unat (vl env0)] env0)"

definition helper_vmadc_vi :: "CPUState \<Rightarrow> nat \<Rightarrow> nat \<Rightarrow> target_ulong \<Rightarrow> CPUState + CPUState" where
  "helper_vmadc_vi env0 vd vs2 rs1 =
     (if V_IDX_INVALID env0 vs2 then Inl (raise_exception env0 RISCV_EXCP_ILLEGAL_INST)
      else let eew = vsew env0 in
        vloop (\<lambda>i env1.
          let env = (if i mod 8 = 0 then v_set_byte vd (i div 8) 0 env1 else env1) in
        (if eew = 8 then
            Inr (v_or_bit vd i ((ucast (v_get env vs2 i :: 8 word) + rs1 :: 64 word) < ucast (v_get env vs2 i :: 8 word)) env)
         else if eew = 16 then
            Inr (v_or_bit vd i ((ucast (v_get env vs2 i :: 16 word) + rs1 :: 64 word) < ucast (v_get env vs2 i :: 16 word)) env)
         else if eew = 32 then
            Inr (v_or_bit vd i ((ucast (v_get env vs2 i :: 32 word) + rs1 :: 64 word) < ucast (v_get env vs2 i :: 32 word)) env)
         else if eew = 64 then
            Inr (v_or_bit vd i ((ucast (v_get env vs2 i :: 64 word) + rs1 :: 64 word) < ucast (v_get env vs2 i :: 64 word)) env)
         else Inl (raise_exception env RISCV_EXCP_ILLEGAL_INST)))
          [0 ..< unat (vl env0)] env0)"

definition helper_vmadc_vim :: "CPUState \<Rightarrow> nat \<Rightarrow> nat \<Rightarrow> target_ulong \<Rightarrow> CPUState + CPUState" where
  "helper_vmadc_vim env0 vd vs2 rs1 =
     (if V_IDX_INVALID env0 vs2 then Inl (raise_exception env0 RISCV_EXCP_ILLEGAL_INST)
      else let eew = vsew env0 in
        vloop (\<lambda>i env1.
          let env = (if i mod 8 = 0 then v_set_byte vd (i div 8) 0 env1 else env1);
              carry = v_mask_bit env i in
        (if eew = 8 then
            Inr (v_or_bit vd i (let a = (v_get env vs2 i :: 8 word); ab = (ucast a + rs1 :: 64 word) in ab < ucast a \<or> (carry \<and> ab + 1 = 0)) env)
         else if eew = 16 then
            Inr (v_or_bit vd i (let a = (v_get env vs2 i :: 16 word); ab = (ucast a + rs1 :: 64 word) in ab < ucast a \<or> (carry \<and> ab + 1 = 0)) env)
         else if eew = 32 then
            Inr (v_or_bit vd i (let a = (v_get env vs2 i :: 32 word); ab = (ucast (ucast a + rs1 :: 64 word) :: 32 word) in ab < a \<or> (carry \<and> ab + 1 = 0)) env)
         else if eew = 64 then
            Inr (v_or_bit vd i (let a = (v_get env vs2 i :: 64 word); ab = (ucast a + rs1 :: 64 word) in ab < ucast a \<or> (carry \<and> ab + 1 = 0)) env)
         else Inl (raise_exception env RISCV_EXCP_ILLEGAL_INST)))
          [0 ..< unat (vl env0)] env0)"

definition helper_vmsbc_vi :: "CPUState \<Rightarrow> nat \<Rightarrow> nat \<Rightarrow> target_ulong \<Rightarrow> CPUState + CPUState" where
  "helper_vmsbc_vi env0 vd vs2 rs1 =
     (if V_IDX_INVALID env0 vs2 then Inl (raise_exception env0 RISCV_EXCP_ILLEGAL_INST)
      else let eew = vsew env0 in
        vloop (\<lambda>i env1.
          let env = (if i mod 8 = 0 then v_set_byte vd (i div 8) 0 env1 else env1) in
        (if eew = 8 then
            Inr (v_or_bit vd i ((ucast (v_get env vs2 i :: 8 word) :: 64 word) < rs1) env)
         else if eew = 16 then
            Inr (v_or_bit vd i ((ucast (v_get env vs2 i :: 16 word) :: 64 word) < rs1) env)
         else if eew = 32 then
            Inr (v_or_bit vd i ((ucast (v_get env vs2 i :: 32 word) :: 64 word) < rs1) env)
         else if eew = 64 then
            Inr (v_or_bit vd i ((ucast (v_get env vs2 i :: 64 word) :: 64 word) < rs1) env)
         else Inl (raise_exception env RISCV_EXCP_ILLEGAL_INST)))
          [0 ..< unat (vl env0)] env0)"

definition helper_vmsbc_vim :: "CPUState \<Rightarrow> nat \<Rightarrow> nat \<Rightarrow> target_ulong \<Rightarrow> CPUState + CPUState" where
  "helper_vmsbc_vim env0 vd vs2 rs1 =
     (if V_IDX_INVALID env0 vs2 then Inl (raise_exception env0 RISCV_EXCP_ILLEGAL_INST)
      else let eew = vsew env0 in
        vloop (\<lambda>i env1.
          let env = (if i mod 8 = 0 then v_set_byte vd (i div 8) 0 env1 else env1);
              borrow = v_mask_bit env i in
        (if eew = 8 then
            Inr (v_or_bit vd i ((ucast (v_get env vs2 i :: 8 word) :: 64 word) < rs1 \<or> (borrow \<and> rs1 + 1 = 0)) env)
         else if eew = 16 then
            Inr (v_or_bit vd i ((ucast (v_get env vs2 i :: 16 word) :: 64 word) < rs1 \<or> (borrow \<and> rs1 + 1 = 0)) env)
         else if eew = 32 then
            Inr (v_or_bit vd i ((ucast (v_get env vs2 i :: 32 word) :: 64 word) < rs1 \<or> (borrow \<and> rs1 + 1 = 0)) env)
         else if eew = 64 then
            Inr (v_or_bit vd i ((ucast (v_get env vs2 i :: 64 word) :: 64 word) < rs1 \<or> (borrow \<and> rs1 + 1 = 0)) env)
         else Inl (raise_exception env RISCV_EXCP_ILLEGAL_INST)))
          [0 ..< unat (vl env0)] env0)"


section \<open>Reference results and test states\<close>

text \<open>
  The results the RISC-V manual asks of the division instructions, after the words of
  section 4.3 of the specification: division by zero gives an all-ones quotient and the
  dividend as remainder, the signed overflow gives the dividend as quotient and a zero
  remainder, every other pair of operands the quotient truncated towards zero and the
  remainder with the sign of the dividend (unsigned: the quotient and remainder of the
  natural numbers). They are stated for any word size: 64 bits for the full-width
  instructions, 32 bits for the W forms.
\<close>

definition spec_div :: "'a::len word \<Rightarrow> 'a word \<Rightarrow> 'a word" where
  "spec_div a b =
     (if b = 0 then - 1
      else if a = push_bit (LENGTH('a) - 1) 1 \<and> b = - 1 then a
      else word_of_int (sint a sdiv sint b))"

definition spec_rem :: "'a::len word \<Rightarrow> 'a word \<Rightarrow> 'a word" where
  "spec_rem a b =
     (if b = 0 then a
      else if a = push_bit (LENGTH('a) - 1) 1 \<and> b = - 1 then 0
      else word_of_int (sint a smod sint b))"

definition spec_divu :: "'a::len word \<Rightarrow> 'a word \<Rightarrow> 'a word" where
  "spec_divu a b = (if b = 0 then - 1 else word_of_nat (unat a div unat b))"

definition spec_remu :: "'a::len word \<Rightarrow> 'a word \<Rightarrow> 'a word" where
  "spec_remu a b = (if b = 0 then a else word_of_nat (unat a mod unat b))"


definition low32 :: "target_ulong \<Rightarrow> 32 word" where
  "low32 v = ucast v"

text \<open>An all-zero CPU state, as the \<^verbatim>\<open>memset\<close> of \<^verbatim>\<open>cpu_state_reset\<close> leaves it.\<close>

definition zero_env :: CPUState where
  "zero_env = \<lparr>gpr = (\<lambda>_. 0), fpr = (\<lambda>_. 0), env_pc = 0, env_load_res = 0, mstatus = 0, badaddr = 0,
     exception_index = 0, misa = 0, priv = 0, env_singlestep_enabled = False, breakpoints = [],
     vl = 0, vtype = 0, vsew = 0, vlmul = 0, vflmul = 0, vlmax = 0, vstart = 0, vill = False,
     vta = 0, vma = 0, vlenb = 0, elen = 0, vr = (\<lambda>_. 0)\<rparr>"

text \<open>
  States for closed statements: a machine whose registers, temporaries and memory are
  all zero, a translation state at the start of a block whose first instruction is at
  \<open>p\<close>, and a runtime whose named helpers return zero and leave the CPU state alone.
\<close>

definition zero_machine :: machine where
  "zero_machine = \<lparr>cpu = zero_env, temps = (\<lambda>_. 0), ram = (\<lambda>_. 0)\<rparr>"

definition tstate_at :: "target_ulong \<Rightarrow> tstate" where
  "tstate_at p =
     \<lparr>ctx = \<lparr>pc = p, next_pc = p + 4, opcode = 0, singlestep_enabled = False, mem_idx = 0,
              bstate = BS_NONE\<rparr>,
      tb = \<lparr>tb_pc = p, tb_size = 0, tb_icount = 0, tb_prev_size = 0, tb_original_size = 0,
             tb_search_pc = False, tb_disas_flags = 0\<rparr>,
      gen_opc_buf = [], nb_temps = 0, nb_labels = 0, temps_in_use = 0\<rparr>"

definition no_helpers :: helpers where
  "no_helpers = (\<lambda>f e args. Returns 0 e)"

text \<open>
  \<open>insn_at p w\<close>: the translation state at the start of a block at \<open>p\<close> once the
  loop has fetched the instruction word \<open>w\<close> into \<^verbatim>\<open>ctx.opcode\<close>.
\<close>

definition insn_at :: "target_ulong \<Rightarrow> 32 word \<Rightarrow> tstate" where
  "insn_at p w = (tstate_at p)\<lparr>ctx := (ctx (tstate_at p))\<lparr>opcode := w\<rparr>\<rparr>"


text \<open>
  What the guest sees of an exception raised by the instruction at \<^verbatim>\<open>ctx->pc\<close>: the
  exception number, the program counter of the instruction, and nothing else changed.
  \<open>raised_badaddr\<close> is the same with the bad-address register set as well.
\<close>

definition raised_at :: "32 word \<Rightarrow> tstate \<Rightarrow> machine \<Rightarrow> guest_outcome" where
  "raised_at excp s m =
     G_raised ((cpu m)\<lparr>env_pc := pc (ctx s), exception_index := excp\<rparr>) (ram m)"

definition raised_badaddr :: "32 word \<Rightarrow> target_ulong \<Rightarrow> tstate \<Rightarrow> machine \<Rightarrow> guest_outcome" where
  "raised_badaddr excp a s m =
     G_raised ((cpu m)\<lparr>env_pc := pc (ctx s), badaddr := a, exception_index := excp\<rparr>) (ram m)"

text \<open>
  A vector state for the carry helpers: \<open>SEW = 8\<close>, one element, sixteen bytes per
  register; element 0 of \<open>v2\<close> is \<open>0xFF\<close>, element 0 of \<open>v3\<close> is zero and bit 0 of
  the mask register \<open>v0\<close> (the carry-in) is set.
\<close>

definition carry_env :: CPUState where
  "carry_env = zero_env\<lparr>vsew := 8, vl := 1, vlenb := 16, vr := (\<lambda>_. 0)(0 := 1, 32 := 0xFF)\<rparr>"

text \<open>
  Shapes of the outcome of an atomic sequence, used to say what the emitted code
  computes: an AMO is load, combine, store, return the old value; a min/max AMO leaves
  memory alone when the test \<open>keep\<close> holds of the old value and \<open>rs2\<close>.
  \<open>n\<close> is the access size in bytes and \<open>sg\<close> says whether the load sign-extends.
\<close>

definition amo_result ::
  "nat \<Rightarrow> bool \<Rightarrow> (target_ulong \<Rightarrow> target_ulong \<Rightarrow> target_ulong) \<Rightarrow> nat \<Rightarrow> nat \<Rightarrow> nat \<Rightarrow> machine \<Rightarrow> guest_outcome" where
  "amo_result n sg f rd rs1 rs2 m =
     (let a = reg (cpu m) rs1; old = qemu_ld n sg (ram m) a
      in G_next (write_reg rd old (cpu m)) (qemu_st n (f old (reg (cpu m) rs2)) a (ram m)))"

definition amo_minmax_result ::
  "nat \<Rightarrow> bool \<Rightarrow> (target_ulong \<Rightarrow> target_ulong \<Rightarrow> bool) \<Rightarrow> nat \<Rightarrow> nat \<Rightarrow> nat \<Rightarrow> machine \<Rightarrow> guest_outcome" where
  "amo_minmax_result n sg keep rd rs1 rs2 m =
     (let a = reg (cpu m) rs1; old = qemu_ld n sg (ram m) a
      in G_next (write_reg rd old (cpu m))
           (if keep old (reg (cpu m) rs2) then ram m else qemu_st n (reg (cpu m) rs2) a (ram m)))"

definition lr_result :: "nat \<Rightarrow> bool \<Rightarrow> nat \<Rightarrow> nat \<Rightarrow> machine \<Rightarrow> guest_outcome" where
  "lr_result n sg rd rs1 m = G_next (write_reg rd (qemu_ld n sg (ram m) (reg (cpu m) rs1)) (cpu m)) (ram m)"

definition sc_result :: "nat \<Rightarrow> nat \<Rightarrow> nat \<Rightarrow> nat \<Rightarrow> machine \<Rightarrow> guest_outcome" where
  "sc_result n rd rs1 rs2 m =
     G_next (write_reg rd 0 (cpu m)) (qemu_st n (reg (cpu m) rs2) (reg (cpu m) rs1) (ram m))"


text \<open>
  A machine for the atomics: \<open>x2\<close> holds the address \<open>0x100\<close>, the 32-bit word
  there is 5, and \<open>x3\<close> holds \<open>0x100000003\<close>, whose low word is 3.
\<close>

definition amo_machine :: machine where
  "amo_machine =
     \<lparr>cpu = zero_env\<lparr>gpr := (\<lambda>_. 0)(2 := 0x100, 3 := 0x100000003)\<rparr>,
      temps = (\<lambda>_. 0), ram = (\<lambda>_. 0)(0x100 := 5)\<rparr>"


text \<open>
  Two properties of the micro-ops a translator appends, kept by every translator
  function. \<open>written x\<close> lists the TCG variables micro-op \<open>x\<close> assigns and
  \<open>read_vars x\<close> the ones it reads; \<open>gpr_ok D x\<close> says that every integer
  register \<open>x\<close> assigns is a register of \<open>D\<close> other than \<open>x0\<close>, and that \<open>x\<close>
  does not read \<^verbatim>\<open>cpu_gpr[0]\<close>. \<open>is_raise x\<close> says that \<open>x\<close> is a call of
  \<^verbatim>\<open>helper_raise_exception\<close>, the call \<^verbatim>\<open>generate_exception\<close> (and through it
  \<^verbatim>\<open>kill_unknown\<close>) emits.

  \<open>emits D s s'\<close> relates the translation state before and after a translator step:
  the micro-op buffer has only grown, every micro-op added keeps to \<open>D\<close>, and if
  the block state was not \<^verbatim>\<open>BS_NONE\<close> before, or a call of
  \<^verbatim>\<open>helper_raise_exception\<close> was added, the block state is not \<^verbatim>\<open>BS_NONE\<close> after.
  \<open>gen_ok D g\<close> says that the step \<open>g\<close> does this from every state.
\<close>

fun written :: "tcg_op \<Rightarrow> TCGv list" where
  "written (INDEX_op_mov d a) = [d]"
| "written (INDEX_op_arith f d a b) = [d]"
| "written (INDEX_op_unary f d a) = [d]"
| "written (INDEX_op_setcond c d a b) = [d]"
| "written (INDEX_op_movcond c d c1 c2 v1 v2) = [d]"
| "written (INDEX_op_mul2 sg lo hi a b) = [lo, hi]"
| "written (INDEX_op_ld_mstatus d) = [d]"
| "written (INDEX_op_qemu_ld n sg d a idx) = [d]"
| "written (INDEX_op_qemu_st n v a idx) = []"
| "written (INDEX_op_brcond c a b l) = []"
| "written (INDEX_op_br l) = []"
| "written (INDEX_op_set_label l) = []"
| "written (INDEX_op_goto_tb n) = []"
| "written (INDEX_op_exit_tb n) = []"
| "written (INDEX_op_call h ret args) = (case ret of None \<Rightarrow> [] | Some d \<Rightarrow> [d])"

fun arg_vars :: "TCGArg \<Rightarrow> TCGv list" where
  "arg_vars (Reg v) = [v]"
| "arg_vars (Imm c) = []"

fun read_vars :: "tcg_op \<Rightarrow> TCGv list" where
  "read_vars (INDEX_op_mov d a) = arg_vars a"
| "read_vars (INDEX_op_arith f d a b) = a # arg_vars b"
| "read_vars (INDEX_op_unary f d a) = [a]"
| "read_vars (INDEX_op_setcond c d a b) = a # arg_vars b"
| "read_vars (INDEX_op_movcond c d c1 c2 v1 v2) = [c1, c2, v1, v2]"
| "read_vars (INDEX_op_mul2 sg lo hi a b) = [a, b]"
| "read_vars (INDEX_op_ld_mstatus d) = []"
| "read_vars (INDEX_op_qemu_ld n sg d a idx) = [a]"
| "read_vars (INDEX_op_qemu_st n v a idx) = [v, a]"
| "read_vars (INDEX_op_brcond c a b l) = a # arg_vars b"
| "read_vars (INDEX_op_br l) = []"
| "read_vars (INDEX_op_set_label l) = []"
| "read_vars (INDEX_op_goto_tb n) = []"
| "read_vars (INDEX_op_exit_tb n) = []"
| "read_vars (INDEX_op_call h ret args) = args"

definition gpr_ok :: "nat set \<Rightarrow> tcg_op \<Rightarrow> bool" where
  "gpr_ok D x =
     ((\<forall>i. cpu_gpr i \<in> set (written x) \<longrightarrow> i \<in> D \<and> i \<noteq> 0) \<and>
      cpu_gpr 0 \<notin> set (read_vars x))"

fun is_raise :: "tcg_op \<Rightarrow> bool" where
  "is_raise (INDEX_op_call h ret args) = (h = helper_raise_exception)"
| "is_raise (INDEX_op_mov d a) = False"
| "is_raise (INDEX_op_arith f d a b) = False"
| "is_raise (INDEX_op_unary f d a) = False"
| "is_raise (INDEX_op_setcond c d a b) = False"
| "is_raise (INDEX_op_movcond c d c1 c2 v1 v2) = False"
| "is_raise (INDEX_op_mul2 sg lo hi a b) = False"
| "is_raise (INDEX_op_ld_mstatus d) = False"
| "is_raise (INDEX_op_qemu_ld n sg d a idx) = False"
| "is_raise (INDEX_op_qemu_st n v a idx) = False"
| "is_raise (INDEX_op_brcond c a b l) = False"
| "is_raise (INDEX_op_br l) = False"
| "is_raise (INDEX_op_set_label l) = False"
| "is_raise (INDEX_op_goto_tb n) = False"
| "is_raise (INDEX_op_exit_tb n) = False"

definition emits :: "nat set \<Rightarrow> tstate \<Rightarrow> tstate \<Rightarrow> bool" where
  "emits D s s' =
     (\<exists>ops. gen_opc_buf s' = gen_opc_buf s @ ops \<and> list_all (gpr_ok D) ops \<and>
            (bstate (ctx s) \<noteq> BS_NONE \<or> list_ex is_raise ops \<longrightarrow> bstate (ctx s') \<noteq> BS_NONE))"

definition gen_ok :: "nat set \<Rightarrow> 'a gen \<Rightarrow> bool" where
  "gen_ok D g = (\<forall>s. emits D s (snd (run_state g s)))"

text \<open>A code memory that holds the all-zero word everywhere: an illegal encoding.\<close>

definition illegal_code :: "target_ulong \<Rightarrow> 32 word" where
  "illegal_code = (\<lambda>_. 0)"





section \<open>Properties\<close>

subsection \<open>Symbolic execution of emitted code\<close>

lemmas opc_defs = OPC_RISC_ARITH_def OPC_RISC_ARITH_W_def OPC_RISC_ARITH_IMM_def OPC_RISC_ARITH_IMM_W_def
  OPC_RISC_ADD_def OPC_RISC_SUB_def OPC_RISC_SLL_def OPC_RISC_SLT_def OPC_RISC_SLTU_def OPC_RISC_XOR_def
  OPC_RISC_SRL_def OPC_RISC_SRA_def OPC_RISC_OR_def OPC_RISC_AND_def OPC_RISC_MUL_def OPC_RISC_MULH_def
  OPC_RISC_MULHSU_def OPC_RISC_MULHU_def OPC_RISC_DIV_def OPC_RISC_DIVU_def OPC_RISC_REM_def OPC_RISC_REMU_def
  OPC_RISC_ADDW_def OPC_RISC_SUBW_def OPC_RISC_SLLW_def OPC_RISC_SRLW_def OPC_RISC_SRAW_def OPC_RISC_MULW_def
  OPC_RISC_DIVW_def OPC_RISC_DIVUW_def OPC_RISC_REMW_def OPC_RISC_REMUW_def

lemmas tcg_defs = emit_def tcg_temp_new_def tcg_temp_local_new_def tcg_temp_free_def tcg_const_tl_def
  tcg_const_i32_def gen_new_label_def read_ctx_def set_bstate_def
  tcg_gen_movi_tl_def tcg_gen_mov_tl_def tcg_gen_add_tl_def tcg_gen_addi_tl_def tcg_gen_sub_tl_def
  tcg_gen_and_tl_def tcg_gen_andi_tl_def tcg_gen_or_tl_def tcg_gen_ori_tl_def tcg_gen_xor_tl_def
  tcg_gen_xori_tl_def tcg_gen_not_tl_def tcg_gen_shl_tl_def tcg_gen_shli_tl_def tcg_gen_shr_tl_def
  tcg_gen_shri_tl_def tcg_gen_sar_tl_def tcg_gen_sari_tl_def tcg_gen_mul_tl_def
  tcg_gen_setcond_tl_def tcg_gen_setcondi_tl_def tcg_gen_movcond_tl_def tcg_gen_div_tl_def
  tcg_gen_divu_tl_def tcg_gen_rem_tl_def tcg_gen_remu_tl_def tcg_gen_muls2_tl_def tcg_gen_mulu2_tl_def
  tcg_gen_ext32s_tl_def tcg_gen_ext32u_tl_def tcg_gen_brcond_tl_def tcg_gen_brcondi_tl_def
  tcg_gen_br_def gen_set_label_def tcg_gen_goto_tb_def gen_exit_tb_def tcg_gen_ld_mstatus_def
  tcg_gen_qemu_ld_def tcg_gen_qemu_st_def gen_helper_def

lemma run_gen_get_gpr:
  "run_state (gen_get_gpr t r) s =
     ((), s\<lparr>gen_opc_buf := gen_opc_buf s @ [INDEX_op_mov t (if r = 0 then Imm 0 else Reg (cpu_gpr r))]\<rparr>)"
  by (simp add: gen_get_gpr_def tcg_defs)

lemma run_gen_set_gpr:
  "run_state (gen_set_gpr r t) s =
     ((), s\<lparr>gen_opc_buf := gen_opc_buf s @ (if 0 < r then [INDEX_op_mov (cpu_gpr r) (Reg t)] else [])\<rparr>)"
  by (simp add: gen_set_gpr_def tcg_defs)

lemma get_arg_reg: "get_arg m (if r = 0 then Imm 0 else Reg (cpu_gpr r)) = reg (cpu m) r"
  by (simp add: reg_def)

lemma exec_tail_set_gpr:
  "guest (exec H None (if 0 < r then [INDEX_op_mov (cpu_gpr r) (Reg t)] else []) m) =
     G_next (write_reg r (get_v m t) (cpu m)) (ram m)"
  by (simp add: write_reg_def)

subsection \<open>Division and remainder\<close>

lemma sint_inj: "sint (x::'a::len word) = sint y \<Longrightarrow> x = y"
  by (metis scast_eq scast_id)

lemma sint_scast_32_64: "sint (scast (x::32 word) :: 64 word) = sint x"
  by (simp add: sint_up_scast is_up)

lemma scast_32_64_inj: "((scast (x::32 word) :: 64 word) = scast y) = (x = y)"
  using sint_inj [of x y] sint_scast_32_64 [of x] sint_scast_32_64 [of y] by auto

lemma scast_32_64_0: "((scast (x::32 word) :: 64 word) = 0) = (x = 0)"
  using scast_32_64_inj [of x 0] by simp

lemma scast_32_64_m1: "((scast (x::32 word) :: 64 word) = - 1) = (x = - 1)"
  using scast_32_64_inj [of x "- 1"] by simp

lemma scast_32_64_min: "(scast (x::32 word) :: 64 word) \<noteq> 9223372036854775808"
proof
  assume "(scast x :: 64 word) = 9223372036854775808"
  then have "sint (scast x :: 64 word) = sint (9223372036854775808 :: 64 word)" by simp
  then have "sint x = - 9223372036854775808" by (simp add: sint_scast_32_64)
  moreover have "- (2 ^ (LENGTH(32) - 1)) \<le> sint x" by (rule sint_ge)
  ultimately show False by simp
qed

lemma ucast_m1_64_32: "(ucast (- 1 :: 64 word) :: 32 word) = - 1"
  by (rule bit_word_eqI) (simp add: bit_simps)

lemma ucast_ucast_32: "(ucast (ucast (a::32 word) :: 64 word) :: 32 word) = a"
  by (rule bit_word_eqI) (simp add: bit_simps)

lemma ucast_scast_32: "(ucast (scast (a::32 word) :: 64 word) :: 32 word) = a"
  by (rule bit_word_eqI) (auto simp add: bit_simps)

lemma ucast_wi_64_32: "(ucast (word_of_int k :: 64 word) :: 32 word) = word_of_int k"
  by (simp add: ucast_down_wi is_down)

lemma sdiv_min32: "(- 2147483648 :: int) sdiv (- 1) = 2147483648"
  by (simp add: signed_divide_int_def)

lemma W_div:
  "(scast (ucast (spec_div (scast (a::32 word) :: 64 word) (scast (b::32 word))) :: 32 word) :: 64 word)
     = scast (spec_div a b)"
proof (cases "b = 0")
  case True
  then show ?thesis by (simp add: spec_div_def ucast_m1_64_32)
next
  case False
  show ?thesis
  proof (cases "a = 2147483648 \<and> b = - 1")
    case True
    then show ?thesis
      by (simp add: spec_div_def scast_32_64_min sint_scast_32_64 ucast_wi_64_32 sdiv_min32)
  next
    case nov: False
    with False show ?thesis
      by (simp add: spec_div_def scast_32_64_0 scast_32_64_min sint_scast_32_64 ucast_wi_64_32)
  qed
qed

lemma smod_m1: "(k::int) smod (- 1) = 0" by (simp add: signed_modulo_int_def)
lemma smod_1: "(k::int) smod 1 = 0" by (simp add: signed_modulo_int_def)

lemma W_rem:
  "(scast (ucast (spec_rem (scast (a::32 word) :: 64 word) (scast (b::32 word))) :: 32 word) :: 64 word)
     = scast (spec_rem a b)"
proof (cases "b = 0")
  case True
  then show ?thesis by (simp add: spec_rem_def ucast_scast_32)
next
  case False
  show ?thesis
  proof (cases "a = 2147483648 \<and> b = - 1")
    case True
    then show ?thesis
      by (simp add: spec_rem_def scast_32_64_min sint_scast_32_64 ucast_wi_64_32 smod_m1 smod_1)
  next
    case nov: False
    with False show ?thesis
      by (auto simp add: spec_rem_def scast_32_64_0 scast_32_64_min sint_scast_32_64 ucast_wi_64_32)
  qed
qed

lemma unat_ucast_32_64: "unat (ucast (a::32 word) :: 64 word) = unat a"
proof -
  have "unat a < 2 ^ LENGTH(32)" by (rule unsigned_less)
  then have "unat a < 2 ^ 64" by simp
  then show ?thesis by (simp add: unsigned_ucast_eq take_bit_nat_eq_self)
qed

lemma ucast_32_64_0: "((ucast (x::32 word) :: 64 word) = 0) = (x = 0)"
proof
  assume "(ucast x :: 64 word) = 0"
  then have "unat (ucast x :: 64 word) = 0" by simp
  then show "x = 0" by (simp add: unat_ucast_32_64 unat_eq_0)
qed simp

lemma ucast_of_nat_64_32: "(ucast (word_of_nat n :: 64 word) :: 32 word) = word_of_nat n"
  using ucast_wi_64_32 [of "int n"] by simp

lemma W_divu:
  "(scast (ucast (spec_divu (ucast (a::32 word) :: 64 word) (ucast (b::32 word))) :: 32 word) :: 64 word)
     = scast (spec_divu a b)"
  by (simp add: spec_divu_def ucast_32_64_0 ucast_m1_64_32 unat_ucast_32_64 ucast_of_nat_64_32)

lemma W_remu:
  "(scast (ucast (spec_remu (ucast (a::32 word) :: 64 word) (ucast (b::32 word))) :: 32 word) :: 64 word)
     = scast (spec_remu a b)"
  by (simp add: spec_remu_def ucast_32_64_0 ucast_ucast_32 unat_ucast_32_64 ucast_of_nat_64_32)


lemma neg_min64: "- 9223372036854775808 = (9223372036854775808::64 word)"
  by simp

lemmas arith_run_simps = run_def emitted_def gen_arith_def opc_defs tcg_defs run_gen_get_gpr run_gen_set_gpr
  get_arg_reg TARGET_LONG_BITS_def INT_MIN_tl_def

lemmas kernel_simps = exec_tail_set_gpr neg_min64 smod_1 smod_m1
  word_arith_nat_div [symmetric] word_arith_nat_mod [symmetric]

lemma div_run:
  "run H (gen_arith OPC_RISC_DIV rd rs1 rs2) s m =
     G_next (write_reg rd (spec_div (reg (cpu m) rs1) (reg (cpu m) rs2)) (cpu m)) (ram m)"
  apply (simp add: arith_run_simps spec_div_def split del: if_split cong: if_cong)
  apply (cases "reg (cpu m) rs2 = 0"; cases "reg (cpu m) rs2 = - 1";
      cases "reg (cpu m) rs1 = 9223372036854775808";
      simp add: kernel_simps split del: if_split cong: if_cong)
  done

lemma rem_run:
  "run H (gen_arith OPC_RISC_REM rd rs1 rs2) s m =
     G_next (write_reg rd (spec_rem (reg (cpu m) rs1) (reg (cpu m) rs2)) (cpu m)) (ram m)"
  apply (simp add: arith_run_simps spec_rem_def split del: if_split cong: if_cong)
  apply (cases "reg (cpu m) rs2 = 0"; cases "reg (cpu m) rs2 = - 1";
      cases "reg (cpu m) rs1 = 9223372036854775808";
      simp add: kernel_simps split del: if_split cong: if_cong)
  done

lemma divu_run:
  "run H (gen_arith OPC_RISC_DIVU rd rs1 rs2) s m =
     G_next (write_reg rd (spec_divu (reg (cpu m) rs1) (reg (cpu m) rs2)) (cpu m)) (ram m)"
  apply (simp add: arith_run_simps spec_divu_def split del: if_split cong: if_cong)
  apply (cases "reg (cpu m) rs2 = 0";
      simp add: kernel_simps split del: if_split cong: if_cong)
  done

lemma remu_run:
  "run H (gen_arith OPC_RISC_REMU rd rs1 rs2) s m =
     G_next (write_reg rd (spec_remu (reg (cpu m) rs1) (reg (cpu m) rs2)) (cpu m)) (ram m)"
  apply (simp add: arith_run_simps spec_remu_def split del: if_split cong: if_cong)
  apply (cases "reg (cpu m) rs2 = 0";
      simp add: kernel_simps split del: if_split cong: if_cong)
  done

lemma divw_run:
  "run H (gen_arith OPC_RISC_DIVW rd rs1 rs2) s m =
     G_next (write_reg rd (scast (spec_div (low32 (reg (cpu m) rs1)) (low32 (reg (cpu m) rs2)))) (cpu m)) (ram m)"
  apply (simp only: W_div [symmetric])
  apply (simp add: arith_run_simps spec_div_def [where 'a=64] low32_def split del: if_split cong: if_cong)
  apply (cases "(scast (ucast (reg (cpu m) rs2) :: 32 word) :: 64 word) = 0";
      cases "(scast (ucast (reg (cpu m) rs2) :: 32 word) :: 64 word) = - 1";
      cases "(scast (ucast (reg (cpu m) rs1) :: 32 word) :: 64 word) = 9223372036854775808";
      simp add: kernel_simps split del: if_split cong: if_cong)
  done

lemma remw_run:
  "run H (gen_arith OPC_RISC_REMW rd rs1 rs2) s m =
     G_next (write_reg rd (scast (spec_rem (low32 (reg (cpu m) rs1)) (low32 (reg (cpu m) rs2)))) (cpu m)) (ram m)"
  apply (simp only: W_rem [symmetric])
  apply (simp add: arith_run_simps spec_rem_def [where 'a=64] low32_def split del: if_split cong: if_cong)
  apply (cases "(scast (ucast (reg (cpu m) rs2) :: 32 word) :: 64 word) = 0";
      cases "(scast (ucast (reg (cpu m) rs2) :: 32 word) :: 64 word) = - 1";
      cases "(scast (ucast (reg (cpu m) rs1) :: 32 word) :: 64 word) = 9223372036854775808";
      simp add: kernel_simps split del: if_split cong: if_cong)
  done

lemma divuw_run:
  "run H (gen_arith OPC_RISC_DIVUW rd rs1 rs2) s m =
     G_next (write_reg rd (scast (spec_divu (low32 (reg (cpu m) rs1)) (low32 (reg (cpu m) rs2)))) (cpu m)) (ram m)"
  apply (simp only: W_divu [symmetric])
  apply (simp add: arith_run_simps spec_divu_def [where 'a=64] low32_def split del: if_split cong: if_cong)
  apply (cases "(ucast (ucast (reg (cpu m) rs2) :: 32 word) :: 64 word) = 0";
      simp add: kernel_simps split del: if_split cong: if_cong)
  done

lemma remuw_run:
  "run H (gen_arith OPC_RISC_REMUW rd rs1 rs2) s m =
     G_next (write_reg rd (scast (spec_remu (low32 (reg (cpu m) rs1)) (low32 (reg (cpu m) rs2)))) (cpu m)) (ram m)"
  apply (simp only: W_remu [symmetric])
  apply (simp add: arith_run_simps spec_remu_def [where 'a=64] low32_def split del: if_split cong: if_cong)
  apply (cases "(ucast (ucast (reg (cpu m) rs2) :: 32 word) :: 64 word) = 0";
      simp add: kernel_simps split del: if_split cong: if_cong)
  done

text \<open>
  Claim C1. For each of \<^verbatim>\<open>div\<close>, \<^verbatim>\<open>divu\<close>, \<^verbatim>\<open>rem\<close>, \<^verbatim>\<open>remu\<close> and their W
  forms, whatever the registers hold, the code \<^verbatim>\<open>gen_arith\<close> emits runs to its end
  without an exception and without an unspecified micro-op, changes no memory, and
  writes to \<open>rd\<close> (nothing when \<open>rd\<close> is \<open>x0\<close>) the result the RISC-V manual asks
  for: all ones for a quotient by zero, the dividend for a remainder by zero, the dividend
  and zero for the signed overflow, the ordinary quotient and remainder otherwise. A W
  form takes the low 32 bits of its operands and writes the 32-bit result sign-extended.
\<close>

theorem gen_arith_div_rem_corner_cases:
  "run H (gen_arith OPC_RISC_DIV rd rs1 rs2) s m =
     G_next (write_reg rd (spec_div (reg (cpu m) rs1) (reg (cpu m) rs2)) (cpu m)) (ram m) \<and>
   run H (gen_arith OPC_RISC_DIVU rd rs1 rs2) s m =
     G_next (write_reg rd (spec_divu (reg (cpu m) rs1) (reg (cpu m) rs2)) (cpu m)) (ram m) \<and>
   run H (gen_arith OPC_RISC_REM rd rs1 rs2) s m =
     G_next (write_reg rd (spec_rem (reg (cpu m) rs1) (reg (cpu m) rs2)) (cpu m)) (ram m) \<and>
   run H (gen_arith OPC_RISC_REMU rd rs1 rs2) s m =
     G_next (write_reg rd (spec_remu (reg (cpu m) rs1) (reg (cpu m) rs2)) (cpu m)) (ram m) \<and>
   run H (gen_arith OPC_RISC_DIVW rd rs1 rs2) s m =
     G_next (write_reg rd (scast (spec_div (low32 (reg (cpu m) rs1)) (low32 (reg (cpu m) rs2)))) (cpu m)) (ram m) \<and>
   run H (gen_arith OPC_RISC_DIVUW rd rs1 rs2) s m =
     G_next (write_reg rd (scast (spec_divu (low32 (reg (cpu m) rs1)) (low32 (reg (cpu m) rs2)))) (cpu m)) (ram m) \<and>
   run H (gen_arith OPC_RISC_REMW rd rs1 rs2) s m =
     G_next (write_reg rd (scast (spec_rem (low32 (reg (cpu m) rs1)) (low32 (reg (cpu m) rs2)))) (cpu m)) (ram m) \<and>
   run H (gen_arith OPC_RISC_REMUW rd rs1 rs2) s m =
     G_next (write_reg rd (scast (spec_remu (low32 (reg (cpu m) rs1)) (low32 (reg (cpu m) rs2)))) (cpu m)) (ram m)"
  by (simp only: div_run divu_run rem_run remu_run divw_run divuw_run remw_run remuw_run simp_thms)

subsection \<open>Vector configuration\<close>

lemma MIN_tl_le: "MIN_tl a m \<le> m"
  by (auto simp add: MIN_tl_def)

lemma MIN_tl_mono: "a \<le> b \<Longrightarrow> MIN_tl a m \<le> MIN_tl b m"
  by (auto simp add: MIN_tl_def)

text \<open>
  Claim C7. With the vector unit enabled \<^verbatim>\<open>helper_vsetvl\<close> returns; for a fixed new
  \<^verbatim>\<open>vtype\<close> (and the same \<open>rd\<close>, \<open>rs1\<close> and form) a larger AVL never gives a smaller
  \<open>vl\<close>; the value returned is the \<open>vl\<close> stored; it does not exceed \<open>vlmax\<close>; and
  \<open>vstart\<close> is zero afterwards, also when \<open>vill\<close> was set. (With the vector unit
  disabled the helper raises an illegal-instruction exception and does not return.)
\<close>

theorem helper_vsetvl_monotone_bounded:
  assumes "mstatus env AND MSTATUS_VS \<noteq> 0" and "avl1 \<le> avl2"
  shows "\<exists>v1 e1 v2 e2.
     helper_vsetvl env rd rs1 avl1 vt im = Inr (v1, e1) \<and>
     helper_vsetvl env rd rs1 avl2 vt im = Inr (v2, e2) \<and>
     v1 \<le> v2 \<and> v1 = vl e1 \<and> vl e1 \<le> vlmax e1 \<and> vstart e1 = 0"
  using assms
  by (simp add: helper_vsetvl_def Let_def MIN_tl_le MIN_tl_mono)

lemmas vsetvl_eval = helper_vsetvl_def vsetvl_vtype_def Let_def zero_env_def MSTATUS_VS_def
  GET_VTYPE_VSEW_def GET_VTYPE_VLMUL_def GET_VTYPE_VTA_def GET_VTYPE_VMA_def extract32_def
  MIN_tl_def TARGET_LONG_BITS_def

theorem helper_vsetvl_monotone_bounded_witness:
  "mstatus (zero_env\<lparr>mstatus := 0x600, vlenb := 16, elen := 64\<rparr>) AND MSTATUS_VS \<noteq> 0 \<and>
   (3 :: target_ulong) \<le> 100 \<and>
   (\<exists>v1 e1 v2 e2.
     helper_vsetvl (zero_env\<lparr>mstatus := 0x600, vlenb := 16, elen := 64\<rparr>) 1 2 3 0x10 0 = Inr (v1, e1) \<and>
     helper_vsetvl (zero_env\<lparr>mstatus := 0x600, vlenb := 16, elen := 64\<rparr>) 1 2 100 0x10 0 = Inr (v2, e2) \<and>
     v1 \<le> v2 \<and> v1 = vl e1 \<and> vl e1 \<le> vlmax e1 \<and> vstart e1 = 0)"
proof -
  have h1: "mstatus (zero_env\<lparr>mstatus := 0x600, vlenb := 16, elen := 64\<rparr>) AND MSTATUS_VS \<noteq> 0"
    by (simp add: zero_env_def MSTATUS_VS_def)
  have h2: "(3 :: target_ulong) \<le> 100" by simp
  show ?thesis
    using h1 h2 helper_vsetvl_monotone_bounded [OF h1 h2, of 1 2 "0x10" 0] by blast
qed

subsection \<open>Immediate shifts\<close>

lemmas exc_defs = generate_exception_def generate_exception_mbadaddr_def kill_unknown_def
  raised_at_def raised_badaddr_def RISCV_EXCP_INST_ADDR_MIS_def RISCV_EXCP_ILLEGAL_INST_def

lemmas imm_opc_defs = OPC_RISC_ARITH_IMM_def OPC_RISC_ARITH_IMM_W_def OPC_RISC_ADDI_def OPC_RISC_SLTI_def
  OPC_RISC_SLTIU_def OPC_RISC_XORI_def OPC_RISC_ORI_def OPC_RISC_ANDI_def OPC_RISC_SLLI_def
  OPC_RISC_SHIFT_RIGHT_I_def OPC_RISC_ADDIW_def OPC_RISC_SLLIW_def OPC_RISC_SHIFT_RIGHT_IW_def

lemmas imm_run_simps = run_def emitted_def gen_arith_imm_def imm_opc_defs tcg_defs exc_defs
  run_gen_get_gpr run_gen_set_gpr get_arg_reg TARGET_LONG_BITS_def

lemma slli_illegal:
  "64 \<le>s imm \<Longrightarrow>
   run H (gen_arith_imm OPC_RISC_SLLI rd rs1 imm) s m = raised_at RISCV_EXCP_ILLEGAL_INST s m"
  by (simp add: imm_run_simps word_sless_alt word_sle_eq)

lemma sri_illegal:
  "64 \<le>s (imm AND 0x3ff) \<Longrightarrow>
   run H (gen_arith_imm OPC_RISC_SHIFT_RIGHT_I rd rs1 imm) s m = raised_at RISCV_EXCP_ILLEGAL_INST s m"
  by (simp add: imm_run_simps word_sless_alt word_sle_eq)

lemma slliw_illegal:
  "32 \<le>s imm \<Longrightarrow>
   run H (gen_arith_imm OPC_RISC_SLLIW rd rs1 imm) s m = raised_at RISCV_EXCP_ILLEGAL_INST s m"
  by (simp add: imm_run_simps word_sless_alt word_sle_eq)

lemma sriw_illegal:
  "32 \<le>s (imm AND 0x3ff) \<Longrightarrow>
   run H (gen_arith_imm OPC_RISC_SHIFT_RIGHT_IW rd rs1 imm) s m = raised_at RISCV_EXCP_ILLEGAL_INST s m"
  by (simp add: imm_run_simps word_sless_alt word_sle_eq)

lemma srai_run:
  "(imm AND 0x3ff) <s 64 \<Longrightarrow> imm AND 0x400 \<noteq> 0 \<Longrightarrow> unat (imm XOR 0x400) < 64 \<Longrightarrow>
   run H (gen_arith_imm OPC_RISC_SHIFT_RIGHT_I rd rs1 imm) s m =
     G_next (write_reg rd (signed_drop_bit (unat (imm XOR 0x400)) (reg (cpu m) rs1)) (cpu m)) (ram m)"
  by (simp add: imm_run_simps exec_tail_set_gpr)

lemma srli_run:
  "(imm AND 0x3ff) <s 64 \<Longrightarrow> imm AND 0x400 = 0 \<Longrightarrow> unat imm < 64 \<Longrightarrow>
   run H (gen_arith_imm OPC_RISC_SHIFT_RIGHT_I rd rs1 imm) s m =
     G_next (write_reg rd (drop_bit (unat imm) (reg (cpu m) rs1)) (cpu m)) (ram m)"
  by (simp add: imm_run_simps exec_tail_set_gpr)


lemmas major_opc_defs = OPC_RISC_LUI_def OPC_RISC_AUIPC_def OPC_RISC_JAL_def OPC_RISC_JALR_def
  OPC_RISC_BRANCH_def OPC_RISC_LOAD_def OPC_RISC_STORE_def OPC_RISC_ARITH_IMM_def OPC_RISC_ARITH_def
  OPC_RISC_ARITH_IMM_W_def OPC_RISC_ARITH_W_def

lemma srli_insn_fields:
  "MASK_OP_MAJOR 0x80515093 = 0x13 \<and> MASK_OP_ARITH_IMM 0x80515093 = OPC_RISC_SHIFT_RIGHT_I \<and>
   GET_RD 0x80515093 = 1 \<and> GET_RS1 0x80515093 = 2 \<and> GET_IMM 0x80515093 = 0xFFFFFFFFFFFFF805 \<and>
   extract32 0x80515093 0 2 = 3"
  by (simp add: MASK_OP_MAJOR_def MASK_OP_ARITH_IMM_def OPC_RISC_ARITH_IMM_def OPC_RISC_SHIFT_RIGHT_I_def
      GET_RD_def GET_RS1_def GET_IMM_def extract32_def sextract64_def Let_def)

lemma srli_insn_emitted:
  "emitted (disas_insn zero_env) (insn_at 0x1000 0x80515093) =
     [INDEX_op_mov (tcg_temp 0) (Reg (cpu_gpr 2)),
      INDEX_op_arith op_shr (tcg_temp 0) (tcg_temp 0) (Imm 0xFFFFFFFFFFFFF805),
      INDEX_op_mov (cpu_gpr 1) (Reg (tcg_temp 0))]"
  by (simp add: emitted_def disas_insn_def decode_RV32_64G_def set_next_pc_def set_pc_def srli_insn_fields
      major_opc_defs insn_at_def tstate_at_def Let_def
      gen_arith_imm_def imm_opc_defs tcg_defs exc_defs
      run_gen_get_gpr run_gen_set_gpr TARGET_LONG_BITS_def word_sless_alt word_sle_eq)

lemma srli_insn_run:
  "run no_helpers (disas_insn zero_env) (insn_at 0x1000 0x80515093) zero_machine = G_unspecified"
  unfolding run_def srli_insn_emitted by (simp add: TARGET_LONG_BITS_def)

text \<open>
  Claim C4. The lemmas above give the part of the claim the code keeps: an amount of
  \<open>XLEN\<close> or more (32 or more for the W forms) that is a non-negative
  \<^verbatim>\<open>target_long\<close> raises the illegal-instruction exception, and bit 10 selects the
  arithmetic shift. An immediate with bit 11 set is not covered by any of them: the
  decoder sign-extends it to a negative \<^verbatim>\<open>target_long\<close>, which passes the signed
  range tests of \<^verbatim>\<open>gen_arith_imm\<close>. The instruction word \<open>0x80515093\<close> is
  \<^verbatim>\<open>srli x1, x2\<close> with the immediate field \<open>0x805\<close> (an amount of 2053): the code
  emitted for it holds no exception call, only a right shift by the constant
  \<open>0xFFFFFFFFFFFFF805\<close>, which is outside the range of the shift micro-op.
\<close>

theorem srli_imm_bit11_not_trapped:
  "GET_IMM 0x80515093 = 0xFFFFFFFFFFFFF805 \<and>
   emitted (disas_insn zero_env) (insn_at 0x1000 0x80515093) =
     [INDEX_op_mov (tcg_temp 0) (Reg (cpu_gpr 2)),
      INDEX_op_arith op_shr (tcg_temp 0) (tcg_temp 0) (Imm 0xFFFFFFFFFFFFF805),
      INDEX_op_mov (cpu_gpr 1) (Reg (tcg_temp 0))] \<and>
   run no_helpers (disas_insn zero_env) (insn_at 0x1000 0x80515093) zero_machine = G_unspecified"
  by (simp only: srli_insn_fields srli_insn_emitted srli_insn_run simp_thms)

subsection \<open>Misaligned jump and branch targets\<close>

lemma jal_mis:
  assumes "\<not> riscv_has_ext e RISCV_FEATURE_RVC" and "(pc (ctx s) + imm) AND 0x3 \<noteq> 0"
  shows "run H (gen_jal e rd imm) s m = raised_badaddr RISCV_EXCP_INST_ADDR_MIS (pc (ctx s)) s m"
  using assms
  by (simp add: run_def emitted_def gen_jal_def gen_goto_tb_def use_goto_tb_def exc_defs tcg_defs)

lemma jalr_mis:
  assumes "\<not> riscv_has_ext e RISCV_FEATURE_RVC"
    and "((reg (cpu m) rs1 + imm) AND - 2) AND 0x2 \<noteq> 0"
  shows "run H (gen_jalr e OPC_RISC_JALR rd rs1 imm) s m =
     raised_badaddr RISCV_EXCP_INST_ADDR_MIS (pc (ctx s)) s m"
  using assms
  by (simp add: run_def emitted_def gen_jalr_def exc_defs tcg_defs run_gen_get_gpr get_arg_reg)

lemma branch_mis:
  assumes "\<not> riscv_has_ext e RISCV_FEATURE_RVC" and "(pc (ctx s) + bimm) AND 0x3 \<noteq> 0"
    and "reg (cpu m) rs1 = reg (cpu m) rs2"
  shows "run H (gen_branch e OPC_RISC_BEQ rs1 rs2 bimm) s m =
     raised_badaddr RISCV_EXCP_INST_ADDR_MIS (pc (ctx s)) s m"
  using assms
  by (simp add: run_def emitted_def gen_branch_def gen_goto_tb_def use_goto_tb_def exc_defs tcg_defs
     run_gen_get_gpr get_arg_reg OPC_RISC_BEQ_def OPC_RISC_BRANCH_def)

text \<open>
  Claim C5. With the C extension off, a \<^verbatim>\<open>jal\<close>, a \<^verbatim>\<open>jalr\<close> and a taken
  \<^verbatim>\<open>beq\<close> whose target is misaligned do raise \<^verbatim>\<open>INST_ADDR_MIS\<close> with the exception
  PC at the instruction, but the bad address handed to the helper is the value of
  \<^verbatim>\<open>cpu_pc\<close>, which \<^verbatim>\<open>generate_exception_mbadaddr\<close> has just set to \<^verbatim>\<open>ctx->pc\<close>: the
  bad address is the address of the instruction, not the target.
\<close>

theorem misaligned_target_badaddr_is_pc:
  assumes "\<not> riscv_has_ext e RISCV_FEATURE_RVC"
  shows "((pc (ctx s) + imm) AND 0x3 \<noteq> 0 \<longrightarrow>
            run H (gen_jal e rd imm) s m = raised_badaddr RISCV_EXCP_INST_ADDR_MIS (pc (ctx s)) s m) \<and>
         (((reg (cpu m) ra + jimm) AND - 2) AND 0x2 \<noteq> 0 \<longrightarrow>
            run H (gen_jalr e OPC_RISC_JALR rd ra jimm) s m =
              raised_badaddr RISCV_EXCP_INST_ADDR_MIS (pc (ctx s)) s m) \<and>
         ((pc (ctx s) + bimm) AND 0x3 \<noteq> 0 \<and> reg (cpu m) ra = reg (cpu m) rb \<longrightarrow>
            run H (gen_branch e OPC_RISC_BEQ ra rb bimm) s m =
              raised_badaddr RISCV_EXCP_INST_ADDR_MIS (pc (ctx s)) s m)"
  by (intro conjI impI; (elim conjE)?; (rule jal_mis jalr_mis branch_mis; (rule assms | assumption)))

theorem misaligned_target_badaddr_is_pc_witness:
  "\<not> riscv_has_ext zero_env RISCV_FEATURE_RVC \<and>
   (pc (ctx (tstate_at 0x1000)) + 0xA) AND 0x3 \<noteq> 0 \<and>
   run no_helpers (gen_jal zero_env 1 0xA) (tstate_at 0x1000) zero_machine =
     G_raised (zero_env\<lparr>env_pc := 0x1000, badaddr := 0x1000,
                        exception_index := RISCV_EXCP_INST_ADDR_MIS\<rparr>) (\<lambda>_. 0) \<and>
   ((reg (cpu zero_machine) 2 + 0x1002) AND - 2) AND 0x2 \<noteq> 0 \<and>
   run no_helpers (gen_jalr zero_env OPC_RISC_JALR 1 2 0x1002) (tstate_at 0x1000) zero_machine =
     G_raised (zero_env\<lparr>env_pc := 0x1000, badaddr := 0x1000,
                        exception_index := RISCV_EXCP_INST_ADDR_MIS\<rparr>) (\<lambda>_. 0) \<and>
   (pc (ctx (tstate_at 0x1000)) + 0xA) AND 0x3 \<noteq> 0 \<and>
   reg (cpu zero_machine) 2 = reg (cpu zero_machine) 2 \<and>
   run no_helpers (gen_branch zero_env OPC_RISC_BEQ 2 2 0xA) (tstate_at 0x1000) zero_machine =
     G_raised (zero_env\<lparr>env_pc := 0x1000, badaddr := 0x1000,
                        exception_index := RISCV_EXCP_INST_ADDR_MIS\<rparr>) (\<lambda>_. 0)"
proof -
  have h: "\<not> riscv_has_ext zero_env RISCV_FEATURE_RVC"
    by (simp add: riscv_has_ext_def zero_env_def)
  have a: "(pc (ctx (tstate_at 0x1000)) + 0xA) AND 0x3 \<noteq> 0"
    by (simp add: tstate_at_def)
  have b: "((reg (cpu zero_machine) 2 + 0x1002) AND - 2) AND 0x2 \<noteq> 0"
    by (simp add: zero_machine_def zero_env_def reg_def)
  have c: "reg (cpu zero_machine) 2 = reg (cpu zero_machine) 2"
    by simp
  have r: "raised_badaddr RISCV_EXCP_INST_ADDR_MIS (pc (ctx (tstate_at 0x1000))) (tstate_at 0x1000) zero_machine =
     G_raised (zero_env\<lparr>env_pc := 0x1000, badaddr := 0x1000,
                        exception_index := RISCV_EXCP_INST_ADDR_MIS\<rparr>) (\<lambda>_. 0)"
    by (simp add: raised_badaddr_def tstate_at_def zero_machine_def)
  show ?thesis
    using h a b c
      misaligned_target_badaddr_is_pc [OF h, where s = "tstate_at 0x1000" and m = zero_machine
        and imm = "0xA" and jimm = "0x1002" and bimm = "0xA" and ra = 2 and rb = 2 and H = no_helpers and rd = 1]
    unfolding r
    by blast
qed

subsection \<open>Carry out of the masked add\<close>

text \<open>
  Claim C9. \<^verbatim>\<open>helper_vmadc_vvm\<close> at \<open>SEW = 8\<close> with \<open>a = 0xFF\<close>, \<open>b = 0\<close> and carry-in
  1: the sum \<open>a + b + 1\<close> is 256, so the exact carry-out is 1 (and the formula of the
  claim gives 1, as \<open>a + b = 0xFF\<close>), but the helper writes 0 to mask bit 0 of \<open>vd\<close>.
  In the source \<^verbatim>\<open>ab\<close> is a \<^verbatim>\<open>uint8_t\<close>, so \<^verbatim>\<open>ab + 1\<close> is computed in \<^verbatim>\<open>int\<close> and
  \<^verbatim>\<open>!(ab + 1)\<close> is never true.
\<close>

theorem helper_vmadc_vvm_sew8_carry_lost:
  "vsew carry_env = 8 \<and> (v_get carry_env 2 0 :: 8 word) = 0xFF \<and> (v_get carry_env 3 0 :: 8 word) = 0 \<and>
   v_mask_bit carry_env 0 \<and>
   (case helper_vmadc_vvm carry_env 1 2 3 of Inl _ \<Rightarrow> None | Inr e \<Rightarrow> Some (bit (vr e (V e 1)) 0)) = Some False"
  by code_simp

subsection \<open>Atomics\<close>

lemmas atomic_opc_defs = OPC_RISC_ATOMIC_def MASK_OP_ATOMIC_NO_AQ_RL_def
  OPC_RISC_LR_W_def OPC_RISC_SC_W_def OPC_RISC_AMOSWAP_W_def OPC_RISC_AMOADD_W_def OPC_RISC_AMOXOR_W_def
  OPC_RISC_AMOAND_W_def OPC_RISC_AMOOR_W_def OPC_RISC_AMOMIN_W_def OPC_RISC_AMOMAX_W_def
  OPC_RISC_AMOMINU_W_def OPC_RISC_AMOMAXU_W_def
  OPC_RISC_LR_D_def OPC_RISC_SC_D_def OPC_RISC_AMOSWAP_D_def OPC_RISC_AMOADD_D_def OPC_RISC_AMOXOR_D_def
  OPC_RISC_AMOAND_D_def OPC_RISC_AMOOR_D_def OPC_RISC_AMOMIN_D_def OPC_RISC_AMOMAX_D_def
  OPC_RISC_AMOMINU_D_def OPC_RISC_AMOMAXU_D_def

lemmas atomic_run_simps = run_def emitted_def gen_atomic_def gen_amo_op_def gen_amo_minmax_def
  atomic_opc_defs tcg_defs run_gen_get_gpr run_gen_set_gpr get_arg_reg Let_def
  amo_result_def amo_minmax_result_def lr_result_def sc_result_def


lemma lr_w_run: "run H (gen_atomic OPC_RISC_LR_W rd rs1 rs2) s m = lr_result 4 True rd rs1 m"
  by (simp add: atomic_run_simps exec_tail_set_gpr split del: if_split cong: if_cong)

lemma sc_w_run: "run H (gen_atomic OPC_RISC_SC_W rd rs1 rs2) s m = sc_result 4 rd rs1 rs2 m"
  by (simp add: atomic_run_simps exec_tail_set_gpr split del: if_split cong: if_cong)

lemma amoswap_w_run:
  "run H (gen_atomic OPC_RISC_AMOSWAP_W rd rs1 rs2) s m = amo_result 4 True (\<lambda>old b. b) rd rs1 rs2 m"
  by (simp add: atomic_run_simps exec_tail_set_gpr split del: if_split cong: if_cong)

lemma amoadd_w_run:
  "run H (gen_atomic OPC_RISC_AMOADD_W rd rs1 rs2) s m = amo_result 4 True (\<lambda>old b. old + b) rd rs1 rs2 m"
  by (simp add: atomic_run_simps exec_tail_set_gpr split del: if_split cong: if_cong)

lemma amoxor_w_run:
  "run H (gen_atomic OPC_RISC_AMOXOR_W rd rs1 rs2) s m = amo_result 4 True (\<lambda>old b. old XOR b) rd rs1 rs2 m"
  by (simp add: atomic_run_simps exec_tail_set_gpr split del: if_split cong: if_cong)

lemma amoand_w_run:
  "run H (gen_atomic OPC_RISC_AMOAND_W rd rs1 rs2) s m = amo_result 4 True (\<lambda>old b. old AND b) rd rs1 rs2 m"
  by (simp add: atomic_run_simps exec_tail_set_gpr split del: if_split cong: if_cong)

lemma amoor_w_run:
  "run H (gen_atomic OPC_RISC_AMOOR_W rd rs1 rs2) s m = amo_result 4 True (\<lambda>old b. old OR b) rd rs1 rs2 m"
  by (simp add: atomic_run_simps exec_tail_set_gpr split del: if_split cong: if_cong)

lemma amomin_w_run:
  "run H (gen_atomic OPC_RISC_AMOMIN_W rd rs1 rs2) s m =
     amo_minmax_result 4 True (\<lambda>old b. old <s b) rd rs1 rs2 m"
  by (cases "qemu_ld 4 True (ram m) (reg (cpu m) rs1) <s reg (cpu m) rs2")
     (simp_all add: atomic_run_simps exec_tail_set_gpr split del: if_split cong: if_cong)

lemma amomax_w_run:
  "run H (gen_atomic OPC_RISC_AMOMAX_W rd rs1 rs2) s m =
     amo_minmax_result 4 True (\<lambda>old b. b <s old) rd rs1 rs2 m"
  by (cases "reg (cpu m) rs2 <s qemu_ld 4 True (ram m) (reg (cpu m) rs1)")
     (simp_all add: atomic_run_simps exec_tail_set_gpr split del: if_split cong: if_cong)

lemma amominu_w_run:
  "run H (gen_atomic OPC_RISC_AMOMINU_W rd rs1 rs2) s m =
     amo_minmax_result 4 True (\<lambda>old b. old < b) rd rs1 rs2 m"
  by (cases "qemu_ld 4 True (ram m) (reg (cpu m) rs1) < reg (cpu m) rs2")
     (simp_all add: atomic_run_simps exec_tail_set_gpr split del: if_split cong: if_cong)

lemma amomaxu_w_run:
  "run H (gen_atomic OPC_RISC_AMOMAXU_W rd rs1 rs2) s m =
     amo_minmax_result 4 True (\<lambda>old b. b < old) rd rs1 rs2 m"
  by (cases "reg (cpu m) rs2 < qemu_ld 4 True (ram m) (reg (cpu m) rs1)")
     (simp_all add: atomic_run_simps exec_tail_set_gpr split del: if_split cong: if_cong)

lemma lr_d_run: "run H (gen_atomic OPC_RISC_LR_D rd rs1 rs2) s m = lr_result 8 False rd rs1 m"
  by (simp add: atomic_run_simps exec_tail_set_gpr split del: if_split cong: if_cong)

lemma sc_d_run: "run H (gen_atomic OPC_RISC_SC_D rd rs1 rs2) s m = sc_result 8 rd rs1 rs2 m"
  by (simp add: atomic_run_simps exec_tail_set_gpr split del: if_split cong: if_cong)

lemma amoswap_d_run:
  "run H (gen_atomic OPC_RISC_AMOSWAP_D rd rs1 rs2) s m = amo_result 8 False (\<lambda>old b. b) rd rs1 rs2 m"
  by (simp add: atomic_run_simps exec_tail_set_gpr split del: if_split cong: if_cong)

lemma amoadd_d_run:
  "run H (gen_atomic OPC_RISC_AMOADD_D rd rs1 rs2) s m = amo_result 8 False (\<lambda>old b. old + b) rd rs1 rs2 m"
  by (simp add: atomic_run_simps exec_tail_set_gpr split del: if_split cong: if_cong)

lemma amoxor_d_run:
  "run H (gen_atomic OPC_RISC_AMOXOR_D rd rs1 rs2) s m = amo_result 8 False (\<lambda>old b. old XOR b) rd rs1 rs2 m"
  by (simp add: atomic_run_simps exec_tail_set_gpr split del: if_split cong: if_cong)

lemma amoand_d_run:
  "run H (gen_atomic OPC_RISC_AMOAND_D rd rs1 rs2) s m = amo_result 8 False (\<lambda>old b. old AND b) rd rs1 rs2 m"
  by (simp add: atomic_run_simps exec_tail_set_gpr split del: if_split cong: if_cong)

lemma amoor_d_run:
  "run H (gen_atomic OPC_RISC_AMOOR_D rd rs1 rs2) s m = amo_result 8 False (\<lambda>old b. old OR b) rd rs1 rs2 m"
  by (simp add: atomic_run_simps exec_tail_set_gpr split del: if_split cong: if_cong)

lemma amomin_d_run:
  "run H (gen_atomic OPC_RISC_AMOMIN_D rd rs1 rs2) s m =
     amo_minmax_result 8 False (\<lambda>old b. old <s b) rd rs1 rs2 m"
  by (cases "qemu_ld 8 False (ram m) (reg (cpu m) rs1) <s reg (cpu m) rs2")
     (simp_all add: atomic_run_simps exec_tail_set_gpr split del: if_split cong: if_cong)

lemma amomax_d_run:
  "run H (gen_atomic OPC_RISC_AMOMAX_D rd rs1 rs2) s m =
     amo_minmax_result 8 False (\<lambda>old b. b <s old) rd rs1 rs2 m"
  by (cases "reg (cpu m) rs2 <s qemu_ld 8 False (ram m) (reg (cpu m) rs1)")
     (simp_all add: atomic_run_simps exec_tail_set_gpr split del: if_split cong: if_cong)

lemma amominu_d_run:
  "run H (gen_atomic OPC_RISC_AMOMINU_D rd rs1 rs2) s m =
     amo_minmax_result 8 False (\<lambda>old b. old < b) rd rs1 rs2 m"
  by (cases "qemu_ld 8 False (ram m) (reg (cpu m) rs1) < reg (cpu m) rs2")
     (simp_all add: atomic_run_simps exec_tail_set_gpr split del: if_split cong: if_cong)

lemma amomaxu_d_run:
  "run H (gen_atomic OPC_RISC_AMOMAXU_D rd rs1 rs2) s m =
     amo_minmax_result 8 False (\<lambda>old b. b < old) rd rs1 rs2 m"
  by (cases "reg (cpu m) rs2 < qemu_ld 8 False (ram m) (reg (cpu m) rs1)")
     (simp_all add: atomic_run_simps exec_tail_set_gpr split del: if_split cong: if_cong)

lemma amo_machine_word: "qemu_ld 4 True (ram amo_machine) 0x100 = 5"
  by code_simp

lemma amo_machine_regs:
  "reg (cpu amo_machine) 2 = 0x100" "reg (cpu amo_machine) 3 = 0x100000003"
  by (simp_all add: reg_def amo_machine_def)

lemma amo_machine_cmp: "(5 :: target_ulong) <s 0x100000003"
  by (simp add: word_sless_alt)

lemma amo_machine_low32: "low32 0x100000003 = 3"
  by (simp add: low32_def)

text \<open>
  Claim C6. \<^verbatim>\<open>LR\<close>, \<^verbatim>\<open>SC\<close>, the combining AMOs and the D forms of min/max do what
  the claim says (the lemmas above). The W forms of min/max do not order the two
  32-bit words: the emitted test compares the sign-extended old word with the whole
  64-bit \<open>rs2\<close>. With the word 5 in memory and \<open>rs2 = 0x100000003\<close> (low word 3),
  \<^verbatim>\<open>amomin.w\<close> must store \<open>min(5, 3) = 3\<close>; the emitted code finds
  \<open>5 < 0x100000003\<close>, branches over the store and leaves 5 in memory.
\<close>

theorem amomin_w_ignores_word_order:
  "qemu_ld 4 True (ram amo_machine) (reg (cpu amo_machine) 2) = 5 \<and>
   low32 (reg (cpu amo_machine) 3) = 3 \<and>
   run no_helpers (gen_atomic OPC_RISC_AMOMIN_W 1 2 3) (tstate_at 0x1000) amo_machine =
     G_next (write_reg 1 5 (cpu amo_machine)) (ram amo_machine)"
  unfolding amomin_w_run amo_minmax_result_def amo_machine_regs Let_def amo_machine_word
  by (simp only: amo_machine_cmp amo_machine_low32 if_True simp_thms)

subsection \<open>The FS gate\<close>

lemmas fp_run_simps = run_def emitted_def tcg_defs exc_defs run_gen_get_gpr run_gen_set_gpr get_arg_reg



lemma gen_fsgnj_gate:
  "mstatus (cpu m) AND MSTATUS_FS = 0 \<Longrightarrow>
   run H (gen_fsgnj rd rs1 rs2 rm minv) s m = raised_at RISCV_EXCP_ILLEGAL_INST s m"
  apply (simp add: gen_fsgnj_def fp_run_simps split del: if_split cong: if_cong
      del: call_helper.simps(4))
  apply simp?
  done













subsection \<open>What every translator keeps\<close>

lemma emits_refl: "emits D s s"
  by (simp add: emits_def)

lemma emits_trans: "emits D a b \<Longrightarrow> emits D b c \<Longrightarrow> emits D a c"
  unfolding emits_def
  apply (elim exE conjE)
  subgoal for ops1 ops2
    apply (rule exI [of _ "ops1 @ ops2"])
    apply (simp add: list_ex_iff)
    apply blast
    done
  done

lemma emits_mono: "D \<subseteq> D' \<Longrightarrow> emits D s s' \<Longrightarrow> emits D' s s'"
  unfolding emits_def gpr_ok_def list_all_iff
  by blast

lemma emits_emitted:
  "emits D s s' \<Longrightarrow>
   list_all (gpr_ok D) (drop (length (gen_opc_buf s)) (gen_opc_buf s')) \<and>
   (bstate (ctx s) \<noteq> BS_NONE \<or> list_ex is_raise (drop (length (gen_opc_buf s)) (gen_opc_buf s'))
      \<longrightarrow> bstate (ctx s') \<noteq> BS_NONE)"
  unfolding emits_def by auto

lemma gen_ok_mono: "gen_ok D g \<Longrightarrow> D \<subseteq> D' \<Longrightarrow> gen_ok D' g"
  unfolding gen_ok_def using emits_mono by blast

lemma gen_ok_return: "gen_ok D (State_Monad.return x)"
  by (simp add: gen_ok_def emits_refl)

lemma gen_ok_bind: "gen_ok D m \<Longrightarrow> (\<And>x. gen_ok D (f x)) \<Longrightarrow> gen_ok D (m \<bind> f)"
  unfolding gen_ok_def
  by (auto simp add: State_Monad.bind_def split: prod.splits intro: emits_trans
      dest: spec [where x = s for s])

lemma gen_ok_if: "(c \<Longrightarrow> gen_ok D a) \<Longrightarrow> (\<not> c \<Longrightarrow> gen_ok D b) \<Longrightarrow> gen_ok D (if c then a else b)"
  by simp

lemma gen_ok_emit: "gpr_ok D x \<Longrightarrow> \<not> is_raise x \<Longrightarrow> gen_ok D (emit x)"
  by (simp add: gen_ok_def emits_def emit_def)

lemma gen_ok_quiet:
  "gen_ok D tcg_temp_new" "gen_ok D tcg_temp_local_new" "gen_ok D (tcg_temp_free t)"
  "gen_ok D gen_new_label" "gen_ok D (read_ctx f)" "gen_ok D (set_next_pc v)" "gen_ok D (set_pc v)"
  by (simp_all add: gen_ok_def emits_def tcg_temp_new_def tcg_temp_local_new_def tcg_temp_free_def
      gen_new_label_def read_ctx_def set_next_pc_def set_pc_def)

lemma gen_ok_set_bstate: "b \<noteq> BS_NONE \<Longrightarrow> gen_ok D (set_bstate b)"
  by (simp add: gen_ok_def emits_def set_bstate_def)

lemma emits_same: "gen_opc_buf s' = gen_opc_buf s \<Longrightarrow> ctx s' = ctx s \<Longrightarrow> emits D s s'"
  by (simp add: emits_def)

lemma gen_ok_bind_temp:
  assumes "\<And>n. gen_ok D (f (tcg_temp n))"
  shows "gen_ok D (tcg_temp_new \<bind> f)"
  unfolding gen_ok_def
proof
  fix s :: tstate
  let ?s1 = "s\<lparr>nb_temps := Suc (nb_temps s), temps_in_use := Suc (temps_in_use s)\<rparr>"
  have r: "run_state (tcg_temp_new \<bind> f) s = run_state (f (tcg_temp (nb_temps s))) ?s1"
    by (simp add: State_Monad.bind_def tcg_temp_new_def)
  have a: "emits D s ?s1" by (rule emits_same) simp_all
  have b: "emits D ?s1 (snd (run_state (f (tcg_temp (nb_temps s))) ?s1))"
    using assms [of "nb_temps s"] by (simp add: gen_ok_def)
  show "emits D s (snd (run_state (tcg_temp_new \<bind> f) s))"
    unfolding r using a b by (rule emits_trans)
qed

lemma gen_ok_bind_local:
  "(\<And>n. gen_ok D (f (tcg_temp n))) \<Longrightarrow> gen_ok D (tcg_temp_local_new \<bind> f)"
  unfolding tcg_temp_local_new_def by (rule gen_ok_bind_temp)

lemma gen_ok_bind_const:
  assumes "\<And>n. gen_ok D (f (tcg_temp n))"
  shows "gen_ok D (tcg_const_tl c \<bind> f)" and "gen_ok D (tcg_const_i32 k \<bind> f)"
proof -
  have "gen_ok D (tcg_const_tl c \<bind> f)" for c
    unfolding tcg_const_tl_def tcg_gen_movi_tl_def State_Monad.bind_assoc State_Monad.bind_left_identity
    by (rule gen_ok_bind_temp, rule gen_ok_bind, rule gen_ok_emit)
       (simp_all add: gpr_ok_def assms)
  then show "gen_ok D (tcg_const_tl c \<bind> f)" and "gen_ok D (tcg_const_i32 k \<bind> f)"
    by (simp_all add: tcg_const_i32_def)
qed

lemma gen_ok_kill_unknown: "gen_ok D (kill_unknown excp)"
  unfolding kill_unknown_def generate_exception_def
  by (simp add: gen_ok_def emits_def tcg_defs gpr_ok_def)

lemma gen_ok_exception_exit:
  "b \<noteq> BS_NONE \<Longrightarrow>
   gen_ok D (generate_exception excp \<bind> (\<lambda>_. emit (INDEX_op_exit_tb n) \<bind> (\<lambda>_. set_bstate b)))"
  unfolding generate_exception_def
  by (simp add: gen_ok_def emits_def tcg_defs gpr_ok_def)

lemma gen_ok_exception_mbadaddr: "gen_ok D (generate_exception_mbadaddr excp)"
  unfolding generate_exception_mbadaddr_def
  by (simp add: gen_ok_def emits_def tcg_defs gpr_ok_def)

lemmas emit_defs = tcg_gen_movi_tl_def tcg_gen_mov_tl_def tcg_gen_add_tl_def tcg_gen_addi_tl_def
  tcg_gen_sub_tl_def tcg_gen_and_tl_def tcg_gen_andi_tl_def tcg_gen_or_tl_def tcg_gen_ori_tl_def
  tcg_gen_xor_tl_def tcg_gen_xori_tl_def tcg_gen_not_tl_def tcg_gen_shl_tl_def tcg_gen_shli_tl_def
  tcg_gen_shr_tl_def tcg_gen_shri_tl_def tcg_gen_sar_tl_def tcg_gen_sari_tl_def tcg_gen_mul_tl_def
  tcg_gen_setcond_tl_def tcg_gen_setcondi_tl_def tcg_gen_movcond_tl_def tcg_gen_div_tl_def
  tcg_gen_divu_tl_def tcg_gen_rem_tl_def tcg_gen_remu_tl_def tcg_gen_muls2_tl_def tcg_gen_mulu2_tl_def
  tcg_gen_ext32s_tl_def tcg_gen_ext32u_tl_def tcg_gen_brcond_tl_def tcg_gen_brcondi_tl_def
  tcg_gen_br_def gen_set_label_def tcg_gen_goto_tb_def gen_exit_tb_def tcg_gen_ld_mstatus_def
  tcg_gen_qemu_ld_def tcg_gen_qemu_st_def gen_helper_def gen_get_gpr_def gen_set_gpr_def Let_def

lemma gen_ok_use_goto_tb: "gen_ok D (use_goto_tb d)"
  by (simp add: gen_ok_def emits_def use_goto_tb_def)

lemma gen_ok_gen_goto_tb: "gen_ok D (gen_goto_tb n d)"
  unfolding gen_goto_tb_def emit_defs
  by ((rule gen_ok_bind_temp gen_ok_bind_local gen_ok_bind_const gen_ok_kill_unknown
            gen_ok_exception_mbadaddr gen_ok_exception_exit
       | rule gen_ok_bind
       | rule gen_ok_if gen_ok_return gen_ok_emit gen_ok_quiet gen_ok_set_bstate gen_ok_use_goto_tb
       | simp add: gpr_ok_def)+)

lemma gen_ok_gen_arith: "gen_ok {rd} (gen_arith opc rd rs1 rs2)"
  unfolding gen_arith_def gen_mulhsu_def emit_defs
  by ((rule gen_ok_bind_temp gen_ok_bind_local gen_ok_bind_const gen_ok_kill_unknown
            gen_ok_exception_mbadaddr gen_ok_exception_exit
       | rule gen_ok_bind
       | rule gen_ok_if gen_ok_return gen_ok_emit gen_ok_quiet gen_ok_set_bstate gen_ok_use_goto_tb
       | simp add: gpr_ok_def)+)

lemma gen_ok_gen_arith_imm: "gen_ok {rd} (gen_arith_imm opc rd rs1 imm)"
  unfolding gen_arith_imm_def emit_defs
  by ((rule gen_ok_bind_temp gen_ok_bind_local gen_ok_bind_const gen_ok_kill_unknown
            gen_ok_exception_mbadaddr gen_ok_exception_exit
       | rule gen_ok_bind
       | rule gen_ok_if gen_ok_return gen_ok_emit gen_ok_quiet gen_ok_set_bstate gen_ok_use_goto_tb
       | simp add: gpr_ok_def)+)

lemma gen_ok_gen_jal: "gen_ok {rd} (gen_jal e rd imm)"
  unfolding gen_jal_def emit_defs
  by ((rule gen_ok_bind_temp gen_ok_bind_local gen_ok_bind_const gen_ok_kill_unknown
            gen_ok_exception_mbadaddr gen_ok_exception_exit gen_ok_gen_goto_tb
       | rule gen_ok_bind
       | rule gen_ok_if gen_ok_return gen_ok_emit gen_ok_quiet gen_ok_set_bstate gen_ok_use_goto_tb
       | simp add: gpr_ok_def)+)

lemma gen_ok_gen_jalr: "gen_ok {rd} (gen_jalr e opc rd rs1 imm)"
  unfolding gen_jalr_def emit_defs
  by ((rule gen_ok_bind_temp gen_ok_bind_local gen_ok_bind_const gen_ok_kill_unknown
            gen_ok_exception_mbadaddr gen_ok_exception_exit gen_ok_gen_goto_tb
       | rule gen_ok_bind
       | rule gen_ok_if gen_ok_return gen_ok_emit gen_ok_quiet gen_ok_set_bstate gen_ok_use_goto_tb
       | simp add: gpr_ok_def)+)

lemma gen_ok_gen_branch: "gen_ok {} (gen_branch e opc rs1 rs2 bimm)"
  unfolding gen_branch_def emit_defs
  by ((rule gen_ok_bind_temp gen_ok_bind_local gen_ok_bind_const gen_ok_kill_unknown
            gen_ok_exception_mbadaddr gen_ok_exception_exit gen_ok_gen_goto_tb
       | rule gen_ok_bind
       | rule gen_ok_if gen_ok_return gen_ok_emit gen_ok_quiet gen_ok_set_bstate gen_ok_use_goto_tb
       | simp add: gpr_ok_def)+)

lemma gen_ok_gen_load: "gen_ok {rd} (gen_load opc rd rs1 imm)"
  unfolding gen_load_def emit_defs
  by ((rule gen_ok_bind_temp gen_ok_bind_local gen_ok_bind_const gen_ok_kill_unknown
            gen_ok_exception_mbadaddr gen_ok_exception_exit
       | rule gen_ok_bind
       | rule gen_ok_if gen_ok_return gen_ok_emit gen_ok_quiet gen_ok_set_bstate gen_ok_use_goto_tb
       | simp add: gpr_ok_def)+)

lemma gen_ok_gen_store: "gen_ok {} (gen_store opc rs1 rs2 imm)"
  unfolding gen_store_def emit_defs
  by ((rule gen_ok_bind_temp gen_ok_bind_local gen_ok_bind_const gen_ok_kill_unknown
            gen_ok_exception_mbadaddr gen_ok_exception_exit
       | rule gen_ok_bind
       | rule gen_ok_if gen_ok_return gen_ok_emit gen_ok_quiet gen_ok_set_bstate gen_ok_use_goto_tb
       | simp add: gpr_ok_def)+)

lemma gen_ok_gen_fp_load: "gen_ok {} (gen_fp_load opc rd rs1 imm)"
  unfolding gen_fp_load_def emit_defs
  by ((rule gen_ok_bind_temp gen_ok_bind_local gen_ok_bind_const gen_ok_kill_unknown
            gen_ok_exception_mbadaddr gen_ok_exception_exit
       | rule gen_ok_bind
       | rule gen_ok_if gen_ok_return gen_ok_emit gen_ok_quiet gen_ok_set_bstate gen_ok_use_goto_tb
       | simp add: gpr_ok_def)+)

lemma gen_ok_gen_fp_store: "gen_ok {} (gen_fp_store opc rs1 rs2 imm)"
  unfolding gen_fp_store_def emit_defs
  by ((rule gen_ok_bind_temp gen_ok_bind_local gen_ok_bind_const gen_ok_kill_unknown
            gen_ok_exception_mbadaddr gen_ok_exception_exit
       | rule gen_ok_bind
       | rule gen_ok_if gen_ok_return gen_ok_emit gen_ok_quiet gen_ok_set_bstate gen_ok_use_goto_tb
       | simp add: gpr_ok_def)+)

lemma gen_ok_gen_atomic: "gen_ok {rd} (gen_atomic opc rd rs1 rs2)"
  unfolding gen_atomic_def gen_amo_op_def gen_amo_minmax_def emit_defs
  by ((rule gen_ok_bind_temp gen_ok_bind_local gen_ok_bind_const gen_ok_kill_unknown
            gen_ok_exception_mbadaddr gen_ok_exception_exit
       | rule gen_ok_bind
       | rule gen_ok_if gen_ok_return gen_ok_emit gen_ok_quiet gen_ok_set_bstate gen_ok_use_goto_tb
       | simp add: gpr_ok_def)+)

lemma gen_ok_gen_fp_fmadd: "gen_ok {} (gen_fp_fmadd opc rd rs1 rs2 rs3 rm)"
  unfolding gen_fp_fmadd_def emit_defs
  by ((rule gen_ok_bind_temp gen_ok_bind_local gen_ok_bind_const gen_ok_kill_unknown
            gen_ok_exception_mbadaddr gen_ok_exception_exit
       | rule gen_ok_bind
       | rule gen_ok_if gen_ok_return gen_ok_emit gen_ok_quiet gen_ok_set_bstate gen_ok_use_goto_tb
       | simp add: gpr_ok_def)+)

lemma gen_ok_gen_fp_fmsub: "gen_ok {} (gen_fp_fmsub opc rd rs1 rs2 rs3 rm)"
  unfolding gen_fp_fmsub_def emit_defs
  by ((rule gen_ok_bind_temp gen_ok_bind_local gen_ok_bind_const gen_ok_kill_unknown
            gen_ok_exception_mbadaddr gen_ok_exception_exit
       | rule gen_ok_bind
       | rule gen_ok_if gen_ok_return gen_ok_emit gen_ok_quiet gen_ok_set_bstate gen_ok_use_goto_tb
       | simp add: gpr_ok_def)+)

lemma gen_ok_gen_fp_fnmsub: "gen_ok {} (gen_fp_fnmsub opc rd rs1 rs2 rs3 rm)"
  unfolding gen_fp_fnmsub_def emit_defs
  by ((rule gen_ok_bind_temp gen_ok_bind_local gen_ok_bind_const gen_ok_kill_unknown
            gen_ok_exception_mbadaddr gen_ok_exception_exit
       | rule gen_ok_bind
       | rule gen_ok_if gen_ok_return gen_ok_emit gen_ok_quiet gen_ok_set_bstate gen_ok_use_goto_tb
       | simp add: gpr_ok_def)+)

lemma gen_ok_gen_fp_fnmadd: "gen_ok {} (gen_fp_fnmadd opc rd rs1 rs2 rs3 rm)"
  unfolding gen_fp_fnmadd_def emit_defs
  by ((rule gen_ok_bind_temp gen_ok_bind_local gen_ok_bind_const gen_ok_kill_unknown
            gen_ok_exception_mbadaddr gen_ok_exception_exit
       | rule gen_ok_bind
       | rule gen_ok_if gen_ok_return gen_ok_emit gen_ok_quiet gen_ok_set_bstate gen_ok_use_goto_tb
       | simp add: gpr_ok_def)+)

lemma gen_ok_gen_fsgnj: "gen_ok {} (gen_fsgnj rd rs1 rs2 rm minv)"
  unfolding gen_fsgnj_def emit_defs
  by ((rule gen_ok_bind_temp gen_ok_bind_local gen_ok_bind_const gen_ok_kill_unknown
            gen_ok_exception_mbadaddr gen_ok_exception_exit
       | rule gen_ok_bind
       | rule gen_ok_if gen_ok_return gen_ok_emit gen_ok_quiet gen_ok_set_bstate gen_ok_use_goto_tb
       | simp add: gpr_ok_def)+)

lemma gen_ok_gen_fp_arith: "gen_ok {rd} (gen_fp_arith opc rd rs1 rs2 rm)"
  unfolding gen_fp_arith_def emit_defs
  by ((rule gen_ok_bind_temp gen_ok_bind_local gen_ok_bind_const gen_ok_kill_unknown
            gen_ok_exception_mbadaddr gen_ok_exception_exit gen_ok_gen_fsgnj [THEN gen_ok_mono]
       | rule gen_ok_bind
       | rule gen_ok_if gen_ok_return gen_ok_emit gen_ok_quiet gen_ok_set_bstate gen_ok_use_goto_tb
       | simp add: gpr_ok_def)+)

lemma gen_ok_gen_system: "gen_ok {rd} (gen_system opc rd rs1 csr)"
  unfolding gen_system_def emit_defs
  by ((rule gen_ok_bind_temp gen_ok_bind_local gen_ok_bind_const gen_ok_kill_unknown
            gen_ok_exception_mbadaddr gen_ok_exception_exit
       | rule gen_ok_bind
       | rule gen_ok_if gen_ok_return gen_ok_emit gen_ok_quiet gen_ok_set_bstate gen_ok_use_goto_tb
       | simp add: gpr_ok_def)+)

lemmas gen_ok_translators =
  gen_ok_gen_arith [THEN gen_ok_mono] gen_ok_gen_arith_imm [THEN gen_ok_mono] gen_ok_gen_jal [THEN gen_ok_mono]
  gen_ok_gen_jalr [THEN gen_ok_mono] gen_ok_gen_branch [THEN gen_ok_mono] gen_ok_gen_load [THEN gen_ok_mono]
  gen_ok_gen_store [THEN gen_ok_mono] gen_ok_gen_fp_load [THEN gen_ok_mono] gen_ok_gen_fp_store [THEN gen_ok_mono]
  gen_ok_gen_atomic [THEN gen_ok_mono] gen_ok_gen_fp_fmadd [THEN gen_ok_mono] gen_ok_gen_fp_fmsub [THEN gen_ok_mono]
  gen_ok_gen_fp_fnmsub [THEN gen_ok_mono] gen_ok_gen_fp_fnmadd [THEN gen_ok_mono] gen_ok_gen_fp_arith [THEN gen_ok_mono]
  gen_ok_gen_system [THEN gen_ok_mono]

lemma gen_ok_decode_RV32_64C0: "gen_ok UNIV decode_RV32_64C0"
  unfolding decode_RV32_64C0_def emit_defs
  by ((rule gen_ok_bind_temp gen_ok_bind_local gen_ok_bind_const gen_ok_kill_unknown
            gen_ok_exception_mbadaddr gen_ok_exception_exit gen_ok_translators
       | rule gen_ok_bind
       | rule gen_ok_if gen_ok_return gen_ok_emit gen_ok_quiet gen_ok_set_bstate gen_ok_use_goto_tb
       | simp add: gpr_ok_def)+)

lemma gen_ok_decode_RV32_64C1: "gen_ok UNIV (decode_RV32_64C1 e)"
  unfolding decode_RV32_64C1_def emit_defs
  by ((rule gen_ok_bind_temp gen_ok_bind_local gen_ok_bind_const gen_ok_kill_unknown
            gen_ok_exception_mbadaddr gen_ok_exception_exit gen_ok_translators
       | rule gen_ok_bind
       | rule gen_ok_if gen_ok_return gen_ok_emit gen_ok_quiet gen_ok_set_bstate gen_ok_use_goto_tb
       | simp add: gpr_ok_def)+)

lemma gen_ok_decode_RV32_64C2: "gen_ok UNIV (decode_RV32_64C2 e)"
  unfolding decode_RV32_64C2_def emit_defs
  by ((rule gen_ok_bind_temp gen_ok_bind_local gen_ok_bind_const gen_ok_kill_unknown
            gen_ok_exception_mbadaddr gen_ok_exception_exit gen_ok_translators
       | rule gen_ok_bind
       | rule gen_ok_if gen_ok_return gen_ok_emit gen_ok_quiet gen_ok_set_bstate gen_ok_use_goto_tb
       | simp add: gpr_ok_def)+)

lemma gen_ok_decode_RV32_64C: "gen_ok UNIV (decode_RV32_64C e)"
  unfolding decode_RV32_64C_def emit_defs
  by ((rule gen_ok_bind_temp gen_ok_bind_local gen_ok_bind_const gen_ok_kill_unknown
            gen_ok_exception_mbadaddr gen_ok_exception_exit gen_ok_decode_RV32_64C0 gen_ok_decode_RV32_64C1 gen_ok_decode_RV32_64C2
       | rule gen_ok_bind
       | rule gen_ok_if gen_ok_return gen_ok_emit gen_ok_quiet gen_ok_set_bstate gen_ok_use_goto_tb
       | simp add: gpr_ok_def)+)

lemma gen_ok_decode_RV32_64G: "gen_ok UNIV (decode_RV32_64G e)"
  unfolding decode_RV32_64G_def emit_defs
  by ((rule gen_ok_bind_temp gen_ok_bind_local gen_ok_bind_const gen_ok_kill_unknown
            gen_ok_exception_mbadaddr gen_ok_exception_exit gen_ok_translators
       | rule gen_ok_bind
       | rule gen_ok_if gen_ok_return gen_ok_emit gen_ok_quiet gen_ok_set_bstate gen_ok_use_goto_tb
       | simp add: gpr_ok_def)+)

lemma gen_ok_disas_insn: "gen_ok UNIV (disas_insn e)"
  unfolding disas_insn_def emit_defs
  by ((rule gen_ok_bind_temp gen_ok_bind_local gen_ok_bind_const gen_ok_kill_unknown
            gen_ok_exception_mbadaddr gen_ok_exception_exit gen_ok_decode_RV32_64C gen_ok_decode_RV32_64G
       | rule gen_ok_bind
       | rule gen_ok_if gen_ok_return gen_ok_emit gen_ok_quiet gen_ok_set_bstate gen_ok_use_goto_tb
       | simp add: gpr_ok_def)+)

subsection \<open>Illegal encodings end the block\<close>

lemma kill_unknown_bstate: "bstate (ctx (snd (run_state (kill_unknown excp) s))) = BS_STOP"
  by (simp add: kill_unknown_def generate_exception_def tcg_defs)

lemma kill_unknown_raises: "list_ex is_raise (emitted (kill_unknown excp) s)"
  by (simp add: emitted_def kill_unknown_def generate_exception_def tcg_defs)

lemma disas_insn_raise_bstate:
  "list_ex is_raise (emitted (disas_insn e) s) \<Longrightarrow>
   bstate (ctx (snd (run_state (disas_insn e) s))) \<noteq> BS_NONE"
  using gen_ok_disas_insn [of e, unfolded gen_ok_def, THEN spec, of s, THEN emits_emitted]
  by (simp add: emitted_def)

lemma translate_insn_raise_bstate:
  assumes "list_ex is_raise (drop (length (gen_opc_buf s)) (gen_opc_buf (translate_insn ldl_code e s)))"
  shows "bstate (ctx (translate_insn ldl_code e s)) \<noteq> BS_NONE"
proof -
  let ?s1 = "s\<lparr>ctx := (ctx s)\<lparr>opcode := ldl_code (pc (ctx s))\<rparr>\<rparr>"
  have "list_ex is_raise (emitted (disas_insn e) ?s1)"
    using assms by (simp add: translate_insn_def Let_def emitted_def)
  then have "bstate (ctx (snd (run_state (disas_insn e) ?s1))) \<noteq> BS_NONE"
    by (rule disas_insn_raise_bstate)
  then show ?thesis
    by (simp add: translate_insn_def Let_def)
qed

lemma translate_loop_stops:
  assumes "\<not> (breakpoints e \<noteq> [] \<and> pc (ctx s) \<in> set (breakpoints e))"
    and "bstate (ctx (translate_insn ldl_code e s)) \<noteq> BS_NONE"
  shows "translate_loop ldl_code e max_insns opc_max_size s =
           (if temps_in_use (translate_insn ldl_code e s) \<noteq> 0 then None
            else Some (translate_insn ldl_code e s))"
  using assms
  by (subst translate_loop.simps) (auto simp add: Let_def)

text \<open>
  Claim C10, amended. \<^verbatim>\<open>kill_unknown\<close> sets the block state to \<^verbatim>\<open>BS_STOP\<close> and
  emits a call of \<^verbatim>\<open>helper_raise_exception\<close>. Whenever the micro-ops emitted for an
  instruction hold such a call, as they do after every \<^verbatim>\<open>kill_unknown\<close>, the block
  state is not \<^verbatim>\<open>BS_NONE\<close> when \<^verbatim>\<open>disas_insn\<close> returns, and the loop of
  \<^verbatim>\<open>gen_intermediate_code\<close> ends with that instruction: its result is the state
  right after the instruction (or the abort on leaked temporaries), so no further
  guest instruction is translated into the block.
\<close>

theorem kill_unknown_ends_block:
  "bstate (ctx (snd (run_state (kill_unknown excp) s))) = BS_STOP \<and>
   list_ex is_raise (emitted (kill_unknown excp) s) \<and>
   (list_ex is_raise (emitted (disas_insn e) s) \<longrightarrow>
      bstate (ctx (snd (run_state (disas_insn e) s))) \<noteq> BS_NONE) \<and>
   (\<not> (breakpoints e \<noteq> [] \<and> pc (ctx s) \<in> set (breakpoints e)) \<and>
    list_ex is_raise (drop (length (gen_opc_buf s)) (gen_opc_buf (translate_insn ldl_code e s))) \<longrightarrow>
      bstate (ctx (translate_insn ldl_code e s)) \<noteq> BS_NONE \<and>
      translate_loop ldl_code e max_insns opc_max_size s =
        (if temps_in_use (translate_insn ldl_code e s) \<noteq> 0 then None
         else Some (translate_insn ldl_code e s)))"
  using kill_unknown_bstate kill_unknown_raises disas_insn_raise_bstate
    translate_insn_raise_bstate translate_loop_stops
  by blast

theorem kill_unknown_ends_block_witness:
  "bstate (ctx (snd (run_state (kill_unknown RISCV_EXCP_ILLEGAL_INST) (tstate_at 0x1000)))) = BS_STOP \<and>
   list_ex is_raise (emitted (kill_unknown RISCV_EXCP_ILLEGAL_INST) (tstate_at 0x1000)) \<and>
   list_ex is_raise (emitted (disas_insn zero_env) (tstate_at 0x1000)) \<and>
   bstate (ctx (snd (run_state (disas_insn zero_env) (tstate_at 0x1000)))) \<noteq> BS_NONE \<and>
   \<not> (breakpoints zero_env \<noteq> [] \<and> pc (ctx (tstate_at 0x1000)) \<in> set (breakpoints zero_env)) \<and>
   list_ex is_raise (drop (length (gen_opc_buf (tstate_at 0x1000)))
                          (gen_opc_buf (translate_insn illegal_code zero_env (tstate_at 0x1000)))) \<and>
   bstate (ctx (translate_insn illegal_code zero_env (tstate_at 0x1000))) \<noteq> BS_NONE \<and>
   translate_loop illegal_code zero_env 10 100 (tstate_at 0x1000) =
     (if temps_in_use (translate_insn illegal_code zero_env (tstate_at 0x1000)) \<noteq> 0 then None
      else Some (translate_insn illegal_code zero_env (tstate_at 0x1000)))"
proof -
  have a: "list_ex is_raise (emitted (disas_insn zero_env) (tstate_at 0x1000))"
    by code_simp
  have b: "\<not> (breakpoints zero_env \<noteq> [] \<and> pc (ctx (tstate_at 0x1000)) \<in> set (breakpoints zero_env))"
    by (simp add: zero_env_def)
  have c: "list_ex is_raise (drop (length (gen_opc_buf (tstate_at 0x1000)))
                          (gen_opc_buf (translate_insn illegal_code zero_env (tstate_at 0x1000))))"
    by code_simp
  show ?thesis
    using a b c
      kill_unknown_ends_block [where excp = RISCV_EXCP_ILLEGAL_INST and s = "tstate_at 0x1000"
        and e = zero_env and ldl_code = illegal_code and max_insns = 10 and opc_max_size = 100]
    by blast
qed

text \<open>
  The counterexample to claim C10 as it stands: the instruction word \<open>0x2063\<close> is a
  conditional branch with the reserved \<^verbatim>\<open>funct3 = 2\<close>. \<^verbatim>\<open>gen_branch\<close> reaches
  \<^verbatim>\<open>kill_unknown\<close> in its default arm, which emits the illegal-instruction exception
  and sets \<^verbatim>\<open>BS_STOP\<close>, and then goes on to its last statement, which sets
  \<^verbatim>\<open>BS_BRANCH\<close>: the block state after the instruction is \<^verbatim>\<open>BS_BRANCH\<close>, not
  \<^verbatim>\<open>BS_STOP\<close>.
\<close>

theorem reserved_branch_leaves_BS_BRANCH:
  "emitted (disas_insn zero_env) (insn_at 0x1000 0x2063) =
     [INDEX_op_mov (tcg_temp 0) (Imm 0), INDEX_op_mov (tcg_temp 1) (Imm 0),
      INDEX_op_mov cpu_pc (Imm 0x1000), INDEX_op_mov (tcg_temp 2) (Imm 2),
      INDEX_op_call helper_raise_exception None [tcg_temp 2],
      INDEX_op_goto_tb 1, INDEX_op_mov cpu_pc (Imm 0x1004),
      INDEX_op_exit_tb (Some 1), INDEX_op_set_label 0, INDEX_op_goto_tb 0,
      INDEX_op_mov cpu_pc (Imm 0x1000), INDEX_op_exit_tb (Some 0)] \<and>
   bstate (ctx (snd (run_state (disas_insn zero_env) (insn_at 0x1000 0x2063)))) = BS_BRANCH"
  by code_simp

subsection \<open>Register zero\<close>














end
